theory Spec2Isabelle
  imports Main "HOL-Library.Word"
begin

section \<open>Tokens (lexer.h)\<close>

text \<open>
  \<^verbatim>\<open>enum class TokenType\<close> has 87 enumerators.  A token kind is represented by the
  ordinal the C++ compiler gives the enumerator (the value \<^verbatim>\<open>static_cast<int>\<close> prints in
  parser.cpp); \<open>TK_X\<close> stands for \<^verbatim>\<open>TokenType::X\<close>.
\<close>

type_synonym TokenType = nat

definition TK_INTEGER :: TokenType where "TK_INTEGER = 0"
definition TK_FLOAT :: TokenType where "TK_FLOAT = 1"
definition TK_STRING :: TokenType where "TK_STRING = 2"
definition TK_BOOLEAN :: TokenType where "TK_BOOLEAN = 3"
definition TK_NULL_LITERAL :: TokenType where "TK_NULL_LITERAL = 4"
definition TK_IDENTIFIER :: TokenType where "TK_IDENTIFIER = 5"
definition TK_IF :: TokenType where "TK_IF = 6"
definition TK_ELIF :: TokenType where "TK_ELIF = 7"
definition TK_ELSE :: TokenType where "TK_ELSE = 8"
definition TK_FOR :: TokenType where "TK_FOR = 9"
definition TK_WHILE :: TokenType where "TK_WHILE = 10"
definition TK_MATCH :: TokenType where "TK_MATCH = 11"
definition TK_WHEN :: TokenType where "TK_WHEN = 12"
definition TK_BREAK :: TokenType where "TK_BREAK = 13"
definition TK_CONTINUE :: TokenType where "TK_CONTINUE = 14"
definition TK_PASS :: TokenType where "TK_PASS = 15"
definition TK_RETURN :: TokenType where "TK_RETURN = 16"
definition TK_CLASS :: TokenType where "TK_CLASS = 17"
definition TK_CLASS_NAME :: TokenType where "TK_CLASS_NAME = 18"
definition TK_EXTENDS :: TokenType where "TK_EXTENDS = 19"
definition TK_IS :: TokenType where "TK_IS = 20"
definition TK_IN :: TokenType where "TK_IN = 21"
definition TK_AS :: TokenType where "TK_AS = 22"
definition TK_SELF :: TokenType where "TK_SELF = 23"
definition TK_SUPER :: TokenType where "TK_SUPER = 24"
definition TK_SIGNAL :: TokenType where "TK_SIGNAL = 25"
definition TK_FUNC :: TokenType where "TK_FUNC = 26"
definition TK_STATIC :: TokenType where "TK_STATIC = 27"
definition TK_CONST :: TokenType where "TK_CONST = 28"
definition TK_ENUM :: TokenType where "TK_ENUM = 29"
definition TK_VAR :: TokenType where "TK_VAR = 30"
definition TK_BREAKPOINT :: TokenType where "TK_BREAKPOINT = 31"
definition TK_PRELOAD :: TokenType where "TK_PRELOAD = 32"
definition TK_AWAIT :: TokenType where "TK_AWAIT = 33"
definition TK_YIELD :: TokenType where "TK_YIELD = 34"
definition TK_ASSERT :: TokenType where "TK_ASSERT = 35"
definition TK_VOID :: TokenType where "TK_VOID = 36"
definition TK_AND :: TokenType where "TK_AND = 37"
definition TK_OR :: TokenType where "TK_OR = 38"
definition TK_NOT :: TokenType where "TK_NOT = 39"
definition TK_LAMBDA :: TokenType where "TK_LAMBDA = 40"
definition TK_PLUS :: TokenType where "TK_PLUS = 41"
definition TK_MINUS :: TokenType where "TK_MINUS = 42"
definition TK_MULTIPLY :: TokenType where "TK_MULTIPLY = 43"
definition TK_DIVIDE :: TokenType where "TK_DIVIDE = 44"
definition TK_MODULO :: TokenType where "TK_MODULO = 45"
definition TK_ASSIGN :: TokenType where "TK_ASSIGN = 46"
definition TK_PLUS_ASSIGN :: TokenType where "TK_PLUS_ASSIGN = 47"
definition TK_MINUS_ASSIGN :: TokenType where "TK_MINUS_ASSIGN = 48"
definition TK_MULTIPLY_ASSIGN :: TokenType where "TK_MULTIPLY_ASSIGN = 49"
definition TK_DIVIDE_ASSIGN :: TokenType where "TK_DIVIDE_ASSIGN = 50"
definition TK_MODULO_ASSIGN :: TokenType where "TK_MODULO_ASSIGN = 51"
definition TK_TYPE_INFER_ASSIGN :: TokenType where "TK_TYPE_INFER_ASSIGN = 52"
definition TK_EQUAL :: TokenType where "TK_EQUAL = 53"
definition TK_NOT_EQUAL :: TokenType where "TK_NOT_EQUAL = 54"
definition TK_LESS :: TokenType where "TK_LESS = 55"
definition TK_LESS_EQUAL :: TokenType where "TK_LESS_EQUAL = 56"
definition TK_GREATER :: TokenType where "TK_GREATER = 57"
definition TK_GREATER_EQUAL :: TokenType where "TK_GREATER_EQUAL = 58"
definition TK_LOGICAL_AND :: TokenType where "TK_LOGICAL_AND = 59"
definition TK_LOGICAL_OR :: TokenType where "TK_LOGICAL_OR = 60"
definition TK_LOGICAL_NOT :: TokenType where "TK_LOGICAL_NOT = 61"
definition TK_BITWISE_AND :: TokenType where "TK_BITWISE_AND = 62"
definition TK_BITWISE_OR :: TokenType where "TK_BITWISE_OR = 63"
definition TK_BITWISE_XOR :: TokenType where "TK_BITWISE_XOR = 64"
definition TK_BITWISE_NOT :: TokenType where "TK_BITWISE_NOT = 65"
definition TK_LEFT_SHIFT :: TokenType where "TK_LEFT_SHIFT = 66"
definition TK_RIGHT_SHIFT :: TokenType where "TK_RIGHT_SHIFT = 67"
definition TK_LEFT_PAREN :: TokenType where "TK_LEFT_PAREN = 68"
definition TK_RIGHT_PAREN :: TokenType where "TK_RIGHT_PAREN = 69"
definition TK_LEFT_BRACKET :: TokenType where "TK_LEFT_BRACKET = 70"
definition TK_RIGHT_BRACKET :: TokenType where "TK_RIGHT_BRACKET = 71"
definition TK_LEFT_BRACE :: TokenType where "TK_LEFT_BRACE = 72"
definition TK_RIGHT_BRACE :: TokenType where "TK_RIGHT_BRACE = 73"
definition TK_COMMA :: TokenType where "TK_COMMA = 74"
definition TK_DOT :: TokenType where "TK_DOT = 75"
definition TK_COLON :: TokenType where "TK_COLON = 76"
definition TK_SEMICOLON :: TokenType where "TK_SEMICOLON = 77"
definition TK_ARROW :: TokenType where "TK_ARROW = 78"
definition TK_DOLLAR :: TokenType where "TK_DOLLAR = 79"
definition TK_PERCENT :: TokenType where "TK_PERCENT = 80"
definition TK_NEWLINE :: TokenType where "TK_NEWLINE = 81"
definition TK_INDENT :: TokenType where "TK_INDENT = 82"
definition TK_DEDENT :: TokenType where "TK_DEDENT = 83"
definition TK_EOF_TOKEN :: TokenType where "TK_EOF_TOKEN = 84"
definition TK_INVALID :: TokenType where "TK_INVALID = 85"
definition TK_ANNOTATION :: TokenType where "TK_ANNOTATION = 86"

lemmas TokenType_defs =
  TK_INTEGER_def TK_FLOAT_def TK_STRING_def TK_BOOLEAN_def TK_NULL_LITERAL_def
  TK_IDENTIFIER_def TK_IF_def TK_ELIF_def TK_ELSE_def TK_FOR_def TK_WHILE_def TK_MATCH_def
  TK_WHEN_def TK_BREAK_def TK_CONTINUE_def TK_PASS_def TK_RETURN_def TK_CLASS_def
  TK_CLASS_NAME_def TK_EXTENDS_def TK_IS_def TK_IN_def TK_AS_def TK_SELF_def TK_SUPER_def
  TK_SIGNAL_def TK_FUNC_def TK_STATIC_def TK_CONST_def TK_ENUM_def TK_VAR_def
  TK_BREAKPOINT_def TK_PRELOAD_def TK_AWAIT_def TK_YIELD_def TK_ASSERT_def TK_VOID_def
  TK_AND_def TK_OR_def TK_NOT_def TK_LAMBDA_def TK_PLUS_def TK_MINUS_def TK_MULTIPLY_def
  TK_DIVIDE_def TK_MODULO_def TK_ASSIGN_def TK_PLUS_ASSIGN_def TK_MINUS_ASSIGN_def
  TK_MULTIPLY_ASSIGN_def TK_DIVIDE_ASSIGN_def TK_MODULO_ASSIGN_def TK_TYPE_INFER_ASSIGN_def
  TK_EQUAL_def TK_NOT_EQUAL_def TK_LESS_def TK_LESS_EQUAL_def TK_GREATER_def
  TK_GREATER_EQUAL_def TK_LOGICAL_AND_def TK_LOGICAL_OR_def TK_LOGICAL_NOT_def
  TK_BITWISE_AND_def TK_BITWISE_OR_def TK_BITWISE_XOR_def TK_BITWISE_NOT_def
  TK_LEFT_SHIFT_def TK_RIGHT_SHIFT_def TK_LEFT_PAREN_def TK_RIGHT_PAREN_def
  TK_LEFT_BRACKET_def TK_RIGHT_BRACKET_def TK_LEFT_BRACE_def TK_RIGHT_BRACE_def
  TK_COMMA_def TK_DOT_def TK_COLON_def TK_SEMICOLON_def TK_ARROW_def TK_DOLLAR_def
  TK_PERCENT_def TK_NEWLINE_def TK_INDENT_def TK_DEDENT_def TK_EOF_TOKEN_def
  TK_INVALID_def TK_ANNOTATION_def

text \<open>\<^verbatim>\<open>struct Token { TokenType type; std::string value; int line; int column; }\<close>\<close>

record Token =
  tok_type :: TokenType
  tok_value :: string
  tok_line :: int
  tok_column :: int

section \<open>The lexer (lexer.cpp)\<close>

text \<open>
  \<^verbatim>\<open>line\<close>, \<^verbatim>\<open>column\<close> and the indentation levels are C++ \<^verbatim>\<open>int\<close>s of 32 bits.  They are
  integers here, and every increment and decrement of the code goes through \<open>int32\<close>, which
  brings a result outside \<open>-2^31 \<dots> 2^31 - 1\<close> back into this range by wrapping around, as
  the two's complement arithmetic of the machines the compiler runs on does.
\<close>

definition int32 :: "int \<Rightarrow> int" where
  "int32 x = (x + 2 ^ 31) mod 2 ^ 32 - 2 ^ 31"

text \<open>
  The state of a \<^verbatim>\<open>Lexer\<close> object.  A \<^verbatim>\<open>std::vector\<close> is a list whose last element is
  \<^verbatim>\<open>back()\<close>.
\<close>

record Lexer =
  lx_source :: string
  lx_current :: nat
  lx_line :: int
  lx_column :: int
  lx_tokens :: "Token list"
  lx_errors :: "string list"
  lx_indent_stack :: "int list"

definition Lexer_keywords :: "(string \<times> TokenType) list" where
  "Lexer_keywords =
    [(''if'', TK_IF), (''elif'', TK_ELIF), (''else'', TK_ELSE),
     (''for'', TK_FOR), (''while'', TK_WHILE), (''match'', TK_MATCH),
     (''when'', TK_WHEN), (''break'', TK_BREAK), (''continue'', TK_CONTINUE),
     (''pass'', TK_PASS), (''return'', TK_RETURN), (''class'', TK_CLASS),
     (''class_name'', TK_CLASS_NAME), (''extends'', TK_EXTENDS),
     (''is'', TK_IS), (''in'', TK_IN), (''as'', TK_AS),
     (''self'', TK_SELF), (''super'', TK_SUPER), (''signal'', TK_SIGNAL),
     (''func'', TK_FUNC), (''static'', TK_STATIC), (''const'', TK_CONST),
     (''enum'', TK_ENUM), (''var'', TK_VAR), (''breakpoint'', TK_BREAKPOINT),
     (''preload'', TK_PRELOAD), (''await'', TK_AWAIT), (''yield'', TK_YIELD),
     (''assert'', TK_ASSERT), (''void'', TK_VOID), (''and'', TK_AND),
     (''or'', TK_OR), (''not'', TK_NOT), (''lambda'', TK_LAMBDA),
     (''true'', TK_BOOLEAN), (''false'', TK_BOOLEAN), (''null'', TK_NULL_LITERAL)]"

text \<open>The constructor \<^verbatim>\<open>Lexer::Lexer(source)\<close>.\<close>

definition Lexer_init :: "string \<Rightarrow> Lexer" where
  "Lexer_init src =
     \<lparr>lx_source = src, lx_current = 0, lx_line = 1, lx_column = 1,
      lx_tokens = [], lx_errors = [], lx_indent_stack = [0]\<rparr>"

definition NUL :: char where "NUL = CHR 0x00"
definition TAB :: char where "TAB = CHR 0x09"
definition LF :: char where "LF = CHR 0x0A"
definition CR :: char where "CR = CHR 0x0D"

definition peek :: "Lexer \<Rightarrow> nat \<Rightarrow> char" where
  "peek s offset =
     (let pos = lx_current s + offset
      in if pos \<ge> length (lx_source s) then NUL else lx_source s ! pos)"

definition isAtEnd :: "Lexer \<Rightarrow> bool" where
  "isAtEnd s = (lx_current s \<ge> length (lx_source s))"

text \<open>\<^verbatim>\<open>advance\<close> returns the character read and the lexer after the read.\<close>

definition advance :: "Lexer \<Rightarrow> char \<times> Lexer" where
  "advance s =
     (if isAtEnd s then (NUL, s)
      else
        let c = lx_source s ! lx_current s;
            s1 = s\<lparr>lx_current := lx_current s + 1\<rparr>
        in if c = LF then (c, s1\<lparr>lx_line := int32 (lx_line s1 + 1), lx_column := 1\<rparr>)
           else (c, s1\<lparr>lx_column := int32 (lx_column s1 + 1)\<rparr>))"

text \<open>
  \<^verbatim>\<open>std::isalpha\<close> and \<^verbatim>\<open>std::isdigit\<close> in the default "C" locale: the ASCII letters and
  digits.
\<close>

definition isDigit :: "char \<Rightarrow> bool" where
  "isDigit c = (let n = (of_char c :: nat) in 48 \<le> n \<and> n \<le> 57)"

definition isAlpha :: "char \<Rightarrow> bool" where
  "isAlpha c =
     (let n = (of_char c :: nat)
      in (65 \<le> n \<and> n \<le> 90) \<or> (97 \<le> n \<and> n \<le> 122) \<or> c = CHR ''_'')"

definition isAlphaNumeric :: "char \<Rightarrow> bool" where
  "isAlphaNumeric c = (isAlpha c \<or> isDigit c)"

definition addToken :: "TokenType \<Rightarrow> string \<Rightarrow> Lexer \<Rightarrow> Lexer" where
  "addToken t v s =
     s\<lparr>lx_tokens := lx_tokens s @
          [\<lparr>tok_type = t, tok_value = v, tok_line = lx_line s, tok_column = lx_column s\<rparr>]\<rparr>"

text \<open>\<^verbatim>\<open>std::to_string\<close> on an \<^verbatim>\<open>int\<close>: decimal digits, with a leading minus sign.\<close>

fun digits_of_nat :: "nat \<Rightarrow> string" where
  "digits_of_nat n =
     (if n < 10 then [char_of (48 + n)]
      else digits_of_nat (n div 10) @ [char_of (48 + n mod 10)])"

definition to_string :: "int \<Rightarrow> string" where
  "to_string i = (if i < 0 then CHR ''-'' # digits_of_nat (nat (- i)) else digits_of_nat (nat i))"

definition addError :: "string \<Rightarrow> Lexer \<Rightarrow> Lexer" where
  "addError message s =
     s\<lparr>lx_errors := lx_errors s @
          [''Line '' @ to_string (lx_line s) @ '', Column '' @ to_string (lx_column s) @
           '': '' @ message]\<rparr>"


subsection \<open>Scanning loops\<close>

text \<open>
  Every loop below reads characters with \<^verbatim>\<open>advance\<close> while a test on \<^verbatim>\<open>peek()\<close> holds.
  \<^verbatim>\<open>peek\<close> is \<^verbatim>\<open>'\0'\<close> at the end of the source, which fails each of these tests, so the
  loops stop there at the latest: the number of unread characters is the measure.
\<close>

definition remaining :: "Lexer \<Rightarrow> nat" where
  "remaining s = length (lx_source s) - lx_current s"

text \<open>\<^verbatim>\<open>while (isDigit(peek())) value += advance();\<close> (three times in \<^verbatim>\<open>scanNumber\<close>).\<close>

function digits_loop :: "Lexer \<Rightarrow> string \<Rightarrow> Lexer \<times> string" where
  "digits_loop s v =
     (if isDigit (peek s 0) then digits_loop (snd (advance s)) (v @ [fst (advance s)])
      else (s, v))"
  by pat_completeness auto
termination
  by (relation "measure (\<lambda>(s, v). remaining s)")
     (auto simp: remaining_def advance_def peek_def isAtEnd_def isDigit_def NUL_def Let_def
           split: if_splits)

declare digits_loop.simps [simp del]

text \<open>
  \<^verbatim>\<open>while (isAlphaNumeric(peek())) value += advance();\<close> (in \<^verbatim>\<open>scanIdentifier\<close> and in the
  annotation case of \<^verbatim>\<open>scanToken\<close>).
\<close>

function alnum_loop :: "Lexer \<Rightarrow> string \<Rightarrow> Lexer \<times> string" where
  "alnum_loop s v =
     (if isAlphaNumeric (peek s 0) then alnum_loop (snd (advance s)) (v @ [fst (advance s)])
      else (s, v))"
  by pat_completeness auto
termination
  by (relation "measure (\<lambda>(s, v). remaining s)")
     (auto simp: remaining_def advance_def peek_def isAtEnd_def isAlphaNumeric_def isAlpha_def
           isDigit_def NUL_def Let_def split: if_splits)

declare alnum_loop.simps [simp del]

text \<open>The \<^verbatim>\<open>switch (escaped)\<close> of \<^verbatim>\<open>scanString\<close>.\<close>

definition unescape :: "char \<Rightarrow> char" where
  "unescape escaped =
     (if escaped = CHR ''n'' then LF
      else if escaped = CHR ''t'' then TAB
      else if escaped = CHR ''r'' then CR
      else if escaped = CHR 0x5C then CHR 0x5C
      else if escaped = CHR 0x22 then CHR 0x22
      else if escaped = CHR 0x27 then CHR 0x27
      else escaped)"

function scanString_loop :: "char \<Rightarrow> Lexer \<Rightarrow> string \<Rightarrow> Lexer \<times> string" where
  "scanString_loop quote s v =
     (if peek s 0 \<noteq> quote \<and> \<not> isAtEnd s then
        let s1 = (if peek s 0 = LF then s\<lparr>lx_line := int32 (lx_line s + 1), lx_column := 1\<rparr>
                  else s)
        in if peek s1 0 = CHR 0x5C then
             let s2 = snd (advance s1);
                 escaped = fst (advance s2);
                 s3 = snd (advance s2)
             in scanString_loop quote s3 (v @ [unescape escaped])
           else scanString_loop quote (snd (advance s1)) (v @ [fst (advance s1)])
      else (s, v))"
  by pat_completeness auto
termination
  by (relation "measure (\<lambda>(quote, s, v). remaining s)")
     (auto simp: remaining_def advance_def peek_def isAtEnd_def Let_def split: if_splits)

declare scanString_loop.simps [simp del]

definition scanString :: "char \<Rightarrow> Lexer \<Rightarrow> Lexer" where
  "scanString quote s =
     (let (s1, v) = scanString_loop quote s []
      in if isAtEnd s1 then addError ''Unterminated string'' s1
         else addToken TK_STRING v (snd (advance s1)))"

text \<open>The three parts of \<^verbatim>\<open>scanNumber\<close>: integer digits, decimal point, exponent.\<close>

definition scanNumber_fraction :: "Lexer \<Rightarrow> string \<Rightarrow> bool \<times> Lexer \<times> string" where
  "scanNumber_fraction s v =
     (if peek s 0 = CHR ''.'' \<and> isDigit (peek s 1) then
        let (s1, v1) = digits_loop (snd (advance s)) (v @ [fst (advance s)])
        in (True, s1, v1)
      else (False, s, v))"

definition scanNumber_exponent :: "bool \<Rightarrow> Lexer \<Rightarrow> string \<Rightarrow> bool \<times> Lexer \<times> string" where
  "scanNumber_exponent isFloat s v =
     (if peek s 0 = CHR ''e'' \<or> peek s 0 = CHR ''E'' then
        let s1 = snd (advance s);
            v1 = v @ [fst (advance s)];
            (s2, v2) =
              (if peek s1 0 = CHR ''+'' \<or> peek s1 0 = CHR ''-''
               then (snd (advance s1), v1 @ [fst (advance s1)])
               else (s1, v1));
            (s3, v3) = digits_loop s2 v2
        in (True, s3, v3)
      else (isFloat, s, v))"

definition scanNumber :: "Lexer \<Rightarrow> Lexer" where
  "scanNumber s =
     (let (s1, v1) = digits_loop s [];
          (isFloat1, s2, v2) = scanNumber_fraction s1 v1;
          (isFloat2, s3, v3) = scanNumber_exponent isFloat1 s2 v2
      in addToken (if isFloat2 then TK_FLOAT else TK_INTEGER) v3 s3)"

definition scanIdentifier :: "Lexer \<Rightarrow> Lexer" where
  "scanIdentifier s =
     (let (s1, v) = alnum_loop s [];
          t = (case map_of Lexer_keywords v of Some k \<Rightarrow> k | None \<Rightarrow> TK_IDENTIFIER)
      in addToken t v s1)"

function scanComment :: "Lexer \<Rightarrow> Lexer" where
  "scanComment s =
     (if peek s 0 \<noteq> LF \<and> \<not> isAtEnd s then scanComment (snd (advance s)) else s)"
  by pat_completeness auto
termination
  by (relation "measure remaining")
     (auto simp: remaining_def advance_def peek_def isAtEnd_def Let_def split: if_splits)

declare scanComment.simps [simp del]

subsection \<open>Indentation\<close>

text \<open>The loop of \<^verbatim>\<open>handleIndentation\<close> that counts leading blanks (a tab counts 4).\<close>

function indent_count_loop :: "Lexer \<Rightarrow> int \<Rightarrow> Lexer \<times> int" where
  "indent_count_loop s indent_level =
     (if peek s 0 = CHR '' '' \<or> peek s 0 = TAB then
        indent_count_loop (snd (advance s))
          (if peek s 0 = CHR '' '' then int32 (indent_level + 1) else int32 (indent_level + 4))
      else (s, indent_level))"
  by pat_completeness auto
termination
  by (relation "measure (\<lambda>(s, i). remaining s)")
     (auto simp: remaining_def advance_def peek_def isAtEnd_def NUL_def TAB_def Let_def
           split: if_splits)

declare indent_count_loop.simps [simp del]

text \<open>
  \<^verbatim>\<open>while (!indent_stack.empty() && indent_stack.back() > indent_level)
  { indent_stack.pop_back(); addToken(TokenType::DEDENT); }\<close>
\<close>

function dedent_loop :: "int \<Rightarrow> Lexer \<Rightarrow> Lexer" where
  "dedent_loop indent_level s =
     (if lx_indent_stack s \<noteq> [] \<and> last (lx_indent_stack s) > indent_level then
        dedent_loop indent_level
          (addToken TK_DEDENT [] (s\<lparr>lx_indent_stack := butlast (lx_indent_stack s)\<rparr>))
      else s)"
  by pat_completeness auto
termination
  by (relation "measure (\<lambda>(i, s). length (lx_indent_stack s))")
     (auto simp: addToken_def)

declare dedent_loop.simps [simp del]

text \<open>
  \<^verbatim>\<open>handleIndentation\<close>.  The level counted and the levels on the stack are 32-bit
  integers.  \<^verbatim>\<open>indent_stack.back()\<close> is read without an emptiness test; the stack holds its
  initial 0 as long as no indentation level has wrapped around to a negative number.  On an
  empty stack the value read is \<open>last []\<close>, of which nothing is known, and no theorem
  depends on it.
\<close>

definition handleIndentation :: "Lexer \<Rightarrow> Lexer" where
  "handleIndentation s =
     (let (s1, indent_level) = indent_count_loop s 0
      in if peek s1 0 = LF \<or> peek s1 0 = CHR ''#'' then s1
         else
           let current_indent = last (lx_indent_stack s1)
           in if indent_level > current_indent then
                addToken TK_INDENT [] (s1\<lparr>lx_indent_stack := lx_indent_stack s1 @ [indent_level]\<rparr>)
              else if indent_level < current_indent then
                let s2 = dedent_loop indent_level s1
                in if lx_indent_stack s2 = [] \<or> last (lx_indent_stack s2) \<noteq> indent_level
                   then addError ''Invalid indentation level'' s2
                   else s2
              else s1)"

subsection \<open>\<^verbatim>\<open>scanToken\<close>\<close>

text \<open>
  The pattern \<^verbatim>\<open>if (peek() == c2) { advance(); addToken(two); } else addToken(one);\<close> of
  the operator cases.
\<close>

definition op2 :: "char \<Rightarrow> TokenType \<Rightarrow> TokenType \<Rightarrow> Lexer \<Rightarrow> Lexer" where
  "op2 c2 two one s =
     (if peek s 0 = c2 then addToken two [] (snd (advance s)) else addToken one [] s)"

definition op3 :: "char \<Rightarrow> TokenType \<Rightarrow> char \<Rightarrow> TokenType \<Rightarrow> TokenType \<Rightarrow> Lexer \<Rightarrow> Lexer" where
  "op3 c2 two c3 three one s =
     (if peek s 0 = c2 then addToken two [] (snd (advance s))
      else if peek s 0 = c3 then addToken three [] (snd (advance s))
      else addToken one [] s)"

text \<open>\<^verbatim>\<open>current--; column--;\<close> before \<^verbatim>\<open>scanNumber\<close> and \<^verbatim>\<open>scanIdentifier\<close>.\<close>

definition back_up :: "Lexer \<Rightarrow> Lexer" where
  "back_up s = s\<lparr>lx_current := lx_current s - 1, lx_column := int32 (lx_column s - 1)\<rparr>"

definition scanToken :: "Lexer \<Rightarrow> Lexer" where
  "scanToken s0 =
     (let c = fst (advance s0); s = snd (advance s0)
      in if c = CHR '' '' \<or> c = CR \<or> c = TAB then s
         else if c = LF then handleIndentation (addToken TK_NEWLINE [] s)
         else if c = CHR ''#'' then scanComment s
         else if c = CHR ''@'' then
           (if isAlpha (peek s 0) then
              let (s1, annotation) = alnum_loop s ''@''
              in addToken TK_ANNOTATION annotation s1
            else addError ''Invalid annotation'' s)
         else if c = CHR ''('' then addToken TK_LEFT_PAREN [] s
         else if c = CHR '')'' then addToken TK_RIGHT_PAREN [] s
         else if c = CHR ''['' then addToken TK_LEFT_BRACKET [] s
         else if c = CHR '']'' then addToken TK_RIGHT_BRACKET [] s
         else if c = CHR ''{'' then addToken TK_LEFT_BRACE [] s
         else if c = CHR ''}'' then addToken TK_RIGHT_BRACE [] s
         else if c = CHR '','' then addToken TK_COMMA [] s
         else if c = CHR ''.'' then addToken TK_DOT [] s
         else if c = CHR '':'' then op2 (CHR ''='') TK_TYPE_INFER_ASSIGN TK_COLON s
         else if c = CHR '';'' then addToken TK_SEMICOLON [] s
         else if c = CHR ''$'' then addToken TK_DOLLAR [] s
         else if c = CHR ''+'' then op2 (CHR ''='') TK_PLUS_ASSIGN TK_PLUS s
         else if c = CHR ''-'' then op3 (CHR ''='') TK_MINUS_ASSIGN (CHR ''>'') TK_ARROW TK_MINUS s
         else if c = CHR ''*'' then op2 (CHR ''='') TK_MULTIPLY_ASSIGN TK_MULTIPLY s
         else if c = CHR ''/'' then op2 (CHR ''='') TK_DIVIDE_ASSIGN TK_DIVIDE s
         else if c = CHR ''%'' then op2 (CHR ''='') TK_MODULO_ASSIGN TK_MODULO s
         else if c = CHR ''='' then op2 (CHR ''='') TK_EQUAL TK_ASSIGN s
         else if c = CHR ''!'' then op2 (CHR ''='') TK_NOT_EQUAL TK_LOGICAL_NOT s
         else if c = CHR ''<'' then op3 (CHR ''='') TK_LESS_EQUAL (CHR ''<'') TK_LEFT_SHIFT TK_LESS s
         else if c = CHR ''>'' then
           op3 (CHR ''='') TK_GREATER_EQUAL (CHR ''>'') TK_RIGHT_SHIFT TK_GREATER s
         else if c = CHR ''&'' then op2 (CHR ''&'') TK_LOGICAL_AND TK_BITWISE_AND s
         else if c = CHR ''|'' then op2 (CHR ''|'') TK_LOGICAL_OR TK_BITWISE_OR s
         else if c = CHR ''^'' then addToken TK_BITWISE_XOR [] s
         else if c = CHR ''~'' then addToken TK_BITWISE_NOT [] s
         else if c = CHR 0x22 \<or> c = CHR 0x27 then scanString c s
         else if isDigit c then scanNumber (back_up s)
         else if isAlpha c then scanIdentifier (back_up s)
         else addError (''Unexpected character: '' @ [c]) s)"


subsection \<open>\<^verbatim>\<open>tokenize\<close>\<close>

text \<open>
  \<^verbatim>\<open>while (!isAtEnd()) scanToken();\<close>  Every call of \<^verbatim>\<open>scanToken\<close> reads at least one
  character (lemma \<open>scanToken_strict\<close>), which is the termination argument given with the
  lemmas on the lexer below.
\<close>

function tokenize_loop :: "Lexer \<Rightarrow> Lexer" where
  "tokenize_loop s = (if \<not> isAtEnd s then tokenize_loop (scanToken s) else s)"
  by pat_completeness auto

text \<open>
  \<^verbatim>\<open>while (indent_stack.size() > 1) { indent_stack.pop_back(); addToken(TokenType::DEDENT); }\<close>
\<close>

function final_dedents :: "Lexer \<Rightarrow> Lexer" where
  "final_dedents s =
     (if length (lx_indent_stack s) > 1 then
        final_dedents (addToken TK_DEDENT [] (s\<lparr>lx_indent_stack := butlast (lx_indent_stack s)\<rparr>))
      else s)"
  by pat_completeness auto
termination
  by (relation "measure (\<lambda>s. length (lx_indent_stack s))") (auto simp: addToken_def)

declare final_dedents.simps [simp del]

text \<open>
  The body of \<^verbatim>\<open>Lexer::tokenize\<close> as a function on the lexer object; the errors it prints to
  \<^verbatim>\<open>std::cerr\<close> stay in \<open>lx_errors\<close>.
\<close>

definition Lexer_tokenize :: "Lexer \<Rightarrow> Lexer" where
  "Lexer_tokenize s0 =
     (let s1 = tokenize_loop s0;
          s2 = (if lx_tokens s1 \<noteq> [] \<and> tok_type (last (lx_tokens s1)) \<noteq> TK_NEWLINE
                then addToken TK_NEWLINE [] s1 else s1);
          s3 = final_dedents s2
      in addToken TK_EOF_TOKEN [] s3)"

text \<open>\<^verbatim>\<open>Lexer(source).tokenize()\<close>: the token stream of a source text.\<close>

definition tokenize :: "string \<Rightarrow> Token list" where
  "tokenize src = lx_tokens (Lexer_tokenize (Lexer_init src))"

definition count_type :: "TokenType \<Rightarrow> Token list \<Rightarrow> nat" where
  "count_type t toks = length (filter (\<lambda>k. tok_type k = t) toks)"

section \<open>The syntax tree (parser.h)\<close>

text \<open>
  Every node class derives from \<^verbatim>\<open>ASTNode\<close>, which holds \<^verbatim>\<open>type\<close>, \<^verbatim>\<open>line\<close> and \<^verbatim>\<open>column\<close>.
  The node kind is the constructor; the last two arguments of every constructor are
  \<^verbatim>\<open>line\<close> and \<^verbatim>\<open>column\<close>.  A \<^verbatim>\<open>std::unique_ptr\<close> that the parser can leave null is an
  \<open>option\<close>.  Three places hold pointers that are never null, because the parser tests them
  before it stores them, and that the later passes dereference without a test: the callee of
  a call (\<^verbatim>\<open>Parser::call\<close> returns early when \<^verbatim>\<open>primary\<close> fails), the statements of a block
  or program and the members of a class.
\<close>

datatype Expression =
    LiteralExpr string TokenType int int
  | IdentifierExpr string int int
  | BinaryOpExpr "Expression option" TokenType "Expression option" int int
  | UnaryOpExpr TokenType "Expression option" int int
  | TernaryExpr "Expression option" "Expression option" "Expression option" int int
  | CallExpr Expression "Expression option list" int int
  | MemberAccessExpr "Expression option" string int int
  | ArrayAccessExpr "Expression option" "Expression option" int int
  | ArrayLiteralExpr "Expression option list" int int
  | DictLiteralExpr "(Expression option \<times> Expression option) list" int int
  | LambdaExpr "Parameter list" "Expression option" int int
and Parameter = Parameter (param_name: string) (param_type: string)
                  (param_default_value: "Expression option")

text \<open>
  \<^verbatim>\<open>TernaryExpr(cond, true_val, false_val)\<close>: the fields are \<^verbatim>\<open>condition\<close>, \<^verbatim>\<open>true_expr\<close>,
  \<^verbatim>\<open>false_expr\<close> in this order.
\<close>

datatype EnumValue = EnumValue (enum_value_name: string) (enum_value_value: "Expression option")

text \<open>
  \<^verbatim>\<open>VarDecl name type initializer is_static annotations\<close>,
  \<^verbatim>\<open>FuncDecl name parameters return_type body is_static annotations\<close>,
  \<^verbatim>\<open>ClassDecl name base_class members annotations\<close>.
\<close>

datatype Statement =
    ExpressionStmt "Expression option" int int
  | BlockStmt "Statement list" int int
  | IfStmt "Expression option" "Statement option" "Statement option" int int
  | WhileStmt "Expression option" "Statement option" int int
  | ForStmt string "Expression option" "Statement option" int int
  | MatchStmt "Expression option" "MatchCase list" int int
  | ReturnStmt "Expression option" int int
  | BreakStmt int int
  | ContinueStmt int int
  | PassStmt int int
  | VarDecl string string "Expression option" bool "string list" int int
  | ConstDecl string "Expression option" int int
  | FuncDecl string "Parameter list" string "Statement option" bool "string list" int int
  | ClassDecl string string "Statement list" "string list" int int
  | SignalDecl string "Parameter list" int int
  | EnumDecl string "EnumValue list" int int
and MatchCase = MatchCase "Expression option" "Statement option"

datatype Program = Program "Statement list" int int

text \<open>The \<^verbatim>\<open>line\<close> field of a node.\<close>

fun expr_line :: "Expression \<Rightarrow> int" where
  "expr_line (LiteralExpr v lt l c) = l"
| "expr_line (IdentifierExpr n l c) = l"
| "expr_line (BinaryOpExpr a op b l c) = l"
| "expr_line (UnaryOpExpr op a l c) = l"
| "expr_line (TernaryExpr a b d l c) = l"
| "expr_line (CallExpr f args l c) = l"
| "expr_line (MemberAccessExpr ob m l c) = l"
| "expr_line (ArrayAccessExpr a i l c) = l"
| "expr_line (ArrayLiteralExpr es l c) = l"
| "expr_line (DictLiteralExpr ps l c) = l"
| "expr_line (LambdaExpr ps b l c) = l"

fun stmt_line :: "Statement \<Rightarrow> int" where
  "stmt_line (ExpressionStmt e l c) = l"
| "stmt_line (BlockStmt ss l c) = l"
| "stmt_line (IfStmt e t f l c) = l"
| "stmt_line (WhileStmt e b l c) = l"
| "stmt_line (ForStmt v e b l c) = l"
| "stmt_line (MatchStmt e cs l c) = l"
| "stmt_line (ReturnStmt e l c) = l"
| "stmt_line (BreakStmt l c) = l"
| "stmt_line (ContinueStmt l c) = l"
| "stmt_line (PassStmt l c) = l"
| "stmt_line (VarDecl n t i st an l c) = l"
| "stmt_line (ConstDecl n v l c) = l"
| "stmt_line (FuncDecl n ps rt b st an l c) = l"
| "stmt_line (ClassDecl n bc ms an l c) = l"
| "stmt_line (SignalDecl n ps l c) = l"
| "stmt_line (EnumDecl n vs l c) = l"

section \<open>Types of the semantic analyzer (semantic\_analyzer.h)\<close>

datatype GDType =
    GD_VOID | GD_INT | GD_FLOAT | GD_STRING | GD_BOOL | GD_ARRAY | GD_DICTIONARY
  | GD_VECTOR2 | GD_VECTOR3 | GD_NODE | GD_OBJECT | GD_VARIANT | GD_CUSTOM | GD_LAMBDA
  | GD_UNKNOWN

datatype TypeInfo =
  TypeInfo (base_type: GDType) (custom_name: string) (generic_params: "TypeInfo list")

text \<open>The constructor \<^verbatim>\<open>TypeInfo(GDType type = UNKNOWN, const std::string& name = "")\<close>.\<close>

definition TypeInfo_of :: "GDType \<Rightarrow> TypeInfo" where
  "TypeInfo_of t = TypeInfo t [] []"

text \<open>\<^verbatim>\<open>TypeInfo::operator==\<close> compares the base type and the custom name only.\<close>

definition TypeInfo_eq :: "TypeInfo \<Rightarrow> TypeInfo \<Rightarrow> bool" where
  "TypeInfo_eq a b = (base_type a = base_type b \<and> custom_name a = custom_name b)"

definition isNumeric :: "TypeInfo \<Rightarrow> bool" where
  "isNumeric t = (base_type t = GD_INT \<or> base_type t = GD_FLOAT)"

text \<open>\<^verbatim>\<open>this->isCompatibleWith(other)\<close>.\<close>

definition isCompatibleWith :: "TypeInfo \<Rightarrow> TypeInfo \<Rightarrow> bool" where
  "isCompatibleWith this other =
     (if TypeInfo_eq this other then True
      else if base_type other = GD_VARIANT \<or> base_type this = GD_VARIANT then True
      else if isNumeric this \<and> isNumeric other then True
      else if base_type other = GD_STRING then True
      else if base_type this = GD_NODE \<and> base_type other = GD_OBJECT then True
      else if base_type this = GD_OBJECT \<and> base_type other = GD_NODE then True
      else False)"

fun join_comma :: "string list \<Rightarrow> string" where
  "join_comma [] = []"
| "join_comma [x] = x"
| "join_comma (x # y # ys) = x @ '', '' @ join_comma (y # ys)"

fun TypeInfo_toString :: "TypeInfo \<Rightarrow> string" where
  "TypeInfo_toString (TypeInfo b n gs) =
     (case b of
        GD_VOID \<Rightarrow> ''void'' | GD_INT \<Rightarrow> ''int'' | GD_FLOAT \<Rightarrow> ''float''
      | GD_STRING \<Rightarrow> ''String'' | GD_BOOL \<Rightarrow> ''bool'' | GD_ARRAY \<Rightarrow> ''Array''
      | GD_DICTIONARY \<Rightarrow> ''Dictionary'' | GD_VECTOR2 \<Rightarrow> ''Vector2''
      | GD_VECTOR3 \<Rightarrow> ''Vector3'' | GD_NODE \<Rightarrow> ''Node'' | GD_OBJECT \<Rightarrow> ''Object''
      | GD_VARIANT \<Rightarrow> ''Variant'' | GD_CUSTOM \<Rightarrow> n | GD_LAMBDA \<Rightarrow> ''lambda''
      | GD_UNKNOWN \<Rightarrow> ''unknown'') @
     (if gs \<noteq> [] then ''['' @ join_comma (map TypeInfo_toString gs) @ '']'' else [])"

subsection \<open>Result types of operators\<close>

definition getUnaryResultType :: "TokenType \<Rightarrow> TypeInfo \<Rightarrow> TypeInfo" where
  "getUnaryResultType op operand =
     (if op = TK_MINUS \<or> op = TK_PLUS then
        (if isNumeric operand then operand else TypeInfo_of GD_UNKNOWN)
      else if op = TK_NOT \<or> op = TK_LOGICAL_NOT then TypeInfo_of GD_BOOL
      else TypeInfo_of GD_UNKNOWN)"

text \<open>
  The value of \<^verbatim>\<open>(left.base_type == FLOAT || right.base_type == FLOAT) ? FLOAT : INT\<close>.
\<close>

definition numeric_result :: "TypeInfo \<Rightarrow> TypeInfo \<Rightarrow> TypeInfo" where
  "numeric_result left right =
     (if base_type left = GD_FLOAT \<or> base_type right = GD_FLOAT
      then TypeInfo_of GD_FLOAT else TypeInfo_of GD_INT)"

text \<open>
  \<^verbatim>\<open>getBinaryResultType\<close>: the test for \<^verbatim>\<open>VARIANT\<close> comes first and returns; then the
  \<^verbatim>\<open>switch\<close> on the operator, each case falling out to \<^verbatim>\<open>UNKNOWN\<close> when its tests fail.
\<close>

definition getBinaryResultType :: "TypeInfo \<Rightarrow> TokenType \<Rightarrow> TypeInfo \<Rightarrow> TypeInfo" where
  "getBinaryResultType left op right =
     (if base_type left = GD_VARIANT \<or> base_type right = GD_VARIANT then TypeInfo_of GD_VARIANT
      else if op = TK_PLUS then
        (if base_type left = GD_STRING \<or> base_type right = GD_STRING then TypeInfo_of GD_STRING
         else if isNumeric left \<and> isNumeric right then numeric_result left right
         else TypeInfo_of GD_UNKNOWN)
      else if op = TK_MINUS \<or> op = TK_MULTIPLY \<or> op = TK_DIVIDE then
        (if isNumeric left \<and> isNumeric right then numeric_result left right
         else TypeInfo_of GD_UNKNOWN)
      else if op = TK_MODULO then
        (if base_type left = GD_STRING \<and> base_type right = GD_ARRAY then TypeInfo_of GD_STRING
         else if isNumeric left \<and> isNumeric right then numeric_result left right
         else TypeInfo_of GD_UNKNOWN)
      else if op = TK_ASSIGN \<or> op = TK_PLUS_ASSIGN \<or> op = TK_MINUS_ASSIGN \<or>
              op = TK_MULTIPLY_ASSIGN \<or> op = TK_DIVIDE_ASSIGN \<or> op = TK_MODULO_ASSIGN then
        (if isCompatibleWith right left then left else TypeInfo_of GD_UNKNOWN)
      else if op = TK_TYPE_INFER_ASSIGN then right
      else if op = TK_EQUAL \<or> op = TK_NOT_EQUAL \<or> op = TK_LESS \<or> op = TK_LESS_EQUAL \<or>
              op = TK_GREATER \<or> op = TK_GREATER_EQUAL then
        (if (isNumeric left \<and> isNumeric right) \<or>
            (base_type left = GD_STRING \<and> base_type right = GD_STRING) \<or>
            base_type left = GD_VARIANT \<or> base_type right = GD_VARIANT
         then TypeInfo_of GD_BOOL
         else TypeInfo_of GD_UNKNOWN)
      else if op = TK_AND \<or> op = TK_OR \<or> op = TK_LOGICAL_AND \<or> op = TK_LOGICAL_OR then
        TypeInfo_of GD_BOOL
      else TypeInfo_of GD_UNKNOWN)"

text \<open>The six comparison operators.\<close>

definition is_comparison :: "TokenType \<Rightarrow> bool" where
  "is_comparison op =
     (op = TK_EQUAL \<or> op = TK_NOT_EQUAL \<or> op = TK_LESS \<or> op = TK_LESS_EQUAL \<or>
      op = TK_GREATER \<or> op = TK_GREATER_EQUAL)"

section \<open>The semantic analyzer (semantic\_analyzer.cpp)\<close>

subsection \<open>Symbols, signatures, classes and scopes\<close>

record Symbol =
  sym_name :: string
  sym_type :: TypeInfo
  sym_is_constant :: bool
  sym_is_static :: bool
  sym_is_initialized :: bool
  sym_declaration_line :: int

text \<open>
  \<^verbatim>\<open>Symbol(n, t, constant = false, static_var = false, line = 0)\<close>; \<^verbatim>\<open>is_initialized\<close> starts
  \<^verbatim>\<open>false\<close>.  \<^verbatim>\<open>Symbol()\<close> has an empty name and the default \<^verbatim>\<open>TypeInfo\<close>, \<^verbatim>\<open>UNKNOWN\<close>.
\<close>

definition Symbol_of :: "string \<Rightarrow> TypeInfo \<Rightarrow> bool \<Rightarrow> bool \<Rightarrow> int \<Rightarrow> Symbol" where
  "Symbol_of n t constant static_var line =
     \<lparr>sym_name = n, sym_type = t, sym_is_constant = constant, sym_is_static = static_var,
      sym_is_initialized = False, sym_declaration_line = line\<rparr>"

definition Symbol_default :: Symbol where
  "Symbol_default =
     \<lparr>sym_name = [], sym_type = TypeInfo_of GD_UNKNOWN, sym_is_constant = False,
      sym_is_static = False, sym_is_initialized = False, sym_declaration_line = 0\<rparr>"

record FunctionSignature =
  fs_name :: string
  fs_parameter_types :: "TypeInfo list"
  fs_return_type :: TypeInfo
  fs_is_static :: bool
  fs_is_variadic :: bool
  fs_declaration_line :: int

text \<open>
  \<^verbatim>\<open>FunctionSignature(n, params, ret, static_func = false, variadic = false, line = 0)\<close>.
\<close>

definition FunctionSignature_of ::
  "string \<Rightarrow> TypeInfo list \<Rightarrow> TypeInfo \<Rightarrow> bool \<Rightarrow> bool \<Rightarrow> int \<Rightarrow> FunctionSignature" where
  "FunctionSignature_of n params ret static_func variadic line =
     \<lparr>fs_name = n, fs_parameter_types = params, fs_return_type = ret,
      fs_is_static = static_func, fs_is_variadic = variadic, fs_declaration_line = line\<rparr>"

text \<open>
  \<^verbatim>\<open>analyzeFuncDecl\<close> and \<^verbatim>\<open>analyzeClassDecl\<close> build a signature with the call
  \<^verbatim>\<open>FunctionSignature signature(name, param_types, return_type, is_static, decl->line)\<close>:
  five arguments, so the \<^verbatim>\<open>int\<close> line is converted to the \<^verbatim>\<open>bool\<close> parameter \<^verbatim>\<open>variadic\<close>
  (true when the line is not 0) and \<^verbatim>\<open>declaration_line\<close> keeps its default 0.
\<close>

definition declared_signature ::
  "string \<Rightarrow> TypeInfo list \<Rightarrow> TypeInfo \<Rightarrow> bool \<Rightarrow> int \<Rightarrow> FunctionSignature" where
  "declared_signature n params ret static_func line =
     FunctionSignature_of n params ret static_func (line \<noteq> 0) 0"

record ClassInfo =
  ci_name :: string
  ci_base_class :: string
  ci_members :: "string \<rightharpoonup> Symbol"
  ci_methods :: "string \<rightharpoonup> FunctionSignature"
  ci_signals :: "string list"
  ci_declaration_line :: int

record Scope =
  sc_symbols :: "string \<rightharpoonup> Symbol"
  sc_functions :: "string \<rightharpoonup> FunctionSignature"

definition Scope_empty :: Scope where
  "Scope_empty = \<lparr>sc_symbols = Map.empty, sc_functions = Map.empty\<rparr>"

text \<open>
  The analyzer object.  The scopes form a chain through their \<^verbatim>\<open>parent\<close> pointers, from
  \<^verbatim>\<open>current_scope\<close> up to the global scope: \<open>sa_current_scope\<close> is the scope
  \<^verbatim>\<open>current_scope\<close> points to and \<open>sa_parents\<close> are its ancestors, the nearest first (the
  global scope is the last scope of the chain).
\<close>

record SemanticAnalyzer =
  sa_errors :: "string list"
  sa_warnings :: "string list"
  sa_current_scope :: Scope
  sa_parents :: "Scope list"
  sa_classes :: "string \<rightharpoonup> ClassInfo"
  sa_builtin_types :: "string \<rightharpoonup> TypeInfo"
  sa_current_class :: string
  sa_current_function :: string
  sa_in_loop :: bool
  sa_expected_return_type :: TypeInfo

text \<open>\<^verbatim>\<open>Scope::findSymbol\<close> and \<^verbatim>\<open>Scope::findFunction\<close> walk the chain of parents.\<close>

fun Scope_findSymbol :: "Scope list \<Rightarrow> string \<Rightarrow> Symbol option" where
  "Scope_findSymbol [] name = None"
| "Scope_findSymbol (sc # parents) name =
     (case sc_symbols sc name of Some y \<Rightarrow> Some y | None \<Rightarrow> Scope_findSymbol parents name)"

fun Scope_findFunction :: "Scope list \<Rightarrow> string \<Rightarrow> FunctionSignature option" where
  "Scope_findFunction [] name = None"
| "Scope_findFunction (sc # parents) name =
     (case sc_functions sc name of Some y \<Rightarrow> Some y | None \<Rightarrow> Scope_findFunction parents name)"

text \<open>\<^verbatim>\<open>current_scope->findSymbol(name)\<close> and \<^verbatim>\<open>current_scope->findFunction(name)\<close>.\<close>

definition findSymbol :: "SemanticAnalyzer \<Rightarrow> string \<Rightarrow> Symbol option" where
  "findSymbol sa name = Scope_findSymbol (sa_current_scope sa # sa_parents sa) name"

definition findFunction :: "SemanticAnalyzer \<Rightarrow> string \<Rightarrow> FunctionSignature option" where
  "findFunction sa name = Scope_findFunction (sa_current_scope sa # sa_parents sa) name"

text \<open>
  \<^verbatim>\<open>current_scope->defineSymbol(symbol)\<close> is \<^verbatim>\<open>symbols[symbol.name] = symbol\<close>: it overwrites.
\<close>

definition defineSymbol :: "Symbol \<Rightarrow> SemanticAnalyzer \<Rightarrow> SemanticAnalyzer" where
  "defineSymbol symbol sa =
     sa\<lparr>sa_current_scope := (sa_current_scope sa)
          \<lparr>sc_symbols := (sc_symbols (sa_current_scope sa))(sym_name symbol \<mapsto> symbol)\<rparr>\<rparr>"

definition defineFunction :: "FunctionSignature \<Rightarrow> SemanticAnalyzer \<Rightarrow> SemanticAnalyzer" where
  "defineFunction f sa =
     sa\<lparr>sa_current_scope := (sa_current_scope sa)
          \<lparr>sc_functions := (sc_functions (sa_current_scope sa))(fs_name f \<mapsto> f)\<rparr>\<rparr>"

definition enterScope :: "SemanticAnalyzer \<Rightarrow> SemanticAnalyzer" where
  "enterScope sa =
     sa\<lparr>sa_current_scope := Scope_empty, sa_parents := sa_current_scope sa # sa_parents sa\<rparr>"

text \<open>\<^verbatim>\<open>exitScope\<close> does nothing in the global scope, which has no parent.\<close>

definition exitScope :: "SemanticAnalyzer \<Rightarrow> SemanticAnalyzer" where
  "exitScope sa =
     (case sa_parents sa of
        [] \<Rightarrow> sa
      | p # ps \<Rightarrow> sa\<lparr>sa_current_scope := p, sa_parents := ps\<rparr>)"

definition sa_addError :: "string \<Rightarrow> int \<Rightarrow> SemanticAnalyzer \<Rightarrow> SemanticAnalyzer" where
  "sa_addError message line sa =
     sa\<lparr>sa_errors := sa_errors sa @
          [''Semantic Error'' @ (if line > 0 then '' at line '' @ to_string line else []) @
           '': '' @ message]\<rparr>"

definition sa_addWarning :: "string \<Rightarrow> int \<Rightarrow> SemanticAnalyzer \<Rightarrow> SemanticAnalyzer" where
  "sa_addWarning message line sa =
     sa\<lparr>sa_warnings := sa_warnings sa @
          [''Warning'' @ (if line > 0 then '' at line '' @ to_string line else []) @
           '': '' @ message]\<rparr>"

text \<open>The constructor with \<^verbatim>\<open>initializeBuiltinTypes\<close>.\<close>

definition builtin_types_table :: "(string \<times> TypeInfo) list" where
  "builtin_types_table =
     [(''int'', TypeInfo_of GD_INT), (''float'', TypeInfo_of GD_FLOAT),
      (''String'', TypeInfo_of GD_STRING), (''bool'', TypeInfo_of GD_BOOL),
      (''Array'', TypeInfo_of GD_ARRAY), (''Dictionary'', TypeInfo_of GD_DICTIONARY),
      (''Vector2'', TypeInfo_of GD_VECTOR2), (''Vector3'', TypeInfo_of GD_VECTOR3),
      (''Node'', TypeInfo_of GD_NODE), (''Object'', TypeInfo_of GD_OBJECT),
      (''Variant'', TypeInfo_of GD_VARIANT), (''void'', TypeInfo_of GD_VOID)]"

definition SemanticAnalyzer_init :: SemanticAnalyzer where
  "SemanticAnalyzer_init =
     (defineFunction
        (FunctionSignature_of ''str'' [TypeInfo_of GD_VARIANT] (TypeInfo_of GD_STRING) False False 0)
     (defineFunction
        (FunctionSignature_of ''len'' [TypeInfo_of GD_VARIANT] (TypeInfo_of GD_INT) False False 0)
     (defineFunction
        (FunctionSignature_of ''range'' [TypeInfo_of GD_INT] (TypeInfo_of GD_ARRAY) False False 0)
     (defineFunction
        (FunctionSignature_of ''print'' [] (TypeInfo_of GD_VOID) False True 0)
        \<lparr>sa_errors = [], sa_warnings = [], sa_current_scope = Scope_empty, sa_parents = [],
         sa_classes = Map.empty, sa_builtin_types = map_of builtin_types_table,
         sa_current_class = [], sa_current_function = [], sa_in_loop = False,
         sa_expected_return_type = TypeInfo_of GD_VOID\<rparr>))))"

subsection \<open>Type names\<close>

text \<open>
  \<^verbatim>\<open>getBuiltinType\<close> looks for \<^verbatim>\<open>'['\<close> and then for \<^verbatim>\<open>']'\<close> with \<^verbatim>\<open>std::string::find\<close>.
  \<open>bracket_param name\<close> is the text between the first \<^verbatim>\<open>'['\<close> and the first \<^verbatim>\<open>']'\<close> after it,
  when both are found; \<open>bracket_base name\<close> is the text before the first \<^verbatim>\<open>'['\<close>.
\<close>

definition bracket_base :: "string \<Rightarrow> string" where
  "bracket_base name = takeWhile (\<lambda>c. c \<noteq> CHR ''['') name"

definition bracket_param :: "string \<Rightarrow> string option" where
  "bracket_param name =
     (if CHR ''['' \<in> set name then
        let after = tl (dropWhile (\<lambda>c. c \<noteq> CHR ''['') name)
        in if CHR '']'' \<in> set after then Some (takeWhile (\<lambda>c. c \<noteq> CHR '']'') after) else None
      else None)"

text \<open>What \<^verbatim>\<open>getBuiltinType\<close> does with a name after the test for brackets.\<close>

definition lookup_type_name :: "SemanticAnalyzer \<Rightarrow> string \<Rightarrow> TypeInfo" where
  "lookup_type_name sa name =
     (case sa_builtin_types sa name of
        Some t \<Rightarrow> t
      | None \<Rightarrow>
          (case sa_classes sa name of
             Some ci \<Rightarrow> TypeInfo GD_CUSTOM name []
           | None \<Rightarrow> TypeInfo_of GD_UNKNOWN))"

function getBuiltinType :: "SemanticAnalyzer \<Rightarrow> string \<Rightarrow> TypeInfo" where
  "getBuiltinType sa name =
     (case bracket_param name of
        Some generic_param \<Rightarrow>
          (case sa_builtin_types sa (bracket_base name) of
             Some result \<Rightarrow>
               (let param_type = getBuiltinType sa generic_param
                in if base_type param_type \<noteq> GD_UNKNOWN
                   then TypeInfo (base_type result) (custom_name result)
                          (generic_params result @ [param_type])
                   else result)
           | None \<Rightarrow> lookup_type_name sa name)
      | None \<Rightarrow> lookup_type_name sa name)"
  by pat_completeness auto
termination
proof (relation "measure (\<lambda>(sa, name). length name)")
  show "wf (measure (\<lambda>(sa, name). length name))" by simp
next
  fix sa :: SemanticAnalyzer and name generic_param result
  assume "bracket_param name = Some generic_param"
  then have g: "generic_param = takeWhile (\<lambda>c. c \<noteq> CHR '']'') (tl (dropWhile (\<lambda>c. c \<noteq> CHR ''['') name))"
    and b: "CHR ''['' \<in> set name"
    by (auto simp: bracket_param_def Let_def split: if_splits)
  from b have "dropWhile (\<lambda>c. c \<noteq> CHR ''['') name \<noteq> []" by simp
  then have "length (tl (dropWhile (\<lambda>c. c \<noteq> CHR ''['') name)) <
             length (dropWhile (\<lambda>c. c \<noteq> CHR ''['') name)"
    by (cases "dropWhile (\<lambda>c. c \<noteq> CHR ''['') name") auto
  also have "\<dots> \<le> length name" by (rule length_dropWhile_le)
  finally have "length (tl (dropWhile (\<lambda>c. c \<noteq> CHR ''['') name)) < length name" .
  moreover have "length generic_param \<le> length (tl (dropWhile (\<lambda>c. c \<noteq> CHR ''['') name))"
    unfolding g by (rule length_takeWhile_le)
  ultimately show "((sa, generic_param), (sa, name)) \<in> measure (\<lambda>(sa, name). length name)"
    by simp
qed

declare getBuiltinType.simps [simp del]

subsection \<open>Types of expressions\<close>

text \<open>
  \<^verbatim>\<open>getExpressionType(expr)\<close>; a null pointer has the type \<^verbatim>\<open>UNKNOWN\<close>, a member access and
  an array access fall to the \<^verbatim>\<open>default\<close> case, \<^verbatim>\<open>VARIANT\<close>.
\<close>

function (sequential) getExpressionType ::
  "SemanticAnalyzer \<Rightarrow> Expression option \<Rightarrow> TypeInfo" where
  "getExpressionType sa None = TypeInfo_of GD_UNKNOWN"
| "getExpressionType sa (Some (LiteralExpr v lt l c)) =
     (if lt = TK_INTEGER then TypeInfo_of GD_INT
      else if lt = TK_FLOAT then TypeInfo_of GD_FLOAT
      else if lt = TK_STRING then TypeInfo_of GD_STRING
      else if lt = TK_BOOLEAN then TypeInfo_of GD_BOOL
      else if lt = TK_NULL_LITERAL then TypeInfo_of GD_VARIANT
      else TypeInfo_of GD_UNKNOWN)"
| "getExpressionType sa (Some (IdentifierExpr n l c)) =
     (case findSymbol sa n of
        Some symbol \<Rightarrow> sym_type symbol
      | None \<Rightarrow>
          (case findFunction sa n of
             Some f \<Rightarrow> TypeInfo_of GD_LAMBDA
           | None \<Rightarrow> TypeInfo_of GD_UNKNOWN))"
| "getExpressionType sa (Some (BinaryOpExpr left op right l c)) =
     getBinaryResultType (getExpressionType sa left) op (getExpressionType sa right)"
| "getExpressionType sa (Some (UnaryOpExpr op operand l c)) =
     getUnaryResultType op (getExpressionType sa operand)"
| "getExpressionType sa (Some (CallExpr callee args l c)) =
     (case callee of
        IdentifierExpr n l' c' \<Rightarrow>
          (case findFunction sa n of
             Some f \<Rightarrow> fs_return_type f
           | None \<Rightarrow> TypeInfo_of GD_UNKNOWN)
      | _ \<Rightarrow> TypeInfo_of GD_VARIANT)"
| "getExpressionType sa (Some (ArrayLiteralExpr es l c)) = TypeInfo_of GD_ARRAY"
| "getExpressionType sa (Some (DictLiteralExpr ps l c)) = TypeInfo_of GD_DICTIONARY"
| "getExpressionType sa (Some (LambdaExpr ps b l c)) = TypeInfo_of GD_LAMBDA"
| "getExpressionType sa (Some (TernaryExpr cond true_expr false_expr l c)) =
     (let true_type = getExpressionType sa true_expr;
          false_type = getExpressionType sa false_expr
      in if TypeInfo_eq true_type false_type then true_type
         else if base_type true_type = GD_VARIANT then false_type
         else if base_type false_type = GD_VARIANT then true_type
         else if isNumeric true_type \<and> isNumeric false_type
           then numeric_result true_type false_type
         else TypeInfo_of GD_VARIANT)"
| "getExpressionType sa (Some e) = TypeInfo_of GD_VARIANT"
  by pat_completeness auto
termination
  by (relation "measure (\<lambda>(sa, e). size_option size e)") auto

subsection \<open>Analysis of expressions\<close>

text \<open>The checks of \<^verbatim>\<open>analyzeIdentifierExpr\<close>.\<close>

definition analyzeIdentifierExpr :: "string \<Rightarrow> int \<Rightarrow> SemanticAnalyzer \<Rightarrow> SemanticAnalyzer" where
  "analyzeIdentifierExpr name line sa =
     (case findSymbol sa name of
        None \<Rightarrow>
          (case findFunction sa name of
             None \<Rightarrow> sa_addError (''Undefined variable '' @ [CHR 0x27] @ name @ [CHR 0x27]) line sa
           | Some f \<Rightarrow> sa)
      | Some symbol \<Rightarrow>
          if \<not> sym_is_initialized symbol
          then sa_addWarning (''Variable '' @ [CHR 0x27] @ name @ [CHR 0x27] @
                 '' used before initialization'') line sa
          else sa)"

text \<open>
  The loop of \<^verbatim>\<open>analyzeCallExpr\<close> over the arguments, \<^verbatim>\<open>i\<close> counting from 0, when the
  number of arguments is the number of parameters.
\<close>

fun check_arguments ::
  "nat \<Rightarrow> TypeInfo list \<Rightarrow> Expression option list \<Rightarrow> int \<Rightarrow> SemanticAnalyzer \<Rightarrow> SemanticAnalyzer"
  where
  "check_arguments i (pt # pts) (arg # args) line sa =
     (let arg_type = getExpressionType sa arg;
          sa1 = (if \<not> isCompatibleWith pt arg_type
                 then sa_addError (''Argument '' @ to_string (int i + 1) @
                        '' type mismatch: expected '' @ TypeInfo_toString pt @ '', got '' @
                        TypeInfo_toString arg_type) line sa
                 else sa)
      in check_arguments (i + 1) pts args line sa1)"
| "check_arguments i pts args line sa = sa"

text \<open>What \<^verbatim>\<open>analyzeCallExpr\<close> does with a callee that names a function.\<close>

definition check_call ::
  "FunctionSignature \<Rightarrow> Expression option list \<Rightarrow> int \<Rightarrow> SemanticAnalyzer \<Rightarrow> SemanticAnalyzer"
  where
  "check_call func args line sa =
     (if fs_is_variadic func then sa
      else if length args \<noteq> length (fs_parameter_types func) then
        sa_addError (''Function '' @ [CHR 0x27] @ fs_name func @ [CHR 0x27] @ '' expects '' @
          to_string (int (length (fs_parameter_types func))) @ '' arguments, got '' @
          to_string (int (length args))) line sa
      else check_arguments 0 (fs_parameter_types func) args line sa)"

text \<open>The loop of \<^verbatim>\<open>analyzeLambdaExpr\<close> that defines the parameters.\<close>

definition lambda_param_symbol :: "Parameter \<Rightarrow> Symbol" where
  "lambda_param_symbol p =
     Symbol_default\<lparr>sym_name := param_name p, sym_type := TypeInfo_of GD_VARIANT,
       sym_is_initialized := True\<rparr>"

fun define_lambda_params :: "Parameter list \<Rightarrow> SemanticAnalyzer \<Rightarrow> SemanticAnalyzer" where
  "define_lambda_params [] sa = sa"
| "define_lambda_params (p # ps) sa =
     define_lambda_params ps (defineSymbol (lambda_param_symbol p) sa)"

text \<open>The checks of \<^verbatim>\<open>analyzeTernaryExpr\<close> after its three parts are analyzed.\<close>

definition check_ternary ::
  "Expression option \<Rightarrow> Expression option \<Rightarrow> Expression option \<Rightarrow> int \<Rightarrow>
   SemanticAnalyzer \<Rightarrow> SemanticAnalyzer" where
  "check_ternary cond true_expr false_expr line sa =
     (let condition_type = getExpressionType sa cond;
          sa1 = (if base_type condition_type \<noteq> GD_BOOL \<and>
                    base_type condition_type \<noteq> GD_VARIANT \<and>
                    base_type condition_type \<noteq> GD_UNKNOWN
                 then sa_addWarning (''Ternary condition should be boolean, got '' @
                        TypeInfo_toString condition_type) line sa
                 else sa);
          true_type = getExpressionType sa1 true_expr;
          false_type = getExpressionType sa1 false_expr
      in if \<not> TypeInfo_eq true_type false_type \<and>
            base_type true_type \<noteq> GD_VARIANT \<and> base_type false_type \<noteq> GD_VARIANT \<and>
            base_type true_type \<noteq> GD_UNKNOWN \<and> base_type false_type \<noteq> GD_UNKNOWN
         then sa_addWarning (''Ternary branches have different types: '' @
                TypeInfo_toString true_type @ '' and '' @ TypeInfo_toString false_type) line sa1
         else sa1)"

text \<open>The checks of \<^verbatim>\<open>analyzeArrayAccessExpr\<close> after its two parts are analyzed.\<close>

definition check_array_access ::
  "Expression option \<Rightarrow> Expression option \<Rightarrow> int \<Rightarrow> SemanticAnalyzer \<Rightarrow> SemanticAnalyzer"
  where
  "check_array_access array index line sa =
     (let array_type = getExpressionType sa array;
          index_type = getExpressionType sa index;
          sa1 = (if base_type array_type \<noteq> GD_ARRAY \<and> base_type array_type \<noteq> GD_STRING \<and>
                    base_type array_type \<noteq> GD_DICTIONARY \<and> base_type array_type \<noteq> GD_VARIANT
                 then sa_addError (''Cannot index '' @ TypeInfo_toString array_type) line sa
                 else sa)
      in if (base_type array_type = GD_ARRAY \<or> base_type array_type = GD_STRING) \<and>
            base_type index_type \<noteq> GD_INT \<and> base_type index_type \<noteq> GD_VARIANT
         then sa_addError (''Array/String index must be integer, got '' @
                TypeInfo_toString index_type) line sa1
         else sa1)"

text \<open>
  \<^verbatim>\<open>analyzeExpression\<close> with the \<^verbatim>\<open>analyze...Expr\<close> functions it dispatches to;
  \<open>analyzeExpressions\<close> is a \<^verbatim>\<open>for\<close> loop over a vector of expressions and \<open>analyzePairs\<close>
  the loop of \<^verbatim>\<open>analyzeDictLiteralExpr\<close>.
\<close>

function (sequential)
  analyzeExpression :: "Expression option \<Rightarrow> SemanticAnalyzer \<Rightarrow> SemanticAnalyzer" and
  analyzeExpressions :: "Expression option list \<Rightarrow> SemanticAnalyzer \<Rightarrow> SemanticAnalyzer" and
  analyzePairs ::
    "(Expression option \<times> Expression option) list \<Rightarrow> SemanticAnalyzer \<Rightarrow> SemanticAnalyzer"
  where
  "analyzeExpression None sa = sa"
| "analyzeExpression (Some (LiteralExpr v lt l c)) sa = sa"
| "analyzeExpression (Some (IdentifierExpr n l c)) sa = analyzeIdentifierExpr n l sa"
| "analyzeExpression (Some (BinaryOpExpr left op right l c)) sa =
     (let sa1 = analyzeExpression left sa;
          sa2 = analyzeExpression right sa1;
          left_type = getExpressionType sa2 left;
          right_type = getExpressionType sa2 right;
          result_type = getBinaryResultType left_type op right_type
      in if base_type result_type = GD_UNKNOWN
         then sa_addError (''Type mismatch in binary operation: '' @
                TypeInfo_toString left_type @ '' and '' @ TypeInfo_toString right_type) l sa2
         else sa2)"
| "analyzeExpression (Some (UnaryOpExpr op operand l c)) sa =
     (let sa1 = analyzeExpression operand sa;
          operand_type = getExpressionType sa1 operand;
          result_type = getUnaryResultType op operand_type
      in if base_type result_type = GD_UNKNOWN
         then sa_addError (''Invalid unary operation on '' @ TypeInfo_toString operand_type) l sa1
         else sa1)"
| "analyzeExpression (Some (CallExpr callee args l c)) sa =
     (let sa1 = analyzeExpressions args sa
      in case callee of
           IdentifierExpr n l' c' \<Rightarrow>
             (case findFunction sa1 n of
                Some func \<Rightarrow> check_call func args l sa1
              | None \<Rightarrow> analyzeExpression (Some callee) sa1)
         | _ \<Rightarrow> analyzeExpression (Some callee) sa1)"
| "analyzeExpression (Some (MemberAccessExpr object member l c)) sa =
     analyzeExpression object sa"
| "analyzeExpression (Some (ArrayAccessExpr array index l c)) sa =
     check_array_access array index l (analyzeExpression index (analyzeExpression array sa))"
| "analyzeExpression (Some (ArrayLiteralExpr elements l c)) sa = analyzeExpressions elements sa"
| "analyzeExpression (Some (DictLiteralExpr pairs l c)) sa = analyzePairs pairs sa"
| "analyzeExpression (Some (LambdaExpr params body l c)) sa =
     exitScope (analyzeExpression body (define_lambda_params params (enterScope sa)))"
| "analyzeExpression (Some (TernaryExpr cond true_expr false_expr l c)) sa =
     check_ternary cond true_expr false_expr l
       (analyzeExpression false_expr (analyzeExpression true_expr (analyzeExpression cond sa)))"
| "analyzeExpressions [] sa = sa"
| "analyzeExpressions (e # es) sa = analyzeExpressions es (analyzeExpression e sa)"
| "analyzePairs [] sa = sa"
| "analyzePairs (p # ps) sa =
     analyzePairs ps (analyzeExpression (snd p) (analyzeExpression (fst p) sa))"
  by pat_completeness auto
termination
  by (relation "measure (\<lambda>x. case x of
        Inl (e, sa) \<Rightarrow> size_option size e
      | Inr (Inl (es, sa)) \<Rightarrow> size_list (size_option size) es
      | Inr (Inr (ps, sa)) \<Rightarrow> size_list (size_prod (size_option size) (size_option size)) ps)")
     auto

subsection \<open>Analysis of declarations\<close>

text \<open>
  Undefined behaviour of the C++ code is a value: a function that can dereference a null
  pointer or read a vector out of range returns \<open>Inl\<close> of the fault there.
\<close>

datatype ub = NullDereference | IndexOutOfRange

definition quoted :: "string \<Rightarrow> string" where
  "quoted name = [CHR 0x27] @ name @ [CHR 0x27]"

definition analyzeVarDecl ::
  "string \<Rightarrow> string \<Rightarrow> Expression option \<Rightarrow> bool \<Rightarrow> int \<Rightarrow> SemanticAnalyzer \<Rightarrow> SemanticAnalyzer"
  where
  "analyzeVarDecl name type_name initializer is_static line sa =
     (let declared_type =
            (if type_name \<noteq> [] then getBuiltinType sa type_name else TypeInfo_of GD_VARIANT);
          sa1 = (if type_name \<noteq> [] \<and> base_type declared_type = GD_UNKNOWN
                 then sa_addError (''Unknown type '' @ quoted type_name) line sa else sa);
          sa2 = (if initializer \<noteq> None then analyzeExpression initializer sa1 else sa1);
          inferred_type =
            (if initializer \<noteq> None then getExpressionType sa2 initializer else declared_type);
          sa3 = (if initializer \<noteq> None \<and> \<not> isCompatibleWith declared_type inferred_type \<and>
                    base_type declared_type \<noteq> GD_VARIANT
                 then sa_addError (''Type mismatch: cannot assign '' @
                        TypeInfo_toString inferred_type @ '' to '' @
                        TypeInfo_toString declared_type) line sa2
                 else sa2);
          sa4 = (if sc_symbols (sa_current_scope sa3) name \<noteq> None
                 then sa_addError (''Variable '' @ quoted name @ '' already defined'') line sa3
                 else sa3);
          symbol = (Symbol_of name
                      (if base_type declared_type \<noteq> GD_VARIANT then declared_type
                       else inferred_type)
                      False is_static line)
                   \<lparr>sym_is_initialized := (initializer \<noteq> None)\<rparr>
      in defineSymbol symbol sa4)"

definition analyzeConstDecl ::
  "string \<Rightarrow> Expression option \<Rightarrow> int \<Rightarrow> SemanticAnalyzer \<Rightarrow> SemanticAnalyzer" where
  "analyzeConstDecl name val line sa =
     (let sa1 = analyzeExpression val sa;
          value_type = getExpressionType sa1 val;
          sa2 = (if sc_symbols (sa_current_scope sa1) name \<noteq> None
                 then sa_addError (''Constant '' @ quoted name @ '' already defined'') line sa1
                 else sa1);
          symbol = (Symbol_of name value_type True False line)\<lparr>sym_is_initialized := True\<rparr>
      in defineSymbol symbol sa2)"

text \<open>The loop of \<^verbatim>\<open>analyzeSignalDecl\<close> over the parameters.\<close>

fun check_signal_params :: "Parameter list \<Rightarrow> int \<Rightarrow> SemanticAnalyzer \<Rightarrow> SemanticAnalyzer" where
  "check_signal_params [] line sa = sa"
| "check_signal_params (p # ps) line sa =
     check_signal_params ps line
       (if param_type p \<noteq> [] \<and> base_type (getBuiltinType sa (param_type p)) = GD_UNKNOWN
        then sa_addError (''Unknown signal parameter type '' @ quoted (param_type p)) line sa
        else sa)"

definition analyzeSignalDecl ::
  "string \<Rightarrow> Parameter list \<Rightarrow> int \<Rightarrow> SemanticAnalyzer \<Rightarrow> SemanticAnalyzer" where
  "analyzeSignalDecl name params line sa =
     (if findSymbol sa name \<noteq> None
      then sa_addError (''Signal '' @ quoted name @ '' conflicts with existing symbol'') line sa
      else
        defineSymbol
          ((Symbol_of name (TypeInfo_of GD_VARIANT) False False line)
             \<lparr>sym_is_initialized := True\<rparr>)
          (check_signal_params params line sa))"

text \<open>The loop of \<^verbatim>\<open>analyzeEnumDecl\<close> over the values.\<close>

fun analyze_enum_values :: "EnumValue list \<Rightarrow> int \<Rightarrow> SemanticAnalyzer \<Rightarrow> SemanticAnalyzer" where
  "analyze_enum_values [] line sa = sa"
| "analyze_enum_values (ev # evs) line sa =
     analyze_enum_values evs line
       (if findSymbol sa (enum_value_name ev) \<noteq> None
        then sa_addError (''Enum value '' @ quoted (enum_value_name ev) @
               '' conflicts with existing symbol'') line sa
        else
          let sa1 =
                (if enum_value_value ev \<noteq> None then
                   let sa' = analyzeExpression (enum_value_value ev) sa
                   in if base_type (getExpressionType sa' (enum_value_value ev)) \<noteq> GD_INT
                      then sa_addError (''Enum value '' @ quoted (enum_value_name ev) @
                             '' must be an integer'') line sa'
                      else sa'
                 else sa)
          in defineSymbol (Symbol_of (enum_value_name ev) (TypeInfo_of GD_INT) True False line) sa1)"

definition analyzeEnumDecl ::
  "string \<Rightarrow> EnumValue list \<Rightarrow> int \<Rightarrow> SemanticAnalyzer \<Rightarrow> SemanticAnalyzer" where
  "analyzeEnumDecl name vals line sa =
     (if findSymbol sa name \<noteq> None
      then sa_addError (''Enum '' @ quoted name @ '' conflicts with existing symbol'') line sa
      else
        analyze_enum_values vals line
          (defineSymbol (Symbol_of name (TypeInfo GD_CUSTOM name []) True False line) sa))"

subsection \<open>Signatures of functions\<close>

text \<open>
  The loop "Build parameter types" and the block "Get return type", which
  \<^verbatim>\<open>analyzeFuncDecl\<close> and the first pass of \<^verbatim>\<open>analyzeClassDecl\<close> both hold.
\<close>

fun build_param_types ::
  "Parameter list \<Rightarrow> int \<Rightarrow> SemanticAnalyzer \<Rightarrow> TypeInfo list \<Rightarrow> SemanticAnalyzer \<times> TypeInfo list"
  where
  "build_param_types [] line sa param_types = (sa, param_types)"
| "build_param_types (p # ps) line sa param_types =
     (let t = (if param_type p \<noteq> [] then getBuiltinType sa (param_type p)
               else TypeInfo_of GD_VARIANT);
          sa1 = (if param_type p \<noteq> [] \<and> base_type t = GD_UNKNOWN
                 then sa_addError (''Unknown parameter type '' @ quoted (param_type p)) line sa
                 else sa)
      in build_param_types ps line sa1 (param_types @ [t]))"

definition get_return_type ::
  "string \<Rightarrow> int \<Rightarrow> SemanticAnalyzer \<Rightarrow> SemanticAnalyzer \<times> TypeInfo" where
  "get_return_type return_type_name line sa =
     (if return_type_name \<noteq> [] then
        let t = getBuiltinType sa return_type_name
        in (if base_type t = GD_UNKNOWN
            then sa_addError (''Unknown return type '' @ quoted return_type_name) line sa
            else sa, t)
      else (sa, TypeInfo_of GD_VARIANT))"

text \<open>
  The signature part of a function declaration: parameter types, return type, the test for
  a redefinition in the current scope, and \<^verbatim>\<open>defineFunction\<close>.
\<close>

definition register_signature ::
  "string \<Rightarrow> Parameter list \<Rightarrow> string \<Rightarrow> bool \<Rightarrow> int \<Rightarrow> SemanticAnalyzer \<Rightarrow>
   SemanticAnalyzer \<times> FunctionSignature" where
  "register_signature name params return_type_name is_static line sa =
     (let (sa1, param_types) = build_param_types params line sa [];
          (sa2, return_type) = get_return_type return_type_name line sa1;
          sa3 = (if sc_functions (sa_current_scope sa2) name \<noteq> None
                 then sa_addError (''Function '' @ quoted name @ '' already defined'') line sa2
                 else sa2);
          signature = declared_signature name param_types return_type is_static line
      in (defineFunction signature sa3, signature))"

text \<open>
  The loop "Add parameters to function scope": parameter \<open>i\<close> gets the type
  \<^verbatim>\<open>parameter_types[i]\<close>, read with \<^verbatim>\<open>operator[]\<close>.
\<close>

fun define_params ::
  "nat \<Rightarrow> Parameter list \<Rightarrow> TypeInfo list \<Rightarrow> int \<Rightarrow> SemanticAnalyzer \<Rightarrow> ub + SemanticAnalyzer"
  where
  "define_params i [] parameter_types line sa = Inr sa"
| "define_params i (p # ps) parameter_types line sa =
     (if i < length parameter_types then
        define_params (i + 1) ps parameter_types line
          (defineSymbol
             ((Symbol_of (param_name p) (parameter_types ! i) False False line)
                \<lparr>sym_is_initialized := True\<rparr>) sa)
      else Inl IndexOutOfRange)"

subsection \<open>The first pass over a class body\<close>

definition ClassInfo_of :: "string \<Rightarrow> string \<Rightarrow> int \<Rightarrow> ClassInfo" where
  "ClassInfo_of n base line =
     \<lparr>ci_name = n, ci_base_class = base, ci_members = Map.empty, ci_methods = Map.empty,
      ci_signals = [], ci_declaration_line = line\<rparr>"

text \<open>
  One member in the first pass.  For a signal, a variable, a constant or an enum the pass
  calls \<^verbatim>\<open>analyzeStatement(member)\<close>, which dispatches to the function of that declaration.
  Other members (a nested class) are skipped.
\<close>

fun class_pass1_member ::
  "Statement \<Rightarrow> SemanticAnalyzer \<times> ClassInfo \<Rightarrow> SemanticAnalyzer \<times> ClassInfo" where
  "class_pass1_member (FuncDecl name params rt body is_static an l c) (sa, class_info) =
     (let (sa1, signature) = register_signature name params rt is_static l sa
      in (sa1, class_info\<lparr>ci_methods := (ci_methods class_info)(name \<mapsto> signature)\<rparr>))"
| "class_pass1_member (SignalDecl name params l c) (sa, class_info) =
     (analyzeSignalDecl name params l sa,
      class_info\<lparr>ci_signals := ci_signals class_info @ [name]\<rparr>)"
| "class_pass1_member (VarDecl name type_name initializer is_static an l c) (sa, class_info) =
     (let sa1 = analyzeVarDecl name type_name initializer is_static l sa;
          t = getBuiltinType sa1 type_name;
          member_type = (if base_type t = GD_UNKNOWN \<and> type_name \<noteq> []
                         then TypeInfo_of GD_VARIANT else t)
      in (sa1, class_info\<lparr>ci_members := (ci_members class_info)
                 (name \<mapsto> Symbol_of name member_type False is_static 0)\<rparr>))"
| "class_pass1_member (ConstDecl name val l c) (sa, class_info) =
     (analyzeConstDecl name val l sa, class_info)"
| "class_pass1_member (EnumDecl name vals l c) (sa, class_info) =
     (analyzeEnumDecl name vals l sa, class_info)"
| "class_pass1_member member (sa, class_info) = (sa, class_info)"

fun class_pass1 ::
  "Statement list \<Rightarrow> SemanticAnalyzer \<times> ClassInfo \<Rightarrow> SemanticAnalyzer \<times> ClassInfo" where
  "class_pass1 [] st = st"
| "class_pass1 (member # members) st = class_pass1 members (class_pass1_member member st)"

subsection \<open>Analysis of statements\<close>

text \<open>The warning of \<^verbatim>\<open>analyzeIfStmt\<close> and \<^verbatim>\<open>analyzeWhileStmt\<close> on the condition.\<close>

definition check_condition ::
  "Expression option \<Rightarrow> int \<Rightarrow> SemanticAnalyzer \<Rightarrow> SemanticAnalyzer" where
  "check_condition cond line sa =
     (let condition_type = getExpressionType sa cond
      in if base_type condition_type \<noteq> GD_BOOL \<and> base_type condition_type \<noteq> GD_VARIANT
         then sa_addWarning (''Condition should be boolean, got '' @
                TypeInfo_toString condition_type) line sa
         else sa)"

text \<open>
  \<^verbatim>\<open>analyzeForStmt\<close> up to the body: the iterable, its check, the new scope with the loop
  variable, and \<^verbatim>\<open>in_loop = true\<close>.
\<close>

definition enter_for ::
  "string \<Rightarrow> Expression option \<Rightarrow> int \<Rightarrow> SemanticAnalyzer \<Rightarrow> SemanticAnalyzer" where
  "enter_for variable iterable line sa =
     (let sa1 = analyzeExpression iterable sa;
          iterable_type = getExpressionType sa1 iterable;
          sa2 = (if base_type iterable_type \<noteq> GD_ARRAY \<and> base_type iterable_type \<noteq> GD_STRING \<and>
                    base_type iterable_type \<noteq> GD_VARIANT
                 then sa_addError (''Cannot iterate over '' @ TypeInfo_toString iterable_type)
                        line sa1
                 else sa1);
          loop_var_type = (if base_type iterable_type = GD_STRING then TypeInfo_of GD_STRING
                           else TypeInfo_of GD_VARIANT);
          loop_var = (Symbol_of variable loop_var_type False False line)
                       \<lparr>sym_is_initialized := True\<rparr>
      in (defineSymbol loop_var (enterScope sa2))\<lparr>sa_in_loop := True\<rparr>)"

definition analyzeReturnStmt ::
  "Expression option \<Rightarrow> int \<Rightarrow> SemanticAnalyzer \<Rightarrow> SemanticAnalyzer" where
  "analyzeReturnStmt val line sa =
     (if sa_current_function sa = []
      then sa_addError ''Return statement outside of function'' line sa
      else
        let sa1 = (if val \<noteq> None then analyzeExpression val sa else sa);
            return_type = (if val \<noteq> None then getExpressionType sa1 val
                           else TypeInfo_of GD_VOID)
        in if \<not> isCompatibleWith (sa_expected_return_type sa1) return_type
           then sa_addError (''Return type mismatch: expected '' @
                  TypeInfo_toString (sa_expected_return_type sa1) @ '', got '' @
                  TypeInfo_toString return_type) line sa1
           else sa1)"

text \<open>
  One case of \<^verbatim>\<open>analyzeMatchStmt\<close> before its body: the pattern and the warning, whose line
  is read from the pattern with \<^verbatim>\<open>match_case.pattern->line\<close>.
\<close>

definition analyze_pattern ::
  "Expression option \<Rightarrow> TypeInfo \<Rightarrow> SemanticAnalyzer \<Rightarrow> ub + SemanticAnalyzer" where
  "analyze_pattern pattern match_type sa =
     (let sa1 = analyzeExpression pattern sa;
          pattern_type = getExpressionType sa1 pattern
      in if \<not> isCompatibleWith pattern_type match_type \<and>
            base_type pattern_type \<noteq> GD_VARIANT \<and> base_type match_type \<noteq> GD_VARIANT
         then (case pattern of
                 None \<Rightarrow> Inl NullDereference
               | Some p \<Rightarrow>
                   Inr (sa_addWarning (''Pattern type '' @ TypeInfo_toString pattern_type @
                          '' may not match expression type '' @ TypeInfo_toString match_type)
                          (expr_line p) sa1))
         else Inr sa1)"

text \<open>
  \<^verbatim>\<open>analyzeStatement\<close> with the functions it dispatches to.  \<open>analyzeStatements\<close> is the loop
  over the statements of a program or block, \<open>analyzeCases\<close> the loop of \<^verbatim>\<open>analyzeMatchStmt\<close>
  and \<open>class_pass2\<close> the second loop of \<^verbatim>\<open>analyzeClassDecl\<close>.
\<close>

function (sequential)
  analyzeStatement :: "Statement option \<Rightarrow> SemanticAnalyzer \<Rightarrow> ub + SemanticAnalyzer" and
  analyzeStatements :: "Statement list \<Rightarrow> SemanticAnalyzer \<Rightarrow> ub + SemanticAnalyzer" and
  analyzeCases :: "MatchCase list \<Rightarrow> TypeInfo \<Rightarrow> SemanticAnalyzer \<Rightarrow> ub + SemanticAnalyzer" and
  class_pass2 :: "Statement list \<Rightarrow> SemanticAnalyzer \<Rightarrow> ub + SemanticAnalyzer"
  where
  "analyzeStatement None sa = Inr sa"
| "analyzeStatement (Some (VarDecl name type_name initializer is_static an l c)) sa =
     Inr (analyzeVarDecl name type_name initializer is_static l sa)"
| "analyzeStatement (Some (ConstDecl name val l c)) sa = Inr (analyzeConstDecl name val l sa)"
| "analyzeStatement (Some (FuncDecl name params rt body is_static an l c)) sa =
     (let (sa1, signature) = register_signature name params rt is_static l sa;
          sa2 = enterScope sa1;
          old_function = sa_current_function sa2;
          old_return_type = sa_expected_return_type sa2;
          sa3 = sa2\<lparr>sa_current_function := name,
                    sa_expected_return_type := fs_return_type signature\<rparr>
      in case define_params 0 params (fs_parameter_types signature) l sa3 of
           Inl e \<Rightarrow> Inl e
         | Inr sa4 \<Rightarrow>
             (case analyzeStatement body sa4 of
                Inl e \<Rightarrow> Inl e
              | Inr sa5 \<Rightarrow>
                  Inr (exitScope (sa5\<lparr>sa_current_function := old_function,
                                       sa_expected_return_type := old_return_type\<rparr>))))"
| "analyzeStatement (Some (ClassDecl name base members an l c)) sa =
     (let sa1 = (if sa_classes sa name \<noteq> None
                 then sa_addError (''Class '' @ quoted name @ '' already defined'') l sa
                 else sa);
          old_class = sa_current_class sa1;
          sa2 = enterScope (sa1\<lparr>sa_current_class := name\<rparr>);
          (sa3, class_info) = class_pass1 members (sa2, ClassInfo_of name base l)
      in case class_pass2 members sa3 of
           Inl e \<Rightarrow> Inl e
         | Inr sa4 \<Rightarrow>
             Inr (exitScope (sa4\<lparr>sa_classes := (sa_classes sa4)(name \<mapsto> class_info),
                                  sa_current_class := old_class\<rparr>)))"
| "analyzeStatement (Some (SignalDecl name params l c)) sa =
     Inr (analyzeSignalDecl name params l sa)"
| "analyzeStatement (Some (EnumDecl name vals l c)) sa = Inr (analyzeEnumDecl name vals l sa)"
| "analyzeStatement (Some (BlockStmt statements l c)) sa =
     (case analyzeStatements statements (enterScope sa) of
        Inl e \<Rightarrow> Inl e
      | Inr sa1 \<Rightarrow> Inr (exitScope sa1))"
| "analyzeStatement (Some (IfStmt cond then_branch else_branch l c)) sa =
     (case analyzeStatement then_branch (check_condition cond l (analyzeExpression cond sa)) of
        Inl e \<Rightarrow> Inl e
      | Inr sa1 \<Rightarrow>
          if else_branch \<noteq> None then analyzeStatement else_branch sa1 else Inr sa1)"
| "analyzeStatement (Some (WhileStmt cond body l c)) sa =
     (let sa1 = check_condition cond l (analyzeExpression cond sa);
          old_in_loop = sa_in_loop sa1
      in case analyzeStatement body (sa1\<lparr>sa_in_loop := True\<rparr>) of
           Inl e \<Rightarrow> Inl e
         | Inr sa2 \<Rightarrow> Inr (sa2\<lparr>sa_in_loop := old_in_loop\<rparr>))"
| "analyzeStatement (Some (ForStmt variable iterable body l c)) sa =
     (let old_in_loop = sa_in_loop sa
      in case analyzeStatement body (enter_for variable iterable l sa) of
           Inl e \<Rightarrow> Inl e
         | Inr sa1 \<Rightarrow> Inr (exitScope (sa1\<lparr>sa_in_loop := old_in_loop\<rparr>)))"
| "analyzeStatement (Some (MatchStmt expression cases l c)) sa =
     (let sa1 = analyzeExpression expression sa
      in analyzeCases cases (getExpressionType sa1 expression) sa1)"
| "analyzeStatement (Some (ReturnStmt val l c)) sa = Inr (analyzeReturnStmt val l sa)"
| "analyzeStatement (Some (ExpressionStmt expression l c)) sa =
     Inr (analyzeExpression expression sa)"
| "analyzeStatement (Some (BreakStmt l c)) sa =
     Inr (if \<not> sa_in_loop sa
          then sa_addError ''Break/continue statement outside of loop'' l sa else sa)"
| "analyzeStatement (Some (ContinueStmt l c)) sa =
     Inr (if \<not> sa_in_loop sa
          then sa_addError ''Break/continue statement outside of loop'' l sa else sa)"
| "analyzeStatement (Some (PassStmt l c)) sa = Inr sa"
| "analyzeStatements [] sa = Inr sa"
| "analyzeStatements (stmt # stmts) sa =
     (case analyzeStatement (Some stmt) sa of
        Inl e \<Rightarrow> Inl e
      | Inr sa1 \<Rightarrow> analyzeStatements stmts sa1)"
| "analyzeCases [] match_type sa = Inr sa"
| "analyzeCases (MatchCase pattern body # cases) match_type sa =
     (case analyze_pattern pattern match_type sa of
        Inl e \<Rightarrow> Inl e
      | Inr sa1 \<Rightarrow>
          (case analyzeStatement body sa1 of
             Inl e \<Rightarrow> Inl e
           | Inr sa2 \<Rightarrow> analyzeCases cases match_type sa2))"
| "class_pass2 [] sa = Inr sa"
| "class_pass2 (FuncDecl name params rt body is_static an l c # members) sa =
     (case findFunction sa name of
        None \<Rightarrow> class_pass2 members sa
      | Some func_sig \<Rightarrow>
          (let sa1 = enterScope sa;
               old_function = sa_current_function sa1;
               old_return_type = sa_expected_return_type sa1;
               sa2 = sa1\<lparr>sa_current_function := name,
                         sa_expected_return_type := fs_return_type func_sig\<rparr>
           in case define_params 0 params (fs_parameter_types func_sig) l sa2 of
                Inl e \<Rightarrow> Inl e
              | Inr sa3 \<Rightarrow>
                  (case analyzeStatement body sa3 of
                     Inl e \<Rightarrow> Inl e
                   | Inr sa4 \<Rightarrow>
                       class_pass2 members
                         (exitScope (sa4\<lparr>sa_current_function := old_function,
                                          sa_expected_return_type := old_return_type\<rparr>)))))"
| "class_pass2 (member # members) sa = class_pass2 members sa"
  by pat_completeness auto
termination
  by (relation "measure (\<lambda>x. case x of
        Inl (Inl (s, sa)) \<Rightarrow> 2 * size_option size s
      | Inl (Inr (ss, sa)) \<Rightarrow> 2 * size_list size ss + 1
      | Inr (Inl (cs, t, sa)) \<Rightarrow> 2 * size_list size cs + 1
      | Inr (Inr (ms, sa)) \<Rightarrow> 2 * size_list size ms + 1)")
     auto

text \<open>
  \<^verbatim>\<open>SemanticAnalyzer().analyze(root)\<close> for a root that is a program: \<^verbatim>\<open>analyzeProgram\<close> on
  a new analyzer.
\<close>

definition analyzeProgram :: "Program \<Rightarrow> SemanticAnalyzer \<Rightarrow> ub + SemanticAnalyzer" where
  "analyzeProgram program sa = (case program of Program statements l c \<Rightarrow> analyzeStatements statements sa)"

definition analyze :: "Program \<Rightarrow> ub + SemanticAnalyzer" where
  "analyze root = analyzeProgram root SemanticAnalyzer_init"

section \<open>The intermediate representation (code\_generator.h)\<close>

text \<open>\<^verbatim>\<open>Register::Type\<close> and \<^verbatim>\<open>Instruction::OpCode\<close>; \<open>OP_X\<close> stands for \<^verbatim>\<open>Instruction::X\<close>.\<close>

datatype RegisterType = REG_GENERAL | REG_FLOAT | REG_VIRTUAL

datatype OpCode =
    OP_MOV | OP_LOAD | OP_STORE
  | OP_ADD | OP_SUB | OP_MUL | OP_DIV | OP_MOD
  | OP_FADD | OP_FSUB | OP_FMUL | OP_FDIV
  | OP_AND | OP_OR | OP_XOR | OP_NOT
  | OP_CMP | OP_FCMP
  | OP_JMP | OP_JE | OP_JNE | OP_JL | OP_JLE | OP_JG | OP_JGE
  | OP_CALL | OP_RET
  | OP_PUSH | OP_POP
  | OP_NOP | OP_LABEL

text \<open>The value of \<^verbatim>\<open>static_cast<uint32_t>(opcode)\<close>: the position in the enumeration.\<close>

fun opcode_id :: "OpCode \<Rightarrow> nat" where
  "opcode_id OP_MOV = 0" | "opcode_id OP_LOAD = 1" | "opcode_id OP_STORE = 2"
| "opcode_id OP_ADD = 3" | "opcode_id OP_SUB = 4" | "opcode_id OP_MUL = 5"
| "opcode_id OP_DIV = 6" | "opcode_id OP_MOD = 7"
| "opcode_id OP_FADD = 8" | "opcode_id OP_FSUB = 9" | "opcode_id OP_FMUL = 10"
| "opcode_id OP_FDIV = 11"
| "opcode_id OP_AND = 12" | "opcode_id OP_OR = 13" | "opcode_id OP_XOR = 14"
| "opcode_id OP_NOT = 15"
| "opcode_id OP_CMP = 16" | "opcode_id OP_FCMP = 17"
| "opcode_id OP_JMP = 18" | "opcode_id OP_JE = 19" | "opcode_id OP_JNE = 20"
| "opcode_id OP_JL = 21" | "opcode_id OP_JLE = 22" | "opcode_id OP_JG = 23"
| "opcode_id OP_JGE = 24"
| "opcode_id OP_CALL = 25" | "opcode_id OP_RET = 26"
| "opcode_id OP_PUSH = 27" | "opcode_id OP_POP = 28"
| "opcode_id OP_NOP = 29" | "opcode_id OP_LABEL = 30"

text \<open>
  A \<^verbatim>\<open>Register\<close> object.  Registers are shared through \<^verbatim>\<open>std::shared_ptr\<close> and changed in
  place (\<^verbatim>\<open>reg->name = ...\<close>, \<^verbatim>\<open>reg->is_allocated = ...\<close>), so the code generator keeps them
  in a store, and a \<^verbatim>\<open>shared_ptr<Register>\<close> is the index of the object in the store, or
  \<open>None\<close> for a null pointer.
\<close>

record Register =
  reg_id :: int
  reg_type :: RegisterType
  reg_is_allocated :: bool
  reg_name :: string

type_synonym reg_ptr = "nat option"

definition Register_of :: "int \<Rightarrow> RegisterType \<Rightarrow> string \<Rightarrow> Register" where
  "Register_of i t n = \<lparr>reg_id = i, reg_type = t, reg_is_allocated = False, reg_name = n\<rparr>"

record Instruction =
  ins_opcode :: OpCode
  ins_operands :: "reg_ptr list"
  ins_label :: string
  ins_immediate :: int
  ins_has_immediate :: bool

text \<open>\<^verbatim>\<open>Instruction(op)\<close> and \<^verbatim>\<open>Instruction(op, lbl)\<close>.\<close>

definition Instruction_of :: "OpCode \<Rightarrow> Instruction" where
  "Instruction_of op =
     \<lparr>ins_opcode = op, ins_operands = [], ins_label = [], ins_immediate = 0,
      ins_has_immediate = False\<rparr>"

definition Instruction_labelled :: "OpCode \<Rightarrow> string \<Rightarrow> Instruction" where
  "Instruction_labelled op lbl = (Instruction_of op)\<lparr>ins_label := lbl\<rparr>"

text \<open>
  \<^verbatim>\<open>successors\<close> and \<^verbatim>\<open>predecessors\<close> of a \<^verbatim>\<open>BasicBlock\<close> are only written by
  \<^verbatim>\<open>addSuccessor\<close>, which nothing calls; they are left out.
\<close>

record BasicBlock =
  bb_label :: string
  bb_instructions :: "Instruction list"

record Function =
  fn_name :: string
  fn_blocks :: "BasicBlock list"
  fn_parameters :: "reg_ptr list"
  fn_return_register :: reg_ptr
  fn_stack_size :: int

text \<open>\<^verbatim>\<open>Function(name)\<close>: no blocks, no parameters, a null \<^verbatim>\<open>return_register\<close>.\<close>

definition Function_of :: "string \<Rightarrow> Function" where
  "Function_of name =
     \<lparr>fn_name = name, fn_blocks = [], fn_parameters = [], fn_return_register = None,
      fn_stack_size = 0\<rparr>"

section \<open>The object file (\<^verbatim>\<open>CodeGenerator::writeObjectFile\<close>)\<close>

text \<open>
  The content of the file is a list of bytes.  A \<^verbatim>\<open>uint32_t\<close> is written with
  \<^verbatim>\<open>file.write(reinterpret_cast<const char*>(&x), sizeof(x))\<close>, which writes its four bytes in
  the byte order of the machine that runs the compiler: the function \<open>enc\<close> from a 32-bit
  value to these bytes is a parameter.  \<open>u32_le\<close> is the little-endian order of the x86-64
  and ARM64 machines the compiler runs on.
\<close>

type_synonym byte = "8 word"

definition u32_le :: "32 word \<Rightarrow> byte list" where
  "u32_le w = [ucast w, ucast (drop_bit 8 w), ucast (drop_bit 16 w), ucast (drop_bit 24 w)]"

definition bytes_of :: "string \<Rightarrow> byte list" where
  "bytes_of s = map of_char s"

text \<open>
  The loop \<^verbatim>\<open>for (auto& block : func->blocks) instr_count += static_cast<uint32_t>(block->instructions.size());\<close>
\<close>

fun count_instructions :: "BasicBlock list \<Rightarrow> 32 word \<Rightarrow> 32 word" where
  "count_instructions [] instr_count = instr_count"
| "count_instructions (block # blocks) instr_count =
     count_instructions blocks (instr_count + word_of_nat (length (bb_instructions block)))"

text \<open>The loops that write one opcode for every instruction of every block.\<close>

fun write_instructions :: "(32 word \<Rightarrow> byte list) \<Rightarrow> Instruction list \<Rightarrow> byte list \<Rightarrow> byte list"
  where
  "write_instructions enc [] file = file"
| "write_instructions enc (instr # instrs) file =
     write_instructions enc instrs (file @ enc (word_of_nat (opcode_id (ins_opcode instr))))"

fun write_blocks :: "(32 word \<Rightarrow> byte list) \<Rightarrow> BasicBlock list \<Rightarrow> byte list \<Rightarrow> byte list" where
  "write_blocks enc [] file = file"
| "write_blocks enc (block # blocks) file =
     write_blocks enc blocks (write_instructions enc (bb_instructions block) file)"

text \<open>
  The body of the loop over the functions.  \<^verbatim>\<open>file.write(func->name.c_str(), name_len)\<close>
  writes \<^verbatim>\<open>name_len\<close> bytes, the length of the name converted to \<^verbatim>\<open>uint32_t\<close>.
\<close>

definition write_function :: "(32 word \<Rightarrow> byte list) \<Rightarrow> Function \<Rightarrow> byte list \<Rightarrow> byte list" where
  "write_function enc func file =
     (let name_len = (word_of_nat (length (fn_name func)) :: 32 word);
          file1 = file @ enc name_len;
          file2 = file1 @ take (unat name_len) (bytes_of (fn_name func));
          instr_count = count_instructions (fn_blocks func) 0;
          file3 = file2 @ enc instr_count
      in write_blocks enc (fn_blocks func) file3)"

fun write_functions :: "(32 word \<Rightarrow> byte list) \<Rightarrow> Function list \<Rightarrow> byte list \<Rightarrow> byte list" where
  "write_functions enc [] file = file"
| "write_functions enc (func # funcs) file =
     write_functions enc funcs (write_function enc func file)"

text \<open>
  What \<^verbatim>\<open>writeObjectFile\<close> writes to a file it could open (when it cannot, it reports an
  error and writes nothing).
\<close>

definition writeObjectFile :: "(32 word \<Rightarrow> byte list) \<Rightarrow> Function list \<Rightarrow> byte list" where
  "writeObjectFile enc functions =
     (let file = bytes_of ''GDOBJ'';
          func_count = (word_of_nat (length functions) :: 32 word);
          file1 = file @ enc func_count
      in write_functions enc functions file1)"

section \<open>The code generator (code\_generator.cpp)\<close>

text \<open>
  The state of a \<^verbatim>\<open>CodeGenerator\<close>.  \<open>cg_registers\<close> is the store of the \<^verbatim>\<open>Register\<close>
  objects: the first 16 are the registers of \<^verbatim>\<open>available_registers\<close>, in their order, and
  every virtual register is added at the end when it is made.  \<^verbatim>\<open>function_map\<close>,
  \<^verbatim>\<open>current_function\<close> and \<^verbatim>\<open>current_block\<close> point into \<^verbatim>\<open>functions\<close>: a function is its
  position in \<open>cg_functions\<close>, a block the position of its function and its position among the
  blocks of the function.  The target platform, the output format and \<^verbatim>\<open>stack_offset\<close> are
  not read by the lowering and are left out.
\<close>

record CodeGenerator =
  cg_functions :: "Function list"
  cg_variables :: "string \<rightharpoonup> nat"
  cg_class_members :: "string \<rightharpoonup> nat"
  cg_function_map :: "string \<rightharpoonup> nat"
  cg_current_class_name :: string
  cg_current_function :: "nat option"
  cg_current_block :: "(nat \<times> nat) option"
  cg_next_register_id :: int
  cg_next_label_id :: int
  cg_errors :: "string list"
  cg_registers :: "Register list"
  cg_allocated_registers :: "nat list"
  cg_semantic_analyzer :: "SemanticAnalyzer option"
  cg_break_labels :: "string list"
  cg_continue_labels :: "string list"

text \<open>
  The constructors fill \<^verbatim>\<open>available_registers\<close> with \<^verbatim>\<open>r0\<close> to \<^verbatim>\<open>r7\<close> and \<^verbatim>\<open>xmm0\<close> to
  \<^verbatim>\<open>xmm7\<close>; \<^verbatim>\<open>generate(root, output_file, analyzer)\<close> sets \<^verbatim>\<open>semantic_analyzer\<close>.
\<close>

definition initial_registers :: "Register list" where
  "initial_registers =
     map (\<lambda>i. Register_of (int i) REG_GENERAL (''r'' @ to_string (int i))) [0..<8] @
     map (\<lambda>i. Register_of (int i + 100) REG_FLOAT (''xmm'' @ to_string (int i))) [0..<8]"

definition available_registers :: "nat list" where
  "available_registers = [0..<16]"

definition CodeGenerator_init :: "SemanticAnalyzer option \<Rightarrow> CodeGenerator" where
  "CodeGenerator_init analyzer =
     \<lparr>cg_functions = [], cg_variables = Map.empty, cg_class_members = Map.empty,
      cg_function_map = Map.empty, cg_current_class_name = [],
      cg_current_function = None, cg_current_block = None,
      cg_next_register_id = 0, cg_next_label_id = 0, cg_errors = [],
      cg_registers = initial_registers, cg_allocated_registers = [],
      cg_semantic_analyzer = analyzer, cg_break_labels = [], cg_continue_labels = []\<rparr>"

definition builtin_functions :: "string \<rightharpoonup> string" where
  "builtin_functions =
     [''print'' \<mapsto> ''_builtin_print'', ''len'' \<mapsto> ''_builtin_len'',
      ''range'' \<mapsto> ''_builtin_range'', ''str'' \<mapsto> ''_builtin_str'',
      ''int'' \<mapsto> ''_builtin_int'', ''float'' \<mapsto> ''_builtin_float'']"

definition isBuiltinFunction :: "string \<Rightarrow> bool" where
  "isBuiltinFunction name = (builtin_functions name \<noteq> None)"

definition cg_addError :: "string \<Rightarrow> CodeGenerator \<Rightarrow> CodeGenerator" where
  "cg_addError message cg = cg\<lparr>cg_errors := cg_errors cg @ [''Code Generation Error: '' @ message]\<rparr>"

subsection \<open>Registers and labels\<close>

text \<open>
  \<^verbatim>\<open>allocateVirtualRegister\<close> increments \<^verbatim>\<open>next_register_id\<close> while it builds the name, so
  the register \<^verbatim>\<open>vN\<close> has the id \<open>N + 1\<close>.
\<close>

definition allocateVirtualRegister :: "RegisterType \<Rightarrow> CodeGenerator \<Rightarrow> nat \<times> CodeGenerator" where
  "allocateVirtualRegister t cg =
     (let name = ''v'' @ to_string (cg_next_register_id cg);
          cg1 = cg\<lparr>cg_next_register_id := cg_next_register_id cg + 1\<rparr>;
          reg = (Register_of (cg_next_register_id cg1) REG_VIRTUAL name)\<lparr>reg_type := t\<rparr>
      in (length (cg_registers cg1), cg1\<lparr>cg_registers := cg_registers cg1 @ [reg]\<rparr>))"

definition allocateRegister :: "RegisterType \<Rightarrow> CodeGenerator \<Rightarrow> nat \<times> CodeGenerator" where
  "allocateRegister t cg =
     (case find (\<lambda>i. \<not> reg_is_allocated (cg_registers cg ! i) \<and> reg_type (cg_registers cg ! i) = t)
             available_registers of
        Some i \<Rightarrow>
          (i, cg\<lparr>cg_registers := (cg_registers cg)[i := (cg_registers cg ! i)\<lparr>reg_is_allocated := True\<rparr>],
                 cg_allocated_registers := cg_allocated_registers cg @ [i]\<rparr>)
      | None \<Rightarrow> allocateVirtualRegister t cg)"

definition freeRegister :: "reg_ptr \<Rightarrow> CodeGenerator \<Rightarrow> CodeGenerator" where
  "freeRegister reg cg =
     (case reg of
        None \<Rightarrow> cg
      | Some i \<Rightarrow>
          if reg_is_allocated (cg_registers cg ! i)
          then cg\<lparr>cg_registers := (cg_registers cg)[i := (cg_registers cg ! i)\<lparr>reg_is_allocated := False\<rparr>],
                  cg_allocated_registers := remove1 i (cg_allocated_registers cg)\<rparr>
          else cg)"

text \<open>The assignment \<^verbatim>\<open>reg->name = name\<close>.\<close>

definition set_register_name :: "nat \<Rightarrow> string \<Rightarrow> CodeGenerator \<Rightarrow> CodeGenerator" where
  "set_register_name i name cg =
     cg\<lparr>cg_registers := (cg_registers cg)[i := (cg_registers cg ! i)\<lparr>reg_name := name\<rparr>]\<rparr>"

definition generateLabel :: "string \<Rightarrow> CodeGenerator \<Rightarrow> string \<times> CodeGenerator" where
  "generateLabel prefix cg =
     (prefix @ ''_'' @ to_string (cg_next_label_id cg),
      cg\<lparr>cg_next_label_id := cg_next_label_id cg + 1\<rparr>)"

subsection \<open>Emitting instructions\<close>

text \<open>
  \<^verbatim>\<open>current_block->addInstruction(instr)\<close> under the test \<^verbatim>\<open>if (current_block)\<close> that every
  \<^verbatim>\<open>emit\<close> makes: outside a function nothing is emitted.
\<close>

definition add_instruction :: "Instruction \<Rightarrow> CodeGenerator \<Rightarrow> CodeGenerator" where
  "add_instruction instr cg =
     (case cg_current_block cg of
        None \<Rightarrow> cg
      | Some (f, b) \<Rightarrow>
          (let func = cg_functions cg ! f;
               block = fn_blocks func ! b;
               block' = block\<lparr>bb_instructions := bb_instructions block @ [instr]\<rparr>
           in cg\<lparr>cg_functions := (cg_functions cg)[f := func\<lparr>fn_blocks := (fn_blocks func)[b := block']\<rparr>]\<rparr>))"

text \<open>
  The overloads of \<^verbatim>\<open>emit\<close>: \<open>emit\<close> has no operand, \<open>emit_r\<close> a destination, \<open>emit_rr\<close> a
  destination and a source, \<open>emit_rrr\<close> a destination and two sources, \<open>emit_ri\<close> a
  destination and an immediate, \<open>emit_l\<close> a label.
\<close>

definition emit :: "OpCode \<Rightarrow> CodeGenerator \<Rightarrow> CodeGenerator" where
  "emit opcode cg = add_instruction (Instruction_of opcode) cg"

definition emit_r :: "OpCode \<Rightarrow> reg_ptr \<Rightarrow> CodeGenerator \<Rightarrow> CodeGenerator" where
  "emit_r opcode dest cg = add_instruction ((Instruction_of opcode)\<lparr>ins_operands := [dest]\<rparr>) cg"

definition emit_rr :: "OpCode \<Rightarrow> reg_ptr \<Rightarrow> reg_ptr \<Rightarrow> CodeGenerator \<Rightarrow> CodeGenerator" where
  "emit_rr opcode dest src cg =
     add_instruction ((Instruction_of opcode)\<lparr>ins_operands := [dest, src]\<rparr>) cg"

definition emit_rrr ::
  "OpCode \<Rightarrow> reg_ptr \<Rightarrow> reg_ptr \<Rightarrow> reg_ptr \<Rightarrow> CodeGenerator \<Rightarrow> CodeGenerator" where
  "emit_rrr opcode dest src1 src2 cg =
     add_instruction ((Instruction_of opcode)\<lparr>ins_operands := [dest, src1, src2]\<rparr>) cg"

definition emit_ri :: "OpCode \<Rightarrow> reg_ptr \<Rightarrow> int \<Rightarrow> CodeGenerator \<Rightarrow> CodeGenerator" where
  "emit_ri opcode dest immediate cg =
     add_instruction
       ((Instruction_of opcode)\<lparr>ins_operands := [dest], ins_immediate := immediate,
                                 ins_has_immediate := True\<rparr>) cg"

definition emit_l :: "OpCode \<Rightarrow> string \<Rightarrow> CodeGenerator \<Rightarrow> CodeGenerator" where
  "emit_l opcode lbl cg = add_instruction (Instruction_labelled opcode lbl) cg"

definition emitLabel :: "string \<Rightarrow> CodeGenerator \<Rightarrow> CodeGenerator" where
  "emitLabel lbl cg = add_instruction (Instruction_labelled OP_LABEL lbl) cg"

subsection \<open>Functions\<close>

text \<open>
  \<^verbatim>\<open>setupFunction\<close> makes the function with its one block \<^verbatim>\<open>name_entry\<close>, appends it to
  \<^verbatim>\<open>functions\<close> and enters it in \<^verbatim>\<open>function_map\<close>; it does not touch \<^verbatim>\<open>return_register\<close>.
  The variables are cleared, and inside a class every class member is copied to them.
\<close>

definition setupFunction :: "string \<Rightarrow> CodeGenerator \<Rightarrow> CodeGenerator" where
  "setupFunction name cg =
     (let func = (Function_of name)
                   \<lparr>fn_blocks := [\<lparr>bb_label = name @ ''_entry'', bb_instructions = []\<rparr>]\<rparr>;
          f = length (cg_functions cg)
      in cg\<lparr>cg_current_function := Some f,
             cg_function_map := (cg_function_map cg)(name \<mapsto> f),
             cg_current_block := Some (f, 0),
             cg_functions := cg_functions cg @ [func],
             cg_variables := (if cg_current_class_name cg \<noteq> [] then cg_class_members cg
                              else Map.empty)\<rparr>)"

definition finalizeFunction :: "CodeGenerator \<Rightarrow> CodeGenerator" where
  "finalizeFunction cg =
     (if cg_current_function cg \<noteq> None
      then cg\<lparr>cg_current_function := None, cg_current_block := None\<rparr>
      else cg)"

text \<open>\<^verbatim>\<open>current_function->parameters.push_back(reg)\<close>, right after \<^verbatim>\<open>setupFunction\<close>.\<close>

definition add_parameter :: "nat \<Rightarrow> CodeGenerator \<Rightarrow> CodeGenerator" where
  "add_parameter reg cg =
     (case cg_current_function cg of
        None \<Rightarrow> cg
      | Some f \<Rightarrow>
          (let func = cg_functions cg ! f
           in cg\<lparr>cg_functions :=
                   (cg_functions cg)[f := func\<lparr>fn_parameters := fn_parameters func @ [Some reg]\<rparr>]\<rparr>))"

text \<open>A variable of the function: a register with the name of the variable.\<close>

definition declare_variable :: "string \<Rightarrow> CodeGenerator \<Rightarrow> nat \<times> CodeGenerator" where
  "declare_variable name cg =
     (let (reg, cg1) = allocateRegister REG_GENERAL cg;
          cg2 = set_register_name reg name cg1
      in (reg, cg2\<lparr>cg_variables := (cg_variables cg2)(name \<mapsto> reg)\<rparr>))"

text \<open>The loops over the parameters of a function, a method and a lambda.\<close>

fun setup_parameters :: "Parameter list \<Rightarrow> CodeGenerator \<Rightarrow> CodeGenerator" where
  "setup_parameters [] cg = cg"
| "setup_parameters (p # ps) cg =
     (let (reg, cg1) = declare_variable (param_name p) cg
      in setup_parameters ps (add_parameter reg cg1))"

fun lambda_parameters :: "Parameter list \<Rightarrow> CodeGenerator \<Rightarrow> CodeGenerator" where
  "lambda_parameters [] cg = cg"
| "lambda_parameters (p # ps) cg =
     (let (reg, cg1) = allocateRegister REG_GENERAL cg
      in lambda_parameters ps (cg1\<lparr>cg_variables := (cg_variables cg1)(param_name p \<mapsto> reg)\<rparr>))"

subsection \<open>Lowering of expressions\<close>

text \<open>
  A run of the code generator ends early in three places: \<^verbatim>\<open>std::stoi\<close> throws on an integer
  literal that is not an \<^verbatim>\<open>int\<close>, \<^verbatim>\<open>std::stof\<close> throws or the scaled value does not fit an
  \<^verbatim>\<open>int\<close>, and \<^verbatim>\<open>generateFuncDecl\<close> and \<^verbatim>\<open>generateClassDecl\<close> read
  \<^verbatim>\<open>current_block->instructions\<close> through a null pointer.
\<close>

datatype crash = Crash_stoi | Crash_stof | Crash_null_dereference

text \<open>
  \<^verbatim>\<open>std::stoi(s)\<close>: leading white space, an optional sign, decimal digits; the rest of the
  string is ignored.  It throws (\<open>None\<close>) when there is no digit and when the value is not
  an \<^verbatim>\<open>int\<close>.
\<close>

definition isspace :: "char \<Rightarrow> bool" where
  "isspace c = (let n = (of_char c :: nat) in n = 32 \<or> (9 \<le> n \<and> n \<le> 13))"

definition decimal_value :: "string \<Rightarrow> int" where
  "decimal_value ds = foldl (\<lambda>a c. 10 * a + (int (of_char c) - 48)) 0 ds"

definition stoi :: "string \<Rightarrow> int option" where
  "stoi s =
     (let s1 = dropWhile isspace s;
          negative = (s1 \<noteq> [] \<and> hd s1 = CHR ''-'');
          s2 = (if s1 \<noteq> [] \<and> (hd s1 = CHR ''-'' \<or> hd s1 = CHR ''+'') then tl s1 else s1);
          ds = takeWhile isDigit s2;
          v = (if negative then - decimal_value ds else decimal_value ds)
      in if ds = [] then None
         else if - (2 ^ 31) \<le> v \<and> v < 2 ^ 31 then Some v
         else None)"

text \<open>
  \<^verbatim>\<open>generateLiteralExpr\<close>.  The immediate of a float literal is
  \<^verbatim>\<open>static_cast<int>(std::stof(value) * 1000)\<close>, a computation in \<^verbatim>\<open>float\<close> arithmetic: the
  function \<open>float_imm\<close> from the text of the literal to this value, \<open>None\<close> where it has
  none, is a parameter of the lowering.
\<close>

definition generateLiteralExpr ::
  "(string \<Rightarrow> int option) \<Rightarrow> string \<Rightarrow> TokenType \<Rightarrow> CodeGenerator \<Rightarrow> crash + (reg_ptr \<times> CodeGenerator)"
  where
  "generateLiteralExpr float_imm v literal_type cg =
     (let (result_reg, cg1) = allocateRegister REG_GENERAL cg
      in if literal_type = TK_INTEGER then
           (case stoi v of
              None \<Rightarrow> Inl Crash_stoi
            | Some i \<Rightarrow> Inr (Some result_reg, emit_ri OP_MOV (Some result_reg) i cg1))
         else if literal_type = TK_FLOAT then
           (case float_imm v of
              None \<Rightarrow> Inl Crash_stof
            | Some i \<Rightarrow>
                (let (float_reg, cg2) = allocateRegister REG_FLOAT cg1
                 in Inr (Some float_reg, emit_ri OP_MOV (Some float_reg) i cg2)))
         else if literal_type = TK_STRING then
           Inr (Some result_reg, emit_ri OP_MOV (Some result_reg) 0 cg1)
         else if literal_type = TK_BOOLEAN then
           Inr (Some result_reg,
                emit_ri OP_MOV (Some result_reg) (if v = ''true'' then 1 else 0) cg1)
         else Inr (Some result_reg, emit_ri OP_MOV (Some result_reg) 0 cg1))"

text \<open>\<^verbatim>\<open>semantic_analyzer->getGlobalScope()\<close>: the last scope of the chain.\<close>

definition getGlobalScope :: "SemanticAnalyzer \<Rightarrow> Scope" where
  "getGlobalScope sa = last (sa_current_scope sa # sa_parents sa)"

text \<open>A new register that receives the value of the register \<open>src\<close>.\<close>

definition load_from :: "nat \<Rightarrow> CodeGenerator \<Rightarrow> reg_ptr \<times> CodeGenerator" where
  "load_from src cg =
     (let (result_reg, cg1) = allocateRegister REG_GENERAL cg
      in (Some result_reg, emit_rr OP_MOV (Some result_reg) (Some src) cg1))"

text \<open>A new register that receives the placeholder 0 of an address.\<close>

definition load_placeholder :: "CodeGenerator \<Rightarrow> reg_ptr \<times> CodeGenerator" where
  "load_placeholder cg =
     (let (result_reg, cg1) = allocateRegister REG_GENERAL cg
      in (Some result_reg, emit_ri OP_MOV (Some result_reg) 0 cg1))"

text \<open>The last resort of \<^verbatim>\<open>generateIdentifierExpr\<close>.\<close>

definition undefined_variable :: "string \<Rightarrow> CodeGenerator \<Rightarrow> reg_ptr \<times> CodeGenerator" where
  "undefined_variable name cg =
     (let (reg, cg1) = allocateRegister REG_GENERAL (cg_addError (''Undefined variable: '' @ name) cg)
      in (Some reg, cg1))"

text \<open>
  The part of \<^verbatim>\<open>generateIdentifierExpr\<close> that asks the classes of the semantic analyzer, in
  a class context.
\<close>

definition identifier_in_class ::
  "SemanticAnalyzer \<Rightarrow> string \<Rightarrow> CodeGenerator \<Rightarrow> reg_ptr \<times> CodeGenerator" where
  "identifier_in_class sa name cg =
     (if cg_current_class_name cg \<noteq> [] then
        (case sa_classes sa (cg_current_class_name cg) of
           Some cls \<Rightarrow>
             (if ci_members cls name \<noteq> None then
                (let (member_reg, cg1) = allocateRegister REG_GENERAL cg;
                     cg2 = set_register_name member_reg name cg1;
                     cg3 = cg2\<lparr>cg_class_members := (cg_class_members cg2)(name \<mapsto> member_reg)\<rparr>
                 in load_from member_reg cg3)
              else if ci_methods cls name \<noteq> None then load_placeholder cg
              else undefined_variable name cg)
         | None \<Rightarrow> undefined_variable name cg)
      else undefined_variable name cg)"

definition generateIdentifierExpr :: "string \<Rightarrow> CodeGenerator \<Rightarrow> reg_ptr \<times> CodeGenerator" where
  "generateIdentifierExpr name cg =
     (case cg_variables cg name of
        Some reg \<Rightarrow> load_from reg cg
      | None \<Rightarrow>
          (case cg_class_members cg name of
             Some reg \<Rightarrow> load_from reg cg
           | None \<Rightarrow>
               (case cg_semantic_analyzer cg of
                  Some sa \<Rightarrow>
                    (if sc_symbols (getGlobalScope sa) name \<noteq> None then
                       (let (var_reg, cg1) = declare_variable name cg in load_from var_reg cg1)
                     else if sc_functions (getGlobalScope sa) name \<noteq> None then load_placeholder cg
                     else identifier_in_class sa name cg)
                | None \<Rightarrow> undefined_variable name cg)))"

text \<open>The comparison branch of \<^verbatim>\<open>generateBinaryOpExpr\<close>.\<close>

definition comparison_jump :: "TokenType \<Rightarrow> OpCode" where
  "comparison_jump op =
     (if op = TK_EQUAL then OP_JE
      else if op = TK_NOT_EQUAL then OP_JNE
      else if op = TK_LESS then OP_JL
      else if op = TK_LESS_EQUAL then OP_JLE
      else if op = TK_GREATER then OP_JG
      else OP_JGE)"

definition emit_comparison ::
  "TokenType \<Rightarrow> reg_ptr \<Rightarrow> reg_ptr \<Rightarrow> reg_ptr \<Rightarrow> CodeGenerator \<Rightarrow> CodeGenerator" where
  "emit_comparison op result_reg left_reg right_reg cg =
     (let cg1 = emit_rr OP_CMP left_reg right_reg cg;
          (true_label, cg2) = generateLabel ''cmp_true'' cg1;
          (end_label, cg3) = generateLabel ''cmp_end'' cg2;
          cg4 = emit_l (comparison_jump op) true_label cg3;
          cg5 = emit_ri OP_MOV result_reg 0 cg4;
          cg6 = emit_l OP_JMP end_label cg5;
          cg7 = emitLabel true_label cg6;
          cg8 = emit_ri OP_MOV result_reg 1 cg7
      in emitLabel end_label cg8)"

text \<open>An assignment operator: the operation on the left register, then its copy.\<close>

definition emit_compound ::
  "OpCode \<Rightarrow> reg_ptr \<Rightarrow> reg_ptr \<Rightarrow> reg_ptr \<Rightarrow> CodeGenerator \<Rightarrow> CodeGenerator" where
  "emit_compound opcode result_reg left_reg right_reg cg =
     emit_rr OP_MOV result_reg left_reg (emit_rrr opcode left_reg left_reg right_reg cg)"

definition emit_assignment :: "reg_ptr \<Rightarrow> reg_ptr \<Rightarrow> reg_ptr \<Rightarrow> CodeGenerator \<Rightarrow> CodeGenerator" where
  "emit_assignment result_reg left_reg right_reg cg =
     emit_rr OP_MOV result_reg left_reg (emit_rr OP_MOV left_reg right_reg cg)"

text \<open>The \<^verbatim>\<open>switch\<close> of \<^verbatim>\<open>generateBinaryOpExpr\<close>.\<close>

definition emit_binary_op ::
  "TokenType \<Rightarrow> reg_ptr \<Rightarrow> reg_ptr \<Rightarrow> reg_ptr \<Rightarrow> CodeGenerator \<Rightarrow> CodeGenerator" where
  "emit_binary_op op result_reg left_reg right_reg cg =
     (if op = TK_PLUS then emit_rrr OP_ADD result_reg left_reg right_reg cg
      else if op = TK_MINUS then emit_rrr OP_SUB result_reg left_reg right_reg cg
      else if op = TK_MULTIPLY then emit_rrr OP_MUL result_reg left_reg right_reg cg
      else if op = TK_DIVIDE then emit_rrr OP_DIV result_reg left_reg right_reg cg
      else if op = TK_MODULO then emit_rrr OP_MOD result_reg left_reg right_reg cg
      else if op = TK_EQUAL \<or> op = TK_NOT_EQUAL \<or> op = TK_LESS \<or> op = TK_LESS_EQUAL \<or>
              op = TK_GREATER \<or> op = TK_GREATER_EQUAL
        then emit_comparison op result_reg left_reg right_reg cg
      else if op = TK_AND then emit_rrr OP_AND result_reg left_reg right_reg cg
      else if op = TK_OR then emit_rrr OP_OR result_reg left_reg right_reg cg
      else if op = TK_ASSIGN then emit_assignment result_reg left_reg right_reg cg
      else if op = TK_PLUS_ASSIGN then emit_compound OP_ADD result_reg left_reg right_reg cg
      else if op = TK_MINUS_ASSIGN then emit_compound OP_SUB result_reg left_reg right_reg cg
      else if op = TK_MULTIPLY_ASSIGN then emit_compound OP_MUL result_reg left_reg right_reg cg
      else if op = TK_DIVIDE_ASSIGN then emit_compound OP_DIV result_reg left_reg right_reg cg
      else if op = TK_MODULO_ASSIGN then emit_compound OP_MOD result_reg left_reg right_reg cg
      else if op = TK_TYPE_INFER_ASSIGN then emit_assignment result_reg left_reg right_reg cg
      else emit_ri OP_MOV result_reg 0 (cg_addError ''Unknown binary operator'' cg))"

text \<open>The \<^verbatim>\<open>switch\<close> of \<^verbatim>\<open>generateUnaryOpExpr\<close>.\<close>

definition emit_unary_op :: "TokenType \<Rightarrow> reg_ptr \<Rightarrow> reg_ptr \<Rightarrow> CodeGenerator \<Rightarrow> CodeGenerator" where
  "emit_unary_op op result_reg operand_reg cg =
     (if op = TK_MINUS then
        (let (zero_reg, cg1) = allocateRegister REG_GENERAL cg
         in emit_rrr OP_SUB result_reg (Some zero_reg) operand_reg cg1)
      else if op = TK_PLUS then emit_rr OP_MOV result_reg operand_reg cg
      else if op = TK_NOT \<or> op = TK_LOGICAL_NOT then emit_rr OP_NOT result_reg operand_reg cg
      else emit_rr OP_MOV result_reg operand_reg (cg_addError ''Unknown unary operator'' cg))"

text \<open>
  The loops of the calls: \<open>push_all\<close> pushes the registers of a list in its order (the code
  walks the arguments from the last to the first), \<open>pop_n\<close> pops into new registers,
  \<open>free_all\<close> frees.
\<close>

fun push_all :: "reg_ptr list \<Rightarrow> CodeGenerator \<Rightarrow> CodeGenerator" where
  "push_all [] cg = cg"
| "push_all (r # rs) cg = push_all rs (emit_r OP_PUSH r cg)"

fun pop_n :: "nat \<Rightarrow> CodeGenerator \<Rightarrow> CodeGenerator" where
  "pop_n 0 cg = cg"
| "pop_n (Suc n) cg =
     (let (reg, cg1) = allocateRegister REG_GENERAL cg
      in pop_n n (emit_r OP_POP (Some reg) cg1))"

fun free_all :: "reg_ptr list \<Rightarrow> CodeGenerator \<Rightarrow> CodeGenerator" where
  "free_all [] cg = cg"
| "free_all (r # rs) cg = free_all rs (freeRegister r cg)"

definition generateBuiltinCall ::
  "string \<Rightarrow> reg_ptr list \<Rightarrow> CodeGenerator \<Rightarrow> reg_ptr \<times> CodeGenerator" where
  "generateBuiltinCall name args cg =
     (let (result_reg, cg1) = allocateRegister REG_GENERAL cg;
          cg2 = push_all (rev args) cg1;
          cg3 = emit_l OP_CALL (the (builtin_functions name)) cg2
      in (Some result_reg, pop_n (length args) cg3))"

text \<open>The end of \<^verbatim>\<open>generateCallExpr\<close>, after the call instruction.\<close>

definition finish_call :: "reg_ptr list \<Rightarrow> CodeGenerator \<Rightarrow> reg_ptr \<times> CodeGenerator" where
  "finish_call arg_regs cg =
     (let cg1 = pop_n (length arg_regs) cg;
          (result_reg, cg2) = allocateRegister REG_GENERAL cg1
      in (Some result_reg, free_all arg_regs cg2))"

text \<open>What the loops of the array and dictionary literals do with a lowered element.\<close>

definition append_element :: "reg_ptr \<Rightarrow> reg_ptr \<Rightarrow> CodeGenerator \<Rightarrow> CodeGenerator" where
  "append_element result_reg element_reg cg =
     (let cg1 = emit_r OP_PUSH result_reg cg;
          cg2 = emit_r OP_PUSH element_reg cg1;
          cg3 = emit_l OP_CALL ''_array_append'' cg2
      in freeRegister element_reg (pop_n 2 cg3))"

definition set_pair :: "reg_ptr \<Rightarrow> reg_ptr \<Rightarrow> reg_ptr \<Rightarrow> CodeGenerator \<Rightarrow> CodeGenerator" where
  "set_pair result_reg key_reg value_reg cg =
     (let cg1 = emit_r OP_PUSH result_reg cg;
          cg2 = emit_r OP_PUSH key_reg cg1;
          cg3 = emit_r OP_PUSH value_reg cg2;
          cg4 = emit_l OP_CALL ''_dict_set'' cg3
      in freeRegister value_reg (freeRegister key_reg (pop_n 3 cg4)))"

text \<open>The start and the end of \<^verbatim>\<open>generateLambdaExpr\<close>, around the lowering of the body.\<close>

definition enter_lambda :: "Parameter list \<Rightarrow> CodeGenerator \<Rightarrow> CodeGenerator" where
  "enter_lambda params cg =
     (let lambda_name = ''_lambda_'' @ to_string (cg_next_label_id cg);
          cg1 = cg\<lparr>cg_next_label_id := cg_next_label_id cg + 1\<rparr>
      in lambda_parameters params (setupFunction lambda_name cg1))"

definition leave_lambda ::
  "CodeGenerator \<Rightarrow> reg_ptr \<Rightarrow> CodeGenerator \<Rightarrow> reg_ptr \<times> CodeGenerator" where
  "leave_lambda saved body_reg cg =
     (let (ret_reg, cg1) = allocateRegister REG_GENERAL cg;
          cg2 = emit_rr OP_MOV (Some ret_reg) body_reg cg1;
          cg3 = emit OP_RET cg2;
          cg4 = finalizeFunction (freeRegister body_reg cg3);
          cg5 = cg4\<lparr>cg_current_function := cg_current_function saved,
                     cg_current_block := cg_current_block saved,
                     cg_variables := cg_variables saved\<rparr>
      in load_placeholder cg5)"

text \<open>The two halves of \<^verbatim>\<open>generateTernaryExpr\<close> around the lowering of the true value.\<close>

definition ternary_test :: "reg_ptr \<Rightarrow> CodeGenerator \<Rightarrow> (string \<times> string) \<times> CodeGenerator" where
  "ternary_test condition_reg cg =
     (let (false_label, cg1) = generateLabel ''ternary_false'' cg;
          (end_label, cg2) = generateLabel ''ternary_end'' cg1;
          cg3 = emit_ri OP_CMP condition_reg 0 cg2;
          cg4 = emit_l OP_JE false_label cg3
      in ((false_label, end_label), freeRegister condition_reg cg4))"

definition ternary_true ::
  "string \<times> string \<Rightarrow> reg_ptr \<Rightarrow> CodeGenerator \<Rightarrow> nat \<times> CodeGenerator" where
  "ternary_true labels true_reg cg =
     (let (result_reg, cg1) = allocateRegister REG_GENERAL cg;
          cg2 = emit_rr OP_MOV (Some result_reg) true_reg cg1;
          cg3 = freeRegister true_reg cg2;
          cg4 = emit_l OP_JMP (snd labels) cg3
      in (result_reg, emitLabel (fst labels) cg4))"

definition ternary_false ::
  "string \<times> string \<Rightarrow> nat \<Rightarrow> reg_ptr \<Rightarrow> CodeGenerator \<Rightarrow> reg_ptr \<times> CodeGenerator" where
  "ternary_false labels result_reg false_reg cg =
     (let cg1 = emit_rr OP_MOV (Some result_reg) false_reg cg;
          cg2 = freeRegister false_reg cg1
      in (Some result_reg, emitLabel (snd labels) cg2))"

definition array_access :: "reg_ptr \<Rightarrow> reg_ptr \<Rightarrow> CodeGenerator \<Rightarrow> reg_ptr \<times> CodeGenerator" where
  "array_access array_reg index_reg cg =
     (let (result_reg, cg1) = allocateRegister REG_GENERAL cg;
          cg2 = emit_r OP_PUSH array_reg cg1;
          cg3 = emit_r OP_PUSH index_reg cg2;
          cg4 = emit_l OP_CALL ''_array_get'' cg3;
          cg5 = pop_n 2 cg4
      in (Some result_reg, freeRegister index_reg (freeRegister array_reg cg5)))"

text \<open>
  \<^verbatim>\<open>generateExpression\<close> with the functions it dispatches to.  \<open>generateArguments\<close> is the
  loop of \<^verbatim>\<open>generateCallExpr\<close> that lowers the arguments and collects their registers,
  \<open>generateElements\<close> and \<open>generatePairs\<close> are the loops of the array and dictionary
  literals.  A null expression gives a null register.
\<close>

function (sequential)
  generateExpression ::
    "(string \<Rightarrow> int option) \<Rightarrow> Expression option \<Rightarrow> CodeGenerator \<Rightarrow> crash + (reg_ptr \<times> CodeGenerator)"
  and generateArguments ::
    "(string \<Rightarrow> int option) \<Rightarrow> Expression option list \<Rightarrow> CodeGenerator
      \<Rightarrow> crash + (reg_ptr list \<times> CodeGenerator)"
  and generateElements ::
    "(string \<Rightarrow> int option) \<Rightarrow> reg_ptr \<Rightarrow> Expression option list \<Rightarrow> CodeGenerator
      \<Rightarrow> crash + CodeGenerator"
  and generatePairs ::
    "(string \<Rightarrow> int option) \<Rightarrow> reg_ptr \<Rightarrow> (Expression option \<times> Expression option) list
      \<Rightarrow> CodeGenerator \<Rightarrow> crash + CodeGenerator"
  where
  "generateExpression fi None cg = Inr (None, cg)"
| "generateExpression fi (Some (LiteralExpr v lt l c)) cg = generateLiteralExpr fi v lt cg"
| "generateExpression fi (Some (IdentifierExpr n l c)) cg = Inr (generateIdentifierExpr n cg)"
| "generateExpression fi (Some (BinaryOpExpr left op right l c)) cg =
     (case generateExpression fi left cg of
        Inl e \<Rightarrow> Inl e
      | Inr (left_reg, cg1) \<Rightarrow>
          (case generateExpression fi right cg1 of
             Inl e \<Rightarrow> Inl e
           | Inr (right_reg, cg2) \<Rightarrow>
               (let (result_reg, cg3) = allocateRegister REG_GENERAL cg2;
                    cg4 = emit_binary_op op (Some result_reg) left_reg right_reg cg3
                in Inr (Some result_reg, freeRegister right_reg (freeRegister left_reg cg4)))))"
| "generateExpression fi (Some (UnaryOpExpr op operand l c)) cg =
     (case generateExpression fi operand cg of
        Inl e \<Rightarrow> Inl e
      | Inr (operand_reg, cg1) \<Rightarrow>
          (let (result_reg, cg2) = allocateRegister REG_GENERAL cg1;
               cg3 = emit_unary_op op (Some result_reg) operand_reg cg2
           in Inr (Some result_reg, freeRegister operand_reg cg3)))"
| "generateExpression fi (Some (CallExpr callee args l c)) cg =
     (case generateArguments fi args cg of
        Inl e \<Rightarrow> Inl e
      | Inr (arg_regs, cg1) \<Rightarrow>
          (case callee of
             IdentifierExpr n l' c' \<Rightarrow>
               (if isBuiltinFunction n then
                  (let (result, cg2) = generateBuiltinCall n arg_regs cg1
                   in Inr (result, free_all arg_regs cg2))
                else Inr (finish_call arg_regs (emit_l OP_CALL n (push_all (rev arg_regs) cg1))))
           | _ \<Rightarrow>
               (case generateExpression fi (Some callee) (push_all (rev arg_regs) cg1) of
                  Inl e \<Rightarrow> Inl e
                | Inr (callee_reg, cg2) \<Rightarrow>
                    (let cg3 = emit_l OP_CALL (reg_name (cg_registers cg2 ! the callee_reg)) cg2
                     in Inr (finish_call arg_regs (freeRegister callee_reg cg3))))))"
| "generateExpression fi (Some (MemberAccessExpr object member l c)) cg =
     (case generateExpression fi object cg of
        Inl e \<Rightarrow> Inl e
      | Inr (object_reg, cg1) \<Rightarrow>
          (let (result_reg, cg2) = allocateRegister REG_GENERAL cg1;
               cg3 = emit_rr OP_LOAD (Some result_reg) object_reg cg2
           in Inr (Some result_reg, freeRegister object_reg cg3)))"
| "generateExpression fi (Some (ArrayAccessExpr array index l c)) cg =
     (case generateExpression fi array cg of
        Inl e \<Rightarrow> Inl e
      | Inr (array_reg, cg1) \<Rightarrow>
          (case generateExpression fi index cg1 of
             Inl e \<Rightarrow> Inl e
           | Inr (index_reg, cg2) \<Rightarrow> Inr (array_access array_reg index_reg cg2)))"
| "generateExpression fi (Some (ArrayLiteralExpr elements l c)) cg =
     (let (result_reg, cg1) = allocateRegister REG_GENERAL cg;
          cg2 = emit_l OP_CALL ''_array_create'' cg1
      in case generateElements fi (Some result_reg) elements cg2 of
           Inl e \<Rightarrow> Inl e
         | Inr cg3 \<Rightarrow> Inr (Some result_reg, cg3))"
| "generateExpression fi (Some (DictLiteralExpr pairs l c)) cg =
     (let (result_reg, cg1) = allocateRegister REG_GENERAL cg;
          cg2 = emit_l OP_CALL ''_dict_create'' cg1
      in case generatePairs fi (Some result_reg) pairs cg2 of
           Inl e \<Rightarrow> Inl e
         | Inr cg3 \<Rightarrow> Inr (Some result_reg, cg3))"
| "generateExpression fi (Some (LambdaExpr params body l c)) cg =
     (case generateExpression fi body (enter_lambda params cg) of
        Inl e \<Rightarrow> Inl e
      | Inr (body_reg, cg1) \<Rightarrow> Inr (leave_lambda cg body_reg cg1))"
| "generateExpression fi (Some (TernaryExpr cond true_expr false_expr l c)) cg =
     (case generateExpression fi cond cg of
        Inl e \<Rightarrow> Inl e
      | Inr (condition_reg, cg1) \<Rightarrow>
          (let (labels, cg2) = ternary_test condition_reg cg1
           in case generateExpression fi true_expr cg2 of
                Inl e \<Rightarrow> Inl e
              | Inr (true_reg, cg3) \<Rightarrow>
                  (let (result_reg, cg4) = ternary_true labels true_reg cg3
                   in case generateExpression fi false_expr cg4 of
                        Inl e \<Rightarrow> Inl e
                      | Inr (false_reg, cg5) \<Rightarrow>
                          Inr (ternary_false labels result_reg false_reg cg5))))"
| "generateArguments fi [] cg = Inr ([], cg)"
| "generateArguments fi (arg # args) cg =
     (case generateExpression fi arg cg of
        Inl e \<Rightarrow> Inl e
      | Inr (reg, cg1) \<Rightarrow>
          (case generateArguments fi args cg1 of
             Inl e \<Rightarrow> Inl e
           | Inr (regs, cg2) \<Rightarrow> Inr (reg # regs, cg2)))"
| "generateElements fi result_reg [] cg = Inr cg"
| "generateElements fi result_reg (element # elements) cg =
     (case generateExpression fi element cg of
        Inl e \<Rightarrow> Inl e
      | Inr (element_reg, cg1) \<Rightarrow>
          generateElements fi result_reg elements (append_element result_reg element_reg cg1))"
| "generatePairs fi result_reg [] cg = Inr cg"
| "generatePairs fi result_reg (pair # pairs) cg =
     (case generateExpression fi (fst pair) cg of
        Inl e \<Rightarrow> Inl e
      | Inr (key_reg, cg1) \<Rightarrow>
          (case generateExpression fi (snd pair) cg1 of
             Inl e \<Rightarrow> Inl e
           | Inr (value_reg, cg2) \<Rightarrow>
               generatePairs fi result_reg pairs (set_pair result_reg key_reg value_reg cg2)))"
  by pat_completeness auto
termination
  by (relation "measure (\<lambda>x. case x of
        Inl (Inl (fi, e, cg)) \<Rightarrow> size_option size e
      | Inl (Inr (fi, es, cg)) \<Rightarrow> size_list (size_option size) es
      | Inr (Inl (fi, r, es, cg)) \<Rightarrow> size_list (size_option size) es
      | Inr (Inr (fi, r, ps, cg)) \<Rightarrow> size_list (size_prod (size_option size) (size_option size)) ps)")
     auto

subsection \<open>Lowering of statements\<close>

definition generateVarDecl ::
  "(string \<Rightarrow> int option) \<Rightarrow> string \<Rightarrow> Expression option \<Rightarrow> CodeGenerator \<Rightarrow> crash + CodeGenerator"
  where
  "generateVarDecl fi name initializer cg =
     (let (var_reg, cg1) = declare_variable name cg
      in case initializer of
           Some init \<Rightarrow>
             (case generateExpression fi (Some init) cg1 of
                Inl e \<Rightarrow> Inl e
              | Inr (init_reg, cg2) \<Rightarrow>
                  Inr (freeRegister init_reg (emit_rr OP_MOV (Some var_reg) init_reg cg2)))
         | None \<Rightarrow> Inr (emit_ri OP_MOV (Some var_reg) 0 cg1))"

definition generateConstDecl ::
  "(string \<Rightarrow> int option) \<Rightarrow> string \<Rightarrow> Expression option \<Rightarrow> CodeGenerator \<Rightarrow> crash + CodeGenerator"
  where
  "generateConstDecl fi name v cg =
     (let (const_reg, cg1) = declare_variable name cg
      in case generateExpression fi v cg1 of
           Inl e \<Rightarrow> Inl e
         | Inr (value_reg, cg2) \<Rightarrow>
             Inr (freeRegister value_reg (emit_rr OP_MOV (Some const_reg) value_reg cg2)))"

definition generateSignalDecl :: "CodeGenerator \<Rightarrow> CodeGenerator" where
  "generateSignalDecl cg =
     (let (signal_name_reg, cg1) = allocateRegister REG_GENERAL cg;
          cg2 = emit_ri OP_MOV (Some signal_name_reg) 0 cg1;
          cg3 = emit_l OP_CALL ''_register_signal'' cg2
      in freeRegister (Some signal_name_reg) cg3)"

text \<open>
  The end of \<^verbatim>\<open>generateFuncDecl\<close>, after the body: the test
  \<^verbatim>\<open>current_block->instructions.empty() || current_block->instructions.back()->opcode != RET\<close>
  reads through \<^verbatim>\<open>current_block\<close>, which is null when the body held a function or a class
  (their \<^verbatim>\<open>finalizeFunction\<close> has reset it).
\<close>

definition lacks_return :: "Instruction list \<Rightarrow> bool" where
  "lacks_return instructions = (instructions = [] \<or> ins_opcode (last instructions) \<noteq> OP_RET)"

definition current_instructions :: "CodeGenerator \<Rightarrow> nat \<times> nat \<Rightarrow> Instruction list" where
  "current_instructions cg block = bb_instructions (fn_blocks (cg_functions cg ! fst block) ! snd block)"

definition ensure_return :: "string \<Rightarrow> CodeGenerator \<Rightarrow> crash + CodeGenerator" where
  "ensure_return return_type cg =
     (case cg_current_block cg of
        None \<Rightarrow> Inl Crash_null_dereference
      | Some block \<Rightarrow>
          Inr (finalizeFunction
                (if lacks_return (current_instructions cg block) then
                   (if return_type \<noteq> [] \<and> return_type \<noteq> ''void'' then
                      (let (return_reg, cg1) = allocateRegister REG_GENERAL cg
                       in emit OP_RET (emit_ri OP_MOV (Some return_reg) 0 cg1))
                    else emit OP_RET cg)
                 else cg)))"

text \<open>The same place in the loop of \<^verbatim>\<open>generateClassDecl\<close> over the methods.\<close>

definition ensure_method_return :: "CodeGenerator \<Rightarrow> crash + CodeGenerator" where
  "ensure_method_return cg =
     (case cg_current_block cg of
        None \<Rightarrow> Inl Crash_null_dereference
      | Some block \<Rightarrow>
          Inr (finalizeFunction
                (if lacks_return (current_instructions cg block) then emit OP_RET cg else cg)))"

text \<open>The first loop of \<^verbatim>\<open>generateClassDecl\<close>: a register for every member variable.\<close>

fun register_members :: "Statement list \<Rightarrow> CodeGenerator \<Rightarrow> CodeGenerator" where
  "register_members [] cg = cg"
| "register_members (VarDecl name type_name init is_static annotations l c # members) cg =
     (let (member_reg, cg1) = allocateRegister REG_GENERAL cg;
          cg2 = set_register_name member_reg name cg1
      in register_members members
           (cg2\<lparr>cg_class_members := (cg_class_members cg2)(name \<mapsto> member_reg)\<rparr>))"
| "register_members (member # members) cg = register_members members cg"

text \<open>
  The start of a method: the function \<^verbatim>\<open>Class_method\<close>, its \<^verbatim>\<open>self\<close> parameter unless it is
  static, and its parameters.
\<close>

definition setup_method :: "string \<Rightarrow> string \<Rightarrow> bool \<Rightarrow> Parameter list \<Rightarrow> CodeGenerator \<Rightarrow> CodeGenerator"
  where
  "setup_method class_name method_name is_static params cg =
     (let cg1 = setupFunction (class_name @ ''_'' @ method_name) cg;
          cg2 = (if \<not> is_static
                 then (let (self_reg, cg') = declare_variable ''self'' cg1
                       in add_parameter self_reg cg')
                 else cg1)
      in setup_parameters params cg2)"

text \<open>The labels of the innermost loop, the empty string outside a loop.\<close>

definition getCurrentBreakLabel :: "CodeGenerator \<Rightarrow> string" where
  "getCurrentBreakLabel cg = (if cg_break_labels cg = [] then [] else last (cg_break_labels cg))"

definition getCurrentContinueLabel :: "CodeGenerator \<Rightarrow> string" where
  "getCurrentContinueLabel cg =
     (if cg_continue_labels cg = [] then [] else last (cg_continue_labels cg))"

definition pushBreakLabel :: "string \<Rightarrow> CodeGenerator \<Rightarrow> CodeGenerator" where
  "pushBreakLabel lbl cg = cg\<lparr>cg_break_labels := cg_break_labels cg @ [lbl]\<rparr>"

definition pushContinueLabel :: "string \<Rightarrow> CodeGenerator \<Rightarrow> CodeGenerator" where
  "pushContinueLabel lbl cg = cg\<lparr>cg_continue_labels := cg_continue_labels cg @ [lbl]\<rparr>"

definition popBreakLabel :: "CodeGenerator \<Rightarrow> CodeGenerator" where
  "popBreakLabel cg = cg\<lparr>cg_break_labels := butlast (cg_break_labels cg)\<rparr>"

definition popContinueLabel :: "CodeGenerator \<Rightarrow> CodeGenerator" where
  "popContinueLabel cg = cg\<lparr>cg_continue_labels := butlast (cg_continue_labels cg)\<rparr>"

definition generateBreakStmt :: "CodeGenerator \<Rightarrow> CodeGenerator" where
  "generateBreakStmt cg =
     (let break_label = getCurrentBreakLabel cg
      in if break_label \<noteq> [] then emit_l OP_JMP break_label cg
         else cg_addError ''Break statement outside of loop'' cg)"

definition generateContinueStmt :: "CodeGenerator \<Rightarrow> CodeGenerator" where
  "generateContinueStmt cg =
     (let continue_label = getCurrentContinueLabel cg
      in if continue_label \<noteq> [] then emit_l OP_JMP continue_label cg
         else cg_addError ''Continue statement outside of loop'' cg)"

text \<open>
  \<^verbatim>\<open>generateReturnStmt\<close> after the value is lowered: the \<^verbatim>\<open>MOV\<close> into the return register
  is under the test \<^verbatim>\<open>current_function && current_function->return_register\<close>.
\<close>

definition current_return_register :: "CodeGenerator \<Rightarrow> reg_ptr" where
  "current_return_register cg =
     (case cg_current_function cg of
        None \<Rightarrow> None
      | Some f \<Rightarrow> fn_return_register (cg_functions cg ! f))"

definition move_return_value :: "reg_ptr \<Rightarrow> CodeGenerator \<Rightarrow> CodeGenerator" where
  "move_return_value return_reg cg =
     freeRegister return_reg
       (case current_return_register cg of
          Some r \<Rightarrow> emit_rr OP_MOV (Some r) return_reg cg
        | None \<Rightarrow> cg)"

definition generateReturnStmt ::
  "(string \<Rightarrow> int option) \<Rightarrow> Expression option \<Rightarrow> CodeGenerator \<Rightarrow> crash + CodeGenerator" where
  "generateReturnStmt fi v cg =
     (case v of
        Some e \<Rightarrow>
          (case generateExpression fi (Some e) cg of
             Inl x \<Rightarrow> Inl x
           | Inr (return_reg, cg1) \<Rightarrow> Inr (emit OP_RET (move_return_value return_reg cg1)))
      | None \<Rightarrow> Inr (emit OP_RET cg))"

definition generateExpressionStmt ::
  "(string \<Rightarrow> int option) \<Rightarrow> Expression option \<Rightarrow> CodeGenerator \<Rightarrow> crash + CodeGenerator" where
  "generateExpressionStmt fi e cg =
     (case generateExpression fi e cg of
        Inl x \<Rightarrow> Inl x
      | Inr (result_reg, cg1) \<Rightarrow> Inr (freeRegister result_reg cg1))"

text \<open>\<^verbatim>\<open>generateIfStmt\<close> between the condition and the then branch.\<close>

definition if_test :: "reg_ptr \<Rightarrow> CodeGenerator \<Rightarrow> (string \<times> string) \<times> CodeGenerator" where
  "if_test condition_reg cg =
     (let (else_label, cg1) = generateLabel ''else'' cg;
          (end_label, cg2) = generateLabel ''endif'' cg1;
          cg3 = emit_ri OP_CMP condition_reg 0 cg2;
          cg4 = emit_l OP_JE else_label cg3
      in ((else_label, end_label), freeRegister condition_reg cg4))"

text \<open>\<^verbatim>\<open>generateWhileStmt\<close> before the condition, and between the condition and the body.\<close>

definition while_begin :: "CodeGenerator \<Rightarrow> (string \<times> string) \<times> CodeGenerator" where
  "while_begin cg =
     (let (loop_label, cg1) = generateLabel ''while_loop'' cg;
          (end_label, cg2) = generateLabel ''while_end'' cg1;
          cg3 = pushContinueLabel loop_label (pushBreakLabel end_label cg2)
      in ((loop_label, end_label), emitLabel loop_label cg3))"

definition while_test :: "string \<times> string \<Rightarrow> reg_ptr \<Rightarrow> CodeGenerator \<Rightarrow> CodeGenerator" where
  "while_test labels condition_reg cg =
     freeRegister condition_reg (emit_l OP_JE (snd labels) (emit_ri OP_CMP condition_reg 0 cg))"

text \<open>The end of a loop: the jump back, the end label, the labels popped.\<close>

definition loop_end :: "string \<times> string \<Rightarrow> CodeGenerator \<Rightarrow> CodeGenerator" where
  "loop_end labels cg =
     popContinueLabel (popBreakLabel (emitLabel (snd labels) (emit_l OP_JMP (fst labels) cg)))"

text \<open>\<^verbatim>\<open>generateForStmt\<close> between the iterable and the body, and after the body.\<close>

definition for_begin ::
  "string \<Rightarrow> CodeGenerator \<Rightarrow> (nat \<times> string \<times> string) \<times> CodeGenerator" where
  "for_begin variable cg =
     (let (iterator_reg, cg1) = allocateRegister REG_GENERAL cg;
          (loop_var_reg, cg2) = declare_variable variable cg1;
          (loop_label, cg3) = generateLabel ''for_loop'' cg2;
          (end_label, cg4) = generateLabel ''for_end'' cg3;
          cg5 = pushContinueLabel loop_label (pushBreakLabel end_label cg4);
          cg6 = emit_ri OP_MOV (Some iterator_reg) 0 cg5;
          cg7 = emitLabel loop_label cg6;
          cg8 = emit_l OP_CALL ''_iterator_valid'' cg7;
          (valid_reg, cg9) = allocateRegister REG_GENERAL cg8;
          cg10 = emit_ri OP_CMP (Some valid_reg) 0 cg9;
          cg11 = emit_l OP_JE end_label cg10;
          cg12 = freeRegister (Some valid_reg) cg11;
          cg13 = emit_l OP_CALL ''_iterator_get'' cg12;
          (value_reg, cg14) = allocateRegister REG_GENERAL cg13
      in ((iterator_reg, loop_label, end_label),
          emit_rr OP_MOV (Some loop_var_reg) (Some value_reg) cg14))"

definition for_end :: "reg_ptr \<Rightarrow> nat \<times> string \<times> string \<Rightarrow> CodeGenerator \<Rightarrow> CodeGenerator" where
  "for_end iterable_reg st cg =
     (case st of (iterator_reg, loop_label, end_label) \<Rightarrow>
        (let cg1 = emit_l OP_CALL ''_iterator_next'' cg;
             cg2 = emit_l OP_JMP loop_label cg1;
             cg3 = emitLabel end_label cg2;
             cg4 = freeRegister (Some iterator_reg) (freeRegister iterable_reg cg3)
         in popContinueLabel (popBreakLabel cg4)))"

text \<open>
  The loops of \<^verbatim>\<open>generateMatchStmt\<close> that make a label for every case, \<^verbatim>\<open>i\<close> counting from
  0, and that compare the value with every pattern.
\<close>

fun match_case_labels :: "nat \<Rightarrow> nat \<Rightarrow> CodeGenerator \<Rightarrow> string list \<times> CodeGenerator" where
  "match_case_labels i 0 cg = ([], cg)"
| "match_case_labels i (Suc n) cg =
     (let (lbl, cg1) = generateLabel (''match_case_'' @ to_string (int i)) cg;
          (lbls, cg2) = match_case_labels (Suc i) n cg1
      in (lbl # lbls, cg2))"

fun match_patterns ::
  "(string \<Rightarrow> int option) \<Rightarrow> reg_ptr \<Rightarrow> MatchCase list \<Rightarrow> nat \<Rightarrow> string list \<Rightarrow> CodeGenerator
    \<Rightarrow> crash + CodeGenerator" where
  "match_patterns fi expr_reg [] i case_labels cg = Inr cg"
| "match_patterns fi expr_reg (MatchCase pattern body # cases) i case_labels cg =
     (case generateExpression fi pattern cg of
        Inl e \<Rightarrow> Inl e
      | Inr (pattern_reg, cg1) \<Rightarrow>
          match_patterns fi expr_reg cases (Suc i) case_labels
            (freeRegister pattern_reg
              (emit_l OP_JE (case_labels ! i) (emit_rr OP_CMP expr_reg pattern_reg cg1))))"

text \<open>\<^verbatim>\<open>generateMatchStmt\<close> up to the bodies of the cases.\<close>

definition match_begin ::
  "(string \<Rightarrow> int option) \<Rightarrow> Expression option \<Rightarrow> MatchCase list \<Rightarrow> CodeGenerator
    \<Rightarrow> crash + ((reg_ptr \<times> string \<times> string list) \<times> CodeGenerator)" where
  "match_begin fi e cases cg =
     (case generateExpression fi e cg of
        Inl x \<Rightarrow> Inl x
      | Inr (expr_reg, cg1) \<Rightarrow>
          (let (end_label, cg2) = generateLabel ''match_end'' cg1;
               (case_labels, cg3) = match_case_labels 0 (length cases) cg2
           in case match_patterns fi expr_reg cases 0 case_labels cg3 of
                Inl x \<Rightarrow> Inl x
              | Inr cg4 \<Rightarrow> Inr ((expr_reg, end_label, case_labels), emit_l OP_JMP end_label cg4)))"

text \<open>
  \<^verbatim>\<open>generateStatement\<close> with the functions it dispatches to.  \<open>generateStatements\<close> is the
  loop of \<^verbatim>\<open>generateBlockStmt\<close> and of \<^verbatim>\<open>generateProgram\<close>, \<open>generateCaseBodies\<close> the last
  loop of \<^verbatim>\<open>generateMatchStmt\<close> and \<open>generateMethods\<close> the second loop of
  \<^verbatim>\<open>generateClassDecl\<close>.
\<close>

function (sequential)
  generateStatement ::
    "(string \<Rightarrow> int option) \<Rightarrow> Statement option \<Rightarrow> CodeGenerator \<Rightarrow> crash + CodeGenerator"
  and generateStatements ::
    "(string \<Rightarrow> int option) \<Rightarrow> Statement list \<Rightarrow> CodeGenerator \<Rightarrow> crash + CodeGenerator"
  and generateCaseBodies ::
    "(string \<Rightarrow> int option) \<Rightarrow> MatchCase list \<Rightarrow> nat \<Rightarrow> string list \<Rightarrow> string \<Rightarrow> CodeGenerator
      \<Rightarrow> crash + CodeGenerator"
  and generateMethods ::
    "(string \<Rightarrow> int option) \<Rightarrow> string \<Rightarrow> Statement list \<Rightarrow> CodeGenerator \<Rightarrow> crash + CodeGenerator"
  where
  "generateStatement fi None cg = Inr cg"
| "generateStatement fi (Some (VarDecl name type_name init is_static annotations l c)) cg =
     generateVarDecl fi name init cg"
| "generateStatement fi (Some (ConstDecl name v l c)) cg = generateConstDecl fi name v cg"
| "generateStatement fi (Some (FuncDecl name params return_type body is_static annotations l c)) cg =
     (case generateStatement fi body (setup_parameters params (setupFunction name cg)) of
        Inl e \<Rightarrow> Inl e
      | Inr cg1 \<Rightarrow> ensure_return return_type cg1)"
| "generateStatement fi (Some (ClassDecl name base members annotations l c)) cg =
     (case generateMethods fi name members
             (register_members members (cg\<lparr>cg_current_class_name := name\<rparr>)) of
        Inl e \<Rightarrow> Inl e
      | Inr cg1 \<Rightarrow> Inr (cg1\<lparr>cg_current_class_name := []\<rparr>))"
| "generateStatement fi (Some (SignalDecl name params l c)) cg = Inr (generateSignalDecl cg)"
| "generateStatement fi (Some (EnumDecl name vs l c)) cg = Inr cg"
| "generateStatement fi (Some (BlockStmt statements l c)) cg = generateStatements fi statements cg"
| "generateStatement fi (Some (IfStmt cond then_branch else_branch l c)) cg =
     (case generateExpression fi cond cg of
        Inl e \<Rightarrow> Inl e
      | Inr (condition_reg, cg1) \<Rightarrow>
          (let (labels, cg2) = if_test condition_reg cg1
           in case generateStatement fi then_branch cg2 of
                Inl e \<Rightarrow> Inl e
              | Inr cg3 \<Rightarrow>
                  (let cg4 = emitLabel (fst labels) (emit_l OP_JMP (snd labels) cg3)
                   in case generateStatement fi else_branch cg4 of
                        Inl e \<Rightarrow> Inl e
                      | Inr cg5 \<Rightarrow> Inr (emitLabel (snd labels) cg5))))"
| "generateStatement fi (Some (WhileStmt cond body l c)) cg =
     (let (labels, cg1) = while_begin cg
      in case generateExpression fi cond cg1 of
           Inl e \<Rightarrow> Inl e
         | Inr (condition_reg, cg2) \<Rightarrow>
             (case generateStatement fi body (while_test labels condition_reg cg2) of
                Inl e \<Rightarrow> Inl e
              | Inr cg3 \<Rightarrow> Inr (loop_end labels cg3)))"
| "generateStatement fi (Some (ForStmt variable iterable body l c)) cg =
     (case generateExpression fi iterable cg of
        Inl e \<Rightarrow> Inl e
      | Inr (iterable_reg, cg1) \<Rightarrow>
          (let (st, cg2) = for_begin variable cg1
           in case generateStatement fi body cg2 of
                Inl e \<Rightarrow> Inl e
              | Inr cg3 \<Rightarrow> Inr (for_end iterable_reg st cg3)))"
| "generateStatement fi (Some (MatchStmt e cases l c)) cg =
     (case match_begin fi e cases cg of
        Inl x \<Rightarrow> Inl x
      | Inr ((expr_reg, end_label, case_labels), cg1) \<Rightarrow>
          (case generateCaseBodies fi cases 0 case_labels end_label cg1 of
             Inl x \<Rightarrow> Inl x
           | Inr cg2 \<Rightarrow> Inr (freeRegister expr_reg (emitLabel end_label cg2))))"
| "generateStatement fi (Some (ReturnStmt v l c)) cg = generateReturnStmt fi v cg"
| "generateStatement fi (Some (ExpressionStmt e l c)) cg = generateExpressionStmt fi e cg"
| "generateStatement fi (Some (BreakStmt l c)) cg = Inr (generateBreakStmt cg)"
| "generateStatement fi (Some (ContinueStmt l c)) cg = Inr (generateContinueStmt cg)"
| "generateStatement fi (Some (PassStmt l c)) cg = Inr (emit OP_NOP cg)"
| "generateStatements fi [] cg = Inr cg"
| "generateStatements fi (statement # statements) cg =
     (case generateStatement fi (Some statement) cg of
        Inl e \<Rightarrow> Inl e
      | Inr cg1 \<Rightarrow> generateStatements fi statements cg1)"
| "generateCaseBodies fi [] i case_labels end_label cg = Inr cg"
| "generateCaseBodies fi (MatchCase pattern body # cases) i case_labels end_label cg =
     (case generateStatement fi body (emitLabel (case_labels ! i) cg) of
        Inl e \<Rightarrow> Inl e
      | Inr cg1 \<Rightarrow>
          generateCaseBodies fi cases (Suc i) case_labels end_label (emit_l OP_JMP end_label cg1))"
| "generateMethods fi class_name [] cg = Inr cg"
| "generateMethods fi class_name
     (FuncDecl name params return_type body is_static annotations l c # members) cg =
     (case generateStatement fi body (setup_method class_name name is_static params cg) of
        Inl e \<Rightarrow> Inl e
      | Inr cg1 \<Rightarrow>
          (case ensure_method_return cg1 of
             Inl e \<Rightarrow> Inl e
           | Inr cg2 \<Rightarrow> generateMethods fi class_name members cg2))"
| "generateMethods fi class_name (member # members) cg = generateMethods fi class_name members cg"
  by pat_completeness auto
termination
  by (relation "measure (\<lambda>x. case x of
        Inl (Inl (fi, s, cg)) \<Rightarrow> 2 * size_option size s
      | Inl (Inr (fi, ss, cg)) \<Rightarrow> 2 * size_list size ss + 1
      | Inr (Inl (fi, cs, i, ls, e, cg)) \<Rightarrow> 2 * size_list size cs + 1
      | Inr (Inr (fi, cn, ms, cg)) \<Rightarrow> 2 * size_list size ms + 1)")
     auto

text \<open>
  \<^verbatim>\<open>generateProgram\<close>: \<^verbatim>\<open>generateRuntimeSupport\<close> and the four functions it calls have empty
  bodies.  After the statements of the program, a \<^verbatim>\<open>main\<close> that returns 0 is made if
  \<^verbatim>\<open>function_map\<close> has no \<^verbatim>\<open>main\<close>.
\<close>

definition generate_entry_point :: "CodeGenerator \<Rightarrow> CodeGenerator" where
  "generate_entry_point cg =
     (let cg1 = setupFunction ''main'' cg;
          (reg, cg2) = allocateRegister REG_GENERAL cg1;
          cg3 = emit_ri OP_MOV (Some reg) 0 cg2;
          cg4 = emit OP_RET cg3
      in finalizeFunction cg4)"

definition generateProgram ::
  "(string \<Rightarrow> int option) \<Rightarrow> Program \<Rightarrow> CodeGenerator \<Rightarrow> crash + CodeGenerator" where
  "generateProgram fi program cg =
     (case program of Program statements l c \<Rightarrow>
        (case generateStatements fi statements cg of
           Inl e \<Rightarrow> Inl e
         | Inr cg1 \<Rightarrow>
             Inr (if cg_function_map cg1 ''main'' = None then generate_entry_point cg1 else cg1)))"

section \<open>Notions used in the statements of the lemmas and theorems\<close>

subsection \<open>On the lexer\<close>

text \<open>
  \<open>frame s s'\<close>: from \<open>s\<close> to \<open>s'\<close> the source is the same, the read position has not moved
  back, the indentation stack is the same and no \<^verbatim>\<open>INDENT\<close> or \<^verbatim>\<open>DEDENT\<close> token was added.
\<close>

definition frame :: "Lexer \<Rightarrow> Lexer \<Rightarrow> bool" where
  "frame s s' \<longleftrightarrow>
     lx_source s' = lx_source s \<and> lx_current s \<le> lx_current s' \<and>
     lx_indent_stack s' = lx_indent_stack s \<and>
     count_type TK_INDENT (lx_tokens s') = count_type TK_INDENT (lx_tokens s) \<and>
     count_type TK_DEDENT (lx_tokens s') = count_type TK_DEDENT (lx_tokens s)"

text \<open>\<open>prog s s'\<close>: the source is the same and the read position has not moved back.\<close>

definition prog :: "Lexer \<Rightarrow> Lexer \<Rightarrow> bool" where
  "prog s s' \<longleftrightarrow> lx_source s' = lx_source s \<and> lx_current s \<le> lx_current s'"

text \<open>
  The invariant of the indentation stack: it is not empty, its bottom is the initial level 0,
  and the \<^verbatim>\<open>INDENT\<close> tokens emitted so far are the \<^verbatim>\<open>DEDENT\<close> tokens emitted so far plus the
  levels now on the stack above the bottom.
\<close>

definition lx_inv :: "Lexer \<Rightarrow> bool" where
  "lx_inv s \<longleftrightarrow>
     lx_indent_stack s \<noteq> [] \<and> hd (lx_indent_stack s) = 0 \<and>
     count_type TK_INDENT (lx_tokens s) + 1 =
       count_type TK_DEDENT (lx_tokens s) + length (lx_indent_stack s)"

text \<open>
  The width of the blanks at the start of a text, a tab counting 4: the indentation level
  that \<^verbatim>\<open>handleIndentation\<close> counts when no addition overflows.
\<close>

fun indent_width :: "string \<Rightarrow> int" where
  "indent_width [] = 0"
| "indent_width (c # cs) =
     (if c = CHR '' '' then 1 + indent_width cs
      else if c = TAB then 4 + indent_width cs
      else 0)"

text \<open>
  The indentation of every line fits an \<^verbatim>\<open>int\<close>: after every line feed of the source text,
  the leading blanks have a width below \<open>2^31\<close>.
\<close>

definition indentation_fits :: "string \<Rightarrow> bool" where
  "indentation_fits src =
     list_all (\<lambda>p. src ! p = LF \<longrightarrow> indent_width (drop (Suc p) src) < 2 ^ 31) [0..<length src]"

text \<open>
  A source text with one line feed, \<open>2^29\<close> tabs and a letter: the indentation of its second
  line is \<open>2^31\<close>, one more than the largest \<^verbatim>\<open>int\<close>.
\<close>

definition deep_indent_source :: string where
  "deep_indent_source = LF # replicate (2 ^ 29) TAB @ ''b''"

text \<open>The characters that \<^verbatim>\<open>scanToken\<close> tests for before its \<^verbatim>\<open>default\<close> case.\<close>

definition special_chars :: "char list" where
  "special_chars =
     [CHR '' '', CR, TAB, LF, CHR ''#'', CHR ''@'', CHR ''('', CHR '')'', CHR ''['', CHR '']'',
      CHR ''{'', CHR ''}'', CHR '','', CHR ''.'', CHR '':'', CHR '';'', CHR ''$'', CHR ''+'',
      CHR ''-'', CHR ''*'', CHR ''/'', CHR ''%'', CHR ''='', CHR ''!'', CHR ''<'', CHR ''>'',
      CHR ''&'', CHR ''|'', CHR ''^'', CHR ''~'', CHR 0x22, CHR 0x27]"

text \<open>The source text \<^verbatim>\<open>"if x:\n    y\n    z\n"\<close>.\<close>

definition S1_source :: string where
  "S1_source = ''if x:'' @ [LF] @ ''    y'' @ [LF] @ ''    z'' @ [LF]"


subsection \<open>On the semantic analyzer\<close>

text \<open>
  \<open>sa_same sa sa'\<close>: the two analyzers differ at most in their errors and warnings; the
  scopes, the class table and the context fields are the same.
\<close>

definition sa_same :: "SemanticAnalyzer \<Rightarrow> SemanticAnalyzer \<Rightarrow> bool" where
  "sa_same sa sa' \<longleftrightarrow>
     sa_current_scope sa' = sa_current_scope sa \<and> sa_parents sa' = sa_parents sa \<and>
     sa_classes sa' = sa_classes sa \<and> sa_builtin_types sa' = sa_builtin_types sa \<and>
     sa_current_class sa' = sa_current_class sa \<and>
     sa_current_function sa' = sa_current_function sa \<and>
     sa_in_loop sa' = sa_in_loop sa \<and>
     sa_expected_return_type sa' = sa_expected_return_type sa"

text \<open>
  The type \<^verbatim>\<open>analyzeVarDecl\<close> gives the symbol of a declaration: the declared type, or, when
  no type other than \<^verbatim>\<open>Variant\<close> is declared, the type of the initializer.
\<close>

definition var_decl_type :: "SemanticAnalyzer \<Rightarrow> string \<Rightarrow> Expression option \<Rightarrow> TypeInfo" where
  "var_decl_type sa type_name initializer =
     (let declared_type =
            (if type_name \<noteq> [] then getBuiltinType sa type_name else TypeInfo_of GD_VARIANT)
      in if base_type declared_type \<noteq> GD_VARIANT then declared_type
         else if initializer \<noteq> None then getExpressionType sa initializer
         else declared_type)"

definition already_defined_message :: "string \<Rightarrow> int \<Rightarrow> string" where
  "already_defined_message name line =
     ''Semantic Error'' @ (if line > 0 then '' at line '' @ to_string line else []) @
     '': Variable '' @ quoted name @ '' already defined''"

text \<open>
  A state in which \<open>x\<close> is bound in the current scope, and a second declaration
  \<^verbatim>\<open>var x = "hi"\<close> of it.
\<close>

definition redefinition_state :: SemanticAnalyzer where
  "redefinition_state =
     defineSymbol (Symbol_of ''x'' (TypeInfo_of GD_INT) False False 1) SemanticAnalyzer_init"

definition redefinition_initializer :: "Expression option" where
  "redefinition_initializer = Some (LiteralExpr ''hi'' TK_STRING 0 0)"

text \<open>The names of the methods declared in a class body.\<close>

fun method_names :: "Statement list \<Rightarrow> string list" where
  "method_names [] = []"
| "method_names (FuncDecl name params rt body is_static an l c # members) =
     name # method_names members"
| "method_names (member # members) = method_names members"

text \<open>
  The class of scenario S4 as the parser builds it from
  \<^verbatim>\<open>class C:\<close> / \<^verbatim>\<open>func a():\<close> / \<^verbatim>\<open>return b()\<close> / \<^verbatim>\<open>func b():\<close> / \<^verbatim>\<open>return 1\<close>, for any class name,
  base class and method names: every body is a block, every line and column is 0.
\<close>

definition forward_class :: "string \<Rightarrow> string \<Rightarrow> string \<Rightarrow> string \<Rightarrow> Statement" where
  "forward_class cls base a b =
     ClassDecl cls base
       [FuncDecl a [] [] (Some (BlockStmt
           [ReturnStmt (Some (CallExpr (IdentifierExpr b 0 0) [] 0 0)) 0 0] 0 0)) False [] 0 0,
        FuncDecl b [] [] (Some (BlockStmt
           [ReturnStmt (Some (LiteralExpr ''1'' TK_INTEGER 0 0)) 0 0] 0 0)) False [] 0 0]
       [] 0 0"






text \<open>
  \<open>funs_kept sa sa'\<close>: the enclosing scopes, the functions of the current scope, the
  current function and the expected return type are the same in \<open>sa\<close> and \<open>sa'\<close>.
\<close>

definition funs_kept :: "SemanticAnalyzer \<Rightarrow> SemanticAnalyzer \<Rightarrow> bool" where
  "funs_kept sa sa' \<longleftrightarrow>
     sa_parents sa' = sa_parents sa \<and>
     sc_functions (sa_current_scope sa') = sc_functions (sa_current_scope sa) \<and>
     sa_current_function sa' = sa_current_function sa \<and>
     sa_expected_return_type sa' = sa_expected_return_type sa"



subsection \<open>On the object file\<close>

text \<open>
  The layout of the object blob in the words of the specification: the magic \<^verbatim>\<open>GDOBJ\<close>, the
  function count as a 32-bit integer, then for each function in order its name length as
  \<^verbatim>\<open>u32\<close>, its name bytes, its total instruction count (summed over all blocks) as \<^verbatim>\<open>u32\<close>,
  and one \<^verbatim>\<open>u32\<close> opcode id per instruction.
\<close>

definition all_instructions :: "Function \<Rightarrow> Instruction list" where
  "all_instructions func = concat (map bb_instructions (fn_blocks func))"

definition spec_function_record :: "(32 word \<Rightarrow> byte list) \<Rightarrow> Function \<Rightarrow> byte list" where
  "spec_function_record enc func =
     enc (word_of_nat (length (fn_name func))) @
     bytes_of (fn_name func) @
     enc (word_of_nat (length (all_instructions func))) @
     concat (map (\<lambda>instr. enc (word_of_nat (opcode_id (ins_opcode instr))))
               (all_instructions func))"

definition spec_object_blob :: "(32 word \<Rightarrow> byte list) \<Rightarrow> Function list \<Rightarrow> byte list" where
  "spec_object_blob enc functions =
     bytes_of ''GDOBJ'' @ enc (word_of_nat (length functions)) @
     concat (map (spec_function_record enc) functions)"

text \<open>A function whose name has \<open>2^32\<close> characters, and a small function list.\<close>

definition long_named_function :: Function where
  "long_named_function = Function_of (replicate (2 ^ 32) (CHR ''a''))"

definition sample_functions :: "Function list" where
  "sample_functions =
     [(Function_of ''f'')\<lparr>fn_blocks :=
        [\<lparr>bb_label = ''f_entry'',
          bb_instructions = [Instruction_of OP_MOV, Instruction_of OP_RET]\<rparr>]\<rparr>]"

section \<open>Lemmas on the lexer\<close>

subsection \<open>What a scanning step leaves unchanged\<close>

lemma frame_refl [simp]: "frame s s"
  by (simp add: frame_def)

lemma frame_trans [trans]: "frame s s1 \<Longrightarrow> frame s1 s2 \<Longrightarrow> frame s s2"
  by (auto simp: frame_def)

lemma frame_advance: "frame s (snd (advance s))"
  by (simp add: frame_def advance_def Let_def)

lemma advance_current:
  "\<not> isAtEnd s \<Longrightarrow> lx_current (snd (advance s)) = lx_current s + 1"
  by (simp add: advance_def Let_def)

lemma frame_addToken:
  "t \<noteq> TK_INDENT \<Longrightarrow> t \<noteq> TK_DEDENT \<Longrightarrow> frame s (addToken t v s)"
  by (simp add: frame_def addToken_def count_type_def)

lemma frame_addError: "frame s (addError m s)"
  by (simp add: frame_def addError_def)

lemma frame_digits_loop: "frame s (fst (digits_loop s v))"
proof (induction s v rule: digits_loop.induct)
  case (1 s v)
  show ?case
  proof (cases "isDigit (peek s 0)")
    case True
    with 1 have "frame (snd (advance s)) (fst (digits_loop s v))"
      by (simp add: digits_loop.simps [of s v])
    with frame_advance show ?thesis by (rule frame_trans)
  next
    case False
    then show ?thesis by (simp add: digits_loop.simps [of s v])
  qed
qed

lemma peek_not_end: "peek s 0 \<noteq> NUL \<Longrightarrow> \<not> isAtEnd s"
  by (auto simp: peek_def isAtEnd_def)

lemma isDigit_not_NUL: "isDigit c \<Longrightarrow> c \<noteq> NUL"
  by (auto simp: isDigit_def NUL_def)

lemma isAlpha_not_NUL: "isAlpha c \<Longrightarrow> c \<noteq> NUL"
  by (auto simp: isAlpha_def NUL_def)

lemma digits_loop_strict:
  assumes "isDigit (peek s 0)"
  shows "lx_current s < lx_current (fst (digits_loop s v))"
proof -
  have ne: "\<not> isAtEnd s" using assms isDigit_not_NUL peek_not_end by blast
  have "frame (snd (advance s)) (fst (digits_loop (snd (advance s)) (v @ [fst (advance s)])))"
    by (rule frame_digits_loop)
  then have "lx_current (snd (advance s)) \<le> lx_current (fst (digits_loop s v))"
    using assms by (simp add: frame_def digits_loop.simps [of s v])
  with ne show ?thesis by (simp add: advance_current)
qed


lemma frame_alnum_loop: "frame s (fst (alnum_loop s v))"
proof (induction s v rule: alnum_loop.induct)
  case (1 s v)
  show ?case
  proof (cases "isAlphaNumeric (peek s 0)")
    case True
    with 1 have "frame (snd (advance s)) (fst (alnum_loop s v))"
      by (simp add: alnum_loop.simps [of s v])
    with frame_advance show ?thesis by (rule frame_trans)
  next
    case False
    then show ?thesis by (simp add: alnum_loop.simps [of s v])
  qed
qed

lemma alnum_loop_strict:
  assumes "isAlphaNumeric (peek s 0)"
  shows "lx_current s < lx_current (fst (alnum_loop s v))"
proof -
  have "peek s 0 \<noteq> NUL"
    using assms isDigit_not_NUL isAlpha_not_NUL by (auto simp: isAlphaNumeric_def)
  then have ne: "\<not> isAtEnd s" by (rule peek_not_end)
  have "frame (snd (advance s)) (fst (alnum_loop (snd (advance s)) (v @ [fst (advance s)])))"
    by (rule frame_alnum_loop)
  then have "lx_current (snd (advance s)) \<le> lx_current (fst (alnum_loop s v))"
    using assms by (simp add: frame_def alnum_loop.simps [of s v])
  with ne show ?thesis by (simp add: advance_current)
qed

lemma frame_line_update: "frame s (s\<lparr>lx_line := l, lx_column := c\<rparr>)"
  by (simp add: frame_def)

lemma frame_scanString_loop: "frame s (fst (scanString_loop quote s v))"
proof (induction quote s v rule: scanString_loop.induct)
  case (1 quote s v)
  define s1 where "s1 = (if peek s 0 = LF then s\<lparr>lx_line := int32 (lx_line s + 1), lx_column := 1\<rparr>
                  else s)"
  have f1: "frame s s1" by (simp add: s1_def frame_line_update)
  show ?case
  proof (cases "peek s 0 \<noteq> quote \<and> \<not> isAtEnd s")
    case False
    then show ?thesis by (subst scanString_loop.simps) auto
  next
    case True
    show ?thesis
    proof (cases "peek s1 0 = CHR 0x5C")
      case esc: True
      define s3 where "s3 = snd (advance (snd (advance s1)))"
      have "frame s1 s3" unfolding s3_def
        by (rule frame_trans [OF frame_advance frame_advance])
      with f1 have f3: "frame s s3" by (rule frame_trans)
      have "frame s3 (fst (scanString_loop quote s3 (v @ [unescape (fst (advance (snd (advance s1))))])))"
        using "1.IH"(1) [OF True s1_def esc refl refl refl] by (simp add: s3_def)
      with f3 have "frame s (fst (scanString_loop quote s3 (v @ [unescape (fst (advance (snd (advance s1))))])))"
        by (rule frame_trans)
      moreover have "scanString_loop quote s v =
         scanString_loop quote s3 (v @ [unescape (fst (advance (snd (advance s1))))])"
        using True esc by (subst scanString_loop.simps) (simp add: s1_def s3_def Let_def)
      ultimately show ?thesis by simp
    next
      case noesc: False
      have "frame s1 (snd (advance s1))" by (rule frame_advance)
      with f1 have f2: "frame s (snd (advance s1))" by (rule frame_trans)
      have "frame (snd (advance s1)) (fst (scanString_loop quote (snd (advance s1)) (v @ [fst (advance s1)])))"
        using "1.IH"(2) [OF True s1_def noesc] .
      with f2 have "frame s (fst (scanString_loop quote (snd (advance s1)) (v @ [fst (advance s1)])))"
        by (rule frame_trans)
      moreover have "scanString_loop quote s v =
         scanString_loop quote (snd (advance s1)) (v @ [fst (advance s1)])"
        using True noesc by (subst scanString_loop.simps) (simp add: s1_def Let_def)
      ultimately show ?thesis by simp
    qed
  qed
qed

lemma frame_scanString: "frame s (scanString quote s)"
proof -
  obtain s1 v where sl: "scanString_loop quote s [] = (s1, v)" by (cases "scanString_loop quote s []")
  have f1: "frame s s1" using frame_scanString_loop [of s quote "[]"] sl by simp
  have "frame s1 (addError ''Unterminated string'' s1)" by (rule frame_addError)
  moreover have "frame s1 (addToken TK_STRING v (snd (advance s1)))"
    by (rule frame_trans [OF frame_advance frame_addToken]) (simp_all add: TokenType_defs)
  ultimately have "frame s1 (scanString quote s)"
    by (simp add: scanString_def sl)
  with f1 show ?thesis by (rule frame_trans)
qed

lemma frame_scanComment: "frame s (scanComment s)"
proof (induction s rule: scanComment.induct)
  case (1 s)
  show ?case
  proof (cases "peek s 0 \<noteq> LF \<and> \<not> isAtEnd s")
    case True
    with 1 have "frame (snd (advance s)) (scanComment s)"
      by (simp add: scanComment.simps [of s])
    with frame_advance show ?thesis by (rule frame_trans)
  next
    case False
    then show ?thesis by (auto simp: scanComment.simps [of s])
  qed
qed

lemma frame_indent_count_loop: "frame s (fst (indent_count_loop s i))"
proof (induction s i rule: indent_count_loop.induct)
  case (1 s i)
  show ?case
  proof (cases "peek s 0 = CHR '' '' \<or> peek s 0 = TAB")
    case True
    with 1 have "frame (snd (advance s)) (fst (indent_count_loop s i))"
      by (simp add: indent_count_loop.simps [of s i])
    with frame_advance show ?thesis by (rule frame_trans)
  next
    case False
    then show ?thesis by (simp add: indent_count_loop.simps [of s i])
  qed
qed

lemma int32_id: "- (2 ^ 31) \<le> x \<Longrightarrow> x < 2 ^ 31 \<Longrightarrow> int32 x = x"
  by (simp add: int32_def)

lemma int32_add: "int32 (int32 a + b) = int32 (a + b)"
proof -
  have "(int32 a + b + 2 ^ 31) mod 2 ^ 32 = ((a + 2 ^ 31) mod 2 ^ 32 + b) mod 2 ^ 32"
    by (simp add: int32_def)
  also have "\<dots> = (a + 2 ^ 31 + b) mod 2 ^ 32" by (simp add: mod_add_left_eq)
  finally show ?thesis by (simp add: int32_def algebra_simps)
qed

lemma indent_width_nonneg: "0 \<le> indent_width cs"
  by (induction cs) simp_all

text \<open>
  As long as the width of the blanks ahead fits an \<^verbatim>\<open>int\<close>, the loop counts this width.
\<close>

lemma indent_count_loop_level:
  "0 \<le> i \<Longrightarrow> i + indent_width (drop (lx_current s) (lx_source s)) < 2 ^ 31 \<Longrightarrow>
     snd (indent_count_loop s i) = i + indent_width (drop (lx_current s) (lx_source s))"
proof (induction s i rule: indent_count_loop.induct)
  case (1 s i)
  let ?rest = "drop (lx_current s) (lx_source s)"
  show ?case
  proof (cases "peek s 0 = CHR '' '' \<or> peek s 0 = TAB")
    case True
    then have lt: "lx_current s < length (lx_source s)"
      by (auto simp: peek_def NUL_def TAB_def Let_def split: if_splits)
    then have c: "?rest = peek s 0 # drop (Suc (lx_current s)) (lx_source s)"
      by (simp add: peek_def Cons_nth_drop_Suc)
    let ?s' = "snd (advance s)"
    let ?k = "if peek s 0 = CHR '' '' then 1 else (4 :: int)"
    have s': "lx_source ?s' = lx_source s" "lx_current ?s' = Suc (lx_current s)"
      using lt by (simp_all add: advance_def isAtEnd_def Let_def)
    have w: "indent_width ?rest = ?k + indent_width (drop (Suc (lx_current s)) (lx_source s))"
      using True by (subst c) (auto simp: TAB_def)
    have nn: "0 \<le> indent_width (drop (Suc (lx_current s)) (lx_source s))"
      by (rule indent_width_nonneg)
    have k: "int32 (i + ?k) = i + ?k" using "1.prems" w nn by (intro int32_id) auto
    have "snd (indent_count_loop ?s' (i + ?k)) =
        i + ?k + indent_width (drop (lx_current ?s') (lx_source ?s'))"
      using "1.IH" [OF True] "1.prems" w k by (auto simp: s')
    then show ?thesis
      using True k w by (auto simp: indent_count_loop.simps [of s i] s')
  next
    case False
    then have "indent_width ?rest = 0"
      by (cases ?rest)
         (auto simp: peek_def Let_def TAB_def hd_drop_conv_nth dest!: arg_cong [where f = hd]
               split: if_splits)
    with False show ?thesis by (simp add: indent_count_loop.simps [of s i])
  qed
qed



lemma advance_fields [simp]:
  "lx_source (snd (advance s)) = lx_source s"
  "lx_indent_stack (snd (advance s)) = lx_indent_stack s"
  "lx_tokens (snd (advance s)) = lx_tokens s"
  "lx_errors (snd (advance s)) = lx_errors s"
  "lx_current (snd (advance s)) = (if isAtEnd s then lx_current s else Suc (lx_current s))"
  by (simp_all add: advance_def Let_def)

lemma digits_loopD: "digits_loop s v = (s', v') \<Longrightarrow> frame s s'"
  using frame_digits_loop [of s v] by simp

lemma alnum_loopD: "alnum_loop s v = (s', v') \<Longrightarrow> frame s s'"
  using frame_alnum_loop [of s v] by simp


lemma frame_scanNumber_fraction:
  "scanNumber_fraction s v = (f, s', v') \<Longrightarrow> frame s s'"
proof -
  assume a: "scanNumber_fraction s v = (f, s', v')"
  show ?thesis
  proof (cases "peek s 0 = CHR ''.'' \<and> isDigit (peek s 1)")
    case True
    with a have "s' = fst (digits_loop (snd (advance s)) (v @ [fst (advance s)]))"
      by (auto simp: scanNumber_fraction_def split: prod.splits)
    then have "frame (snd (advance s)) s'" by (simp add: frame_digits_loop)
    with frame_advance show ?thesis by (rule frame_trans)
  next
    case False
    with a show ?thesis by (auto simp: scanNumber_fraction_def)
  qed
qed

lemma frame_scanNumber_exponent:
  "scanNumber_exponent f0 s v = (f, s', v') \<Longrightarrow> frame s s'"
proof -
  assume a: "scanNumber_exponent f0 s v = (f, s', v')"
  show ?thesis
  proof (cases "peek s 0 = CHR ''e'' \<or> peek s 0 = CHR ''E''")
    case True
    define s1 where "s1 = snd (advance s)"
    define s2 where "s2 = (if peek s1 0 = CHR ''+'' \<or> peek s1 0 = CHR ''-'' then snd (advance s1) else s1)"
    have f12: "frame s s2"
      unfolding s2_def s1_def
      by (auto intro: frame_trans [OF frame_advance frame_advance] frame_advance)
    from a True have "\<exists>w. digits_loop s2 w = (s', v')"
      by (auto simp: scanNumber_exponent_def Let_def s1_def s2_def split: prod.splits if_splits)
    then have "frame s2 s'" by (auto dest: digits_loopD)
    with f12 show ?thesis by (rule frame_trans)
  next
    case False
    with a show ?thesis by (auto simp: scanNumber_exponent_def)
  qed
qed

lemma scanNumber_unfold:
  "\<exists>s1 v1 f1 s2 v2 f2 s3 v3.
     digits_loop s [] = (s1, v1) \<and> scanNumber_fraction s1 v1 = (f1, s2, v2) \<and>
     scanNumber_exponent f1 s2 v2 = (f2, s3, v3) \<and>
     scanNumber s = addToken (if f2 then TK_FLOAT else TK_INTEGER) v3 s3"
  unfolding scanNumber_def Let_def by (auto split: prod.splits)

lemma frame_scanNumber: "frame s (scanNumber s)"
proof -
  obtain s1 v1 f1 s2 v2 f2 s3 v3 where
     a: "digits_loop s [] = (s1, v1)" and b: "scanNumber_fraction s1 v1 = (f1, s2, v2)" and
     c: "scanNumber_exponent f1 s2 v2 = (f2, s3, v3)" and
     d: "scanNumber s = addToken (if f2 then TK_FLOAT else TK_INTEGER) v3 s3"
    using scanNumber_unfold [of s] by blast
  have "frame s s1" using a by (rule digits_loopD)
  also have "frame s1 s2" using b by (rule frame_scanNumber_fraction)
  also have "frame s2 s3" using c by (rule frame_scanNumber_exponent)
  also have "frame s3 (scanNumber s)"
    unfolding d by (rule frame_addToken) (simp_all add: TokenType_defs)
  finally show ?thesis .
qed


lemma scanNumber_strict:
  assumes "isDigit (peek s 0)"
  shows "lx_current s < lx_current (scanNumber s)"
proof -
  obtain s1 v1 f1 s2 v2 f2 s3 v3 where
     a: "digits_loop s [] = (s1, v1)" and b: "scanNumber_fraction s1 v1 = (f1, s2, v2)" and
     c: "scanNumber_exponent f1 s2 v2 = (f2, s3, v3)" and
     d: "scanNumber s = addToken (if f2 then TK_FLOAT else TK_INTEGER) v3 s3"
    using scanNumber_unfold [of s] by blast
  have "lx_current s < lx_current s1" using digits_loop_strict [OF assms, of "[]"] a by simp
  moreover have "frame s1 s2" using b by (rule frame_scanNumber_fraction)
  moreover have "frame s2 s3" using c by (rule frame_scanNumber_exponent)
  ultimately show ?thesis by (simp add: d frame_def addToken_def)
qed

lemma keywords_not_indent:
  "map_of Lexer_keywords v = Some k \<Longrightarrow> k \<noteq> TK_INDENT \<and> k \<noteq> TK_DEDENT"
proof -
  assume "map_of Lexer_keywords v = Some k"
  then have "k \<in> snd ` set Lexer_keywords" by (metis image_eqI map_of_SomeD snd_conv)
  then show ?thesis by (auto simp: Lexer_keywords_def TokenType_defs)
qed

lemma frame_scanIdentifier: "frame s (scanIdentifier s)"
proof -
  obtain s1 v where a: "alnum_loop s [] = (s1, v)" by (cases "alnum_loop s []")
  define t where "t = (case map_of Lexer_keywords v of Some k \<Rightarrow> k | None \<Rightarrow> TK_IDENTIFIER)"
  have t: "t \<noteq> TK_INDENT" "t \<noteq> TK_DEDENT"
    using keywords_not_indent [of v] by (auto simp: t_def TokenType_defs split: option.splits)
  have "frame s s1" using a by (rule alnum_loopD)
  also have "frame s1 (addToken t v s1)" using t by (rule frame_addToken)
  also have "addToken t v s1 = scanIdentifier s" by (simp add: scanIdentifier_def a t_def)
  finally show ?thesis .
qed

lemma scanIdentifier_strict:
  assumes "isAlphaNumeric (peek s 0)"
  shows "lx_current s < lx_current (scanIdentifier s)"
proof -
  obtain s1 v where a: "alnum_loop s [] = (s1, v)" by (cases "alnum_loop s []")
  have "lx_current s < lx_current s1" using alnum_loop_strict [OF assms, of "[]"] a by simp
  then show ?thesis by (simp add: scanIdentifier_def a addToken_def)
qed

lemma frame_op2: "one \<noteq> TK_INDENT \<Longrightarrow> one \<noteq> TK_DEDENT \<Longrightarrow> two \<noteq> TK_INDENT \<Longrightarrow> two \<noteq> TK_DEDENT
  \<Longrightarrow> frame s (op2 c two one s)"
  unfolding op2_def
  by (auto intro: frame_addToken frame_trans [OF frame_advance frame_addToken])

lemma frame_op3: "one \<noteq> TK_INDENT \<Longrightarrow> one \<noteq> TK_DEDENT \<Longrightarrow> two \<noteq> TK_INDENT \<Longrightarrow> two \<noteq> TK_DEDENT
  \<Longrightarrow> three \<noteq> TK_INDENT \<Longrightarrow> three \<noteq> TK_DEDENT \<Longrightarrow> frame s (op3 c two d three one s)"
  unfolding op3_def
  by (auto intro: frame_addToken frame_trans [OF frame_advance frame_addToken])


lemma frame_prog: "frame s s' \<Longrightarrow> prog s s'"
  by (simp add: frame_def prog_def)

lemma prog_trans [trans]: "prog s s1 \<Longrightarrow> prog s1 s2 \<Longrightarrow> prog s s2"
  by (auto simp: prog_def)

lemma frame_inv: "frame s s' \<Longrightarrow> lx_inv s \<Longrightarrow> lx_inv s'"
  by (simp add: frame_def lx_inv_def)

lemma dedent_loop_prog: "prog s (dedent_loop i s)"
proof (induction i s rule: dedent_loop.induct)
  case (1 i s)
  show ?case
  proof (cases "lx_indent_stack s \<noteq> [] \<and> last (lx_indent_stack s) > i")
    case True
    with 1 have "prog (addToken TK_DEDENT [] (s\<lparr>lx_indent_stack := butlast (lx_indent_stack s)\<rparr>))
       (dedent_loop i s)"
      by (simp add: dedent_loop.simps [of i s])
    then show ?thesis by (simp add: prog_def addToken_def)
  next
    case False
    then show ?thesis by (auto simp: dedent_loop.simps [of i s] prog_def)
  qed
qed

lemma dedent_loop_inv: "0 \<le> i \<Longrightarrow> lx_inv s \<Longrightarrow> lx_inv (dedent_loop i s)"
proof (induction i s rule: dedent_loop.induct)
  case (1 i s)
  show ?case
  proof (cases "lx_indent_stack s \<noteq> [] \<and> last (lx_indent_stack s) > i")
    case True
    define s1 where "s1 = addToken TK_DEDENT [] (s\<lparr>lx_indent_stack := butlast (lx_indent_stack s)\<rparr>)"
    from True "1.prems" have len: "length (lx_indent_stack s) \<ge> 2"
      by (cases "lx_indent_stack s") (auto simp: lx_inv_def Suc_le_eq split: if_splits)
    then have "butlast (lx_indent_stack s) \<noteq> []" "hd (butlast (lx_indent_stack s)) = hd (lx_indent_stack s)"
      by (cases "lx_indent_stack s"; auto)+
    with "1.prems" len have "lx_inv s1"
      by (auto simp: lx_inv_def s1_def addToken_def count_type_def TokenType_defs)
    with 1 True have "lx_inv (dedent_loop i s1)" by (simp add: s1_def)
    with True show ?thesis by (simp add: dedent_loop.simps [of i s] s1_def)
  next
    case False
    with 1 show ?thesis by (auto simp: dedent_loop.simps [of i s])
  qed
qed

lemma indent_count_loopD: "indent_count_loop s i = (s', i') \<Longrightarrow> frame s s'"
  using frame_indent_count_loop [of s i] by simp

lemma handleIndentation_prog: "prog s (handleIndentation s)"
proof -
  obtain s1 i where a: "indent_count_loop s 0 = (s1, i)" by (cases "indent_count_loop s 0")
  have "prog s s1" using a by (auto dest: indent_count_loopD frame_prog)
  also have "prog s1 (handleIndentation s)"
    using dedent_loop_prog [of s1 i]
    by (simp add: handleIndentation_def a Let_def prog_def addToken_def addError_def)
  finally show ?thesis .
qed

lemma handleIndentation_inv:
  assumes inv: "lx_inv s"
    and fits: "indent_width (drop (lx_current s) (lx_source s)) < 2 ^ 31"
  shows "lx_inv (handleIndentation s)"
proof -
  obtain s1 i where a: "indent_count_loop s 0 = (s1, i)" by (cases "indent_count_loop s 0")
  have "i = indent_width (drop (lx_current s) (lx_source s))"
    using indent_count_loop_level [of 0 s] fits a by simp
  then have i: "0 \<le> i" by (simp add: indent_width_nonneg)
  have "frame s s1" using a by (rule indent_count_loopD)
  with inv have inv1: "lx_inv s1" by (auto dest: frame_inv)
  have inv2: "lx_inv (dedent_loop i s1)" using i inv1 by (rule dedent_loop_inv)
  have push: "lx_inv (addToken TK_INDENT [] (s1\<lparr>lx_indent_stack := lx_indent_stack s1 @ [i]\<rparr>))"
    using inv1 by (auto simp: lx_inv_def addToken_def count_type_def TokenType_defs)
  have err: "lx_inv (addError ''Invalid indentation level'' (dedent_loop i s1))"
    using inv2 by (rule frame_inv [OF frame_addError])
  show ?thesis
    using inv1 inv2 push err by (simp add: handleIndentation_def a Let_def)
qed


lemma frame_advI: "frame (snd (advance s)) x \<Longrightarrow> frame s x"
  using frame_advance by (rule frame_trans)

lemma back_up_advance:
  assumes "\<not> isAtEnd s0"
  shows "frame s0 (back_up (snd (advance s0)))"
    and "peek (back_up (snd (advance s0))) 0 = fst (advance s0)"
  using assms
  by (auto simp: frame_def back_up_def advance_def Let_def peek_def isAtEnd_def)

lemma advance_NUL: "isAtEnd s \<Longrightarrow> fst (advance s) = NUL"
  by (simp add: advance_def)

lemma frame_annotation:
  "frame s (case alnum_loop s ''@'' of (s1, annotation) \<Rightarrow> addToken TK_ANNOTATION annotation s1)"
proof -
  obtain s1 v where a: "alnum_loop s ''@'' = (s1, v)" by (cases "alnum_loop s ''@''")
  have "frame s s1" using a by (rule alnum_loopD)
  also have "frame s1 (addToken TK_ANNOTATION v s1)"
    by (rule frame_addToken) (simp_all add: TokenType_defs)
  finally show ?thesis by (simp add: a)
qed

lemma scanToken_frame:
  assumes "fst (advance s0) \<noteq> LF"
  shows "frame s0 (scanToken s0)"
proof (cases "isAtEnd s0")
  case True
  then have "fst (advance s0) = NUL" by (rule advance_NUL)
  then have "scanToken s0 = addError (''Unexpected character: '' @ [NUL]) (snd (advance s0))"
    by (simp add: scanToken_def Let_def NUL_def CR_def TAB_def LF_def isDigit_def isAlpha_def)
  then show ?thesis by (simp add: frame_advI frame_addError)
next
  case False
  note bu = back_up_advance [OF False]
  have num: "isDigit (fst (advance s0)) \<Longrightarrow> frame s0 (scanNumber (back_up (snd (advance s0))))"
    using bu(1) frame_scanNumber by (rule frame_trans)
  have idt: "isAlpha (fst (advance s0)) \<Longrightarrow> frame s0 (scanIdentifier (back_up (snd (advance s0))))"
    using bu(1) frame_scanIdentifier by (rule frame_trans)
  have tk: "\<And>t v. t \<noteq> TK_INDENT \<Longrightarrow> t \<noteq> TK_DEDENT \<Longrightarrow> frame s0 (addToken t v (snd (advance s0)))"
    by (rule frame_advI) (rule frame_addToken)
  have o2: "\<And>c one two. one \<noteq> TK_INDENT \<Longrightarrow> one \<noteq> TK_DEDENT \<Longrightarrow> two \<noteq> TK_INDENT \<Longrightarrow> two \<noteq> TK_DEDENT
     \<Longrightarrow> frame s0 (op2 c two one (snd (advance s0)))"
    by (rule frame_advI) (rule frame_op2)
  have o3: "\<And>c d one two three. one \<noteq> TK_INDENT \<Longrightarrow> one \<noteq> TK_DEDENT \<Longrightarrow> two \<noteq> TK_INDENT \<Longrightarrow> two \<noteq> TK_DEDENT
     \<Longrightarrow> three \<noteq> TK_INDENT \<Longrightarrow> three \<noteq> TK_DEDENT \<Longrightarrow> frame s0 (op3 c two d three one (snd (advance s0)))"
    by (rule frame_advI) (rule frame_op3)
  have others: "frame s0 (snd (advance s0))" "frame s0 (scanComment (snd (advance s0)))"
     "\<And>m. frame s0 (addError m (snd (advance s0)))"
     "\<And>q. frame s0 (scanString q (snd (advance s0)))"
     "frame s0 (case alnum_loop (snd (advance s0)) ''@'' of (s1, annotation) \<Rightarrow> addToken TK_ANNOTATION annotation s1)"
    by (auto intro: frame_advI frame_scanComment frame_addError frame_scanString frame_annotation frame_advance)
  show ?thesis
    using assms num idt others
    by (simp add: scanToken_def Let_def tk o2 o3 TokenType_defs)
qed


lemma scanToken_newline:
  "fst (advance s0) = LF \<Longrightarrow>
     scanToken s0 = handleIndentation (addToken TK_NEWLINE [] (snd (advance s0)))"
  by (simp add: scanToken_def Let_def LF_def CR_def TAB_def)

lemma scanToken_prog: "prog s0 (scanToken s0)"
proof (cases "fst (advance s0) = LF")
  case True
  have "prog s0 (addToken TK_NEWLINE [] (snd (advance s0)))"
    by (simp add: prog_def addToken_def)
  also have "prog \<dots> (handleIndentation (addToken TK_NEWLINE [] (snd (advance s0))))"
    by (rule handleIndentation_prog)
  finally show ?thesis by (simp add: scanToken_newline [OF True])
next
  case False
  then show ?thesis by (simp add: scanToken_frame frame_prog)
qed

lemma scanToken_inv:
  assumes inv: "lx_inv s0" and fits: "indentation_fits (lx_source s0)"
  shows "lx_inv (scanToken s0)"
proof (cases "fst (advance s0) = LF")
  case True
  let ?s = "addToken TK_NEWLINE [] (snd (advance s0))"
  from True have lt: "lx_current s0 < length (lx_source s0)"
    and lf: "lx_source s0 ! lx_current s0 = LF"
    by (auto simp: advance_def isAtEnd_def Let_def NUL_def LF_def split: if_splits)
  then have s: "lx_source ?s = lx_source s0" "lx_current ?s = Suc (lx_current s0)"
    by (simp_all add: advance_def isAtEnd_def Let_def addToken_def)
  have "indent_width (drop (Suc (lx_current s0)) (lx_source s0)) < 2 ^ 31"
    using fits lt lf by (simp add: indentation_fits_def list_all_iff)
  then have w: "indent_width (drop (lx_current ?s) (lx_source ?s)) < 2 ^ 31" by (simp add: s)
  have "frame s0 ?s"
    by (rule frame_advI, rule frame_addToken) (simp_all add: TokenType_defs)
  then have "lx_inv ?s" using inv by (rule frame_inv)
  then have "lx_inv (handleIndentation ?s)" using w by (rule handleIndentation_inv)
  then show ?thesis by (simp add: scanToken_newline [OF True])
next
  case False
  with inv show ?thesis by (auto intro: frame_inv scanToken_frame)
qed

lemma special_not_alnum: "c \<in> set special_chars \<Longrightarrow> \<not> isAlpha c \<and> \<not> isDigit c"
  by (auto simp: special_chars_def isAlpha_def isDigit_def CR_def TAB_def LF_def)

lemma scanToken_digit:
  assumes "isDigit (fst (advance s0))"
  shows "scanToken s0 = scanNumber (back_up (snd (advance s0)))"
proof -
  have "fst (advance s0) \<notin> set special_chars" using assms special_not_alnum by blast
  then show ?thesis using assms
    by (simp add: scanToken_def Let_def special_chars_def)
qed

lemma scanToken_alpha:
  assumes "\<not> isDigit (fst (advance s0))" "isAlpha (fst (advance s0))"
  shows "scanToken s0 = scanIdentifier (back_up (snd (advance s0)))"
proof -
  have "fst (advance s0) \<notin> set special_chars" using assms special_not_alnum by blast
  then show ?thesis using assms
    by (simp add: scanToken_def Let_def special_chars_def)
qed

lemma scanToken_strict:
  assumes ne: "\<not> isAtEnd s0"
  shows "lx_current s0 < lx_current (scanToken s0)"
proof -
  let ?c = "fst (advance s0)" and ?s = "snd (advance s0)"
  have adv: "lx_current ?s = Suc (lx_current s0)" using ne by simp
  note bu = back_up_advance [OF ne]
  consider (digit) "isDigit ?c" | (alpha) "\<not> isDigit ?c" "isAlpha ?c"
    | (other) "\<not> isDigit ?c" "\<not> isAlpha ?c" by blast
  then show ?thesis
  proof cases
    case digit
    then have "scanToken s0 = scanNumber (back_up ?s)" by (rule scanToken_digit)
    moreover have "lx_current (back_up ?s) < lx_current (scanNumber (back_up ?s))"
      using digit bu(2) by (intro scanNumber_strict) simp
    moreover have "lx_current s0 \<le> lx_current (back_up ?s)" using bu(1) by (simp add: frame_def)
    ultimately show ?thesis by simp
  next
    case alpha
    then have "scanToken s0 = scanIdentifier (back_up ?s)" by (rule scanToken_alpha)
    moreover have "lx_current (back_up ?s) < lx_current (scanIdentifier (back_up ?s))"
      using alpha bu(2) by (intro scanIdentifier_strict) (simp add: isAlphaNumeric_def)
    moreover have "lx_current s0 \<le> lx_current (back_up ?s)" using bu(1) by (simp add: frame_def)
    ultimately show ?thesis by simp
  next
    case other
    have "prog ?s (scanToken s0)"
    proof (cases "?c = LF")
      case True
      have "prog ?s (addToken TK_NEWLINE [] ?s)" by (simp add: prog_def addToken_def)
      also have "prog \<dots> (handleIndentation (addToken TK_NEWLINE [] ?s))"
        by (rule handleIndentation_prog)
      finally show ?thesis by (simp add: scanToken_newline [OF True])
    next
      case False
      have tk: "\<And>t v. t \<noteq> TK_INDENT \<Longrightarrow> t \<noteq> TK_DEDENT \<Longrightarrow> frame ?s (addToken t v ?s)"
        by (rule frame_addToken)
      have "frame ?s (scanToken s0)"
        using False other frame_annotation [of ?s]
        by (simp add: scanToken_def Let_def tk frame_op2 frame_op3 frame_scanComment
            frame_addError frame_scanString TokenType_defs)
      then show ?thesis by (rule frame_prog)
    qed
    with adv show ?thesis by (simp add: prog_def)
  qed
qed


termination tokenize_loop
proof (relation "measure remaining")
  show "wf (measure remaining)" by simp
next
  fix s assume ne: "\<not> isAtEnd s"
  have "lx_source (scanToken s) = lx_source s"
    using scanToken_prog [of s] by (simp add: prog_def)
  moreover have "lx_current s < lx_current (scanToken s)"
    using ne by (rule scanToken_strict)
  moreover have "lx_current s < length (lx_source s)"
    using ne by (simp add: isAtEnd_def)
  ultimately show "(scanToken s, s) \<in> measure remaining"
    by (simp add: remaining_def)
qed

declare tokenize_loop.simps [simp del]


subsection \<open>The indentation invariant\<close>

lemma tokenize_loop_inv:
  "lx_inv s \<Longrightarrow> indentation_fits (lx_source s) \<Longrightarrow> lx_inv (tokenize_loop s)"
proof (induction s rule: tokenize_loop.induct)
  case (1 s)
  show ?case
  proof (cases "isAtEnd s")
    case True
    with 1 show ?thesis by (simp add: tokenize_loop.simps [of s])
  next
    case False
    have "lx_source (scanToken s) = lx_source s"
      using scanToken_prog [of s] by (simp add: prog_def)
    with 1 False show ?thesis by (simp add: tokenize_loop.simps [of s] scanToken_inv)
  qed
qed

lemma final_dedents_inv:
  "lx_inv s \<Longrightarrow> lx_inv (final_dedents s) \<and> length (lx_indent_stack (final_dedents s)) = 1"
proof (induction s rule: final_dedents.induct)
  case (1 s)
  show ?case
  proof (cases "length (lx_indent_stack s) > 1")
    case True
    define s1 where "s1 = addToken TK_DEDENT [] (s\<lparr>lx_indent_stack := butlast (lx_indent_stack s)\<rparr>)"
    from True have "butlast (lx_indent_stack s) \<noteq> []" "hd (butlast (lx_indent_stack s)) = hd (lx_indent_stack s)"
      by (cases "lx_indent_stack s"; auto)+
    with "1.prems" True have "lx_inv s1"
      by (auto simp: lx_inv_def s1_def addToken_def count_type_def TokenType_defs)
    with 1 True show ?thesis by (simp add: final_dedents.simps [of s] s1_def)
  next
    case False
    with 1 show ?thesis
      by (cases "lx_indent_stack s") (auto simp: final_dedents.simps [of s] lx_inv_def)
  qed
qed

lemma lx_inv_init: "lx_inv (Lexer_init src)"
  by (simp add: lx_inv_def Lexer_init_def count_type_def)


text \<open>A source text of fewer than \<open>2^29\<close> characters has no indentation that overflows.\<close>

lemma indent_width_le: "indent_width cs \<le> 4 * int (length cs)"
  by (induction cs) auto

lemma short_source_fits:
  assumes "length src < 2 ^ 29"
  shows "indentation_fits src"
proof -
  have "indent_width (drop (Suc p) src) < 2 ^ 31" for p
  proof -
    have "indent_width (drop (Suc p) src) \<le> 4 * int (length (drop (Suc p) src))"
      by (rule indent_width_le)
    also have "\<dots> \<le> 4 * int (length src)" by simp
    also have "\<dots> < 4 * 2 ^ 29" using assms by simp
    finally show ?thesis by simp
  qed
  then show ?thesis by (simp add: indentation_fits_def list_all_iff)
qed

text \<open>
  Claim C7, as it holds.  For every source string in which the indentation of every line fits
  the \<^verbatim>\<open>int\<close> that counts it (after every line feed the leading blanks have a width below
  \<open>2^31\<close>, a tab counting 4), the token stream returned by \<^verbatim>\<open>Lexer::tokenize\<close> holds
  exactly as many \<^verbatim>\<open>INDENT\<close> tokens as \<^verbatim>\<open>DEDENT\<close> tokens: every push on the indentation
  stack emits one \<^verbatim>\<open>INDENT\<close>, every pop one \<^verbatim>\<open>DEDENT\<close>, the initial level 0 is never popped,
  and the loop at the end of \<^verbatim>\<open>tokenize\<close> pops what is left above it.  Every source text of
  fewer than \<open>2^29\<close> characters is such a string (lemma \<open>short_source_fits\<close>).
\<close>

theorem tokenize_indent_dedent_balanced:
  assumes "indentation_fits src"
  shows "count_type TK_INDENT (tokenize src) = count_type TK_DEDENT (tokenize src)"
proof -
  define s1 where "s1 = tokenize_loop (Lexer_init src)"
  define s2 where "s2 = (if lx_tokens s1 \<noteq> [] \<and> tok_type (last (lx_tokens s1)) \<noteq> TK_NEWLINE
                then addToken TK_NEWLINE [] s1 else s1)"
  define s3 where "s3 = final_dedents s2"
  have "lx_inv s1" unfolding s1_def
    using assms by (intro tokenize_loop_inv lx_inv_init) (simp add: Lexer_init_def)
  moreover have "frame s1 s2" unfolding s2_def
    by (auto intro!: frame_addToken simp: TokenType_defs)
  ultimately have "lx_inv s2" by (auto dest: frame_inv)
  then have "lx_inv s3 \<and> length (lx_indent_stack s3) = 1"
    unfolding s3_def by (rule final_dedents_inv)
  then have "count_type TK_INDENT (lx_tokens s3) = count_type TK_DEDENT (lx_tokens s3)"
    by (simp add: lx_inv_def)
  moreover have "tokenize src = lx_tokens (addToken TK_EOF_TOKEN [] s3)"
    by (simp add: tokenize_def Lexer_tokenize_def Let_def s1_def s2_def s3_def)
  ultimately show ?thesis
    by (simp add: addToken_def count_type_def TokenType_defs)
qed

theorem tokenize_indent_dedent_balanced_witness:
  "count_type TK_INDENT (tokenize S1_source) = count_type TK_DEDENT (tokenize S1_source) \<and>
   count_type TK_INDENT (tokenize S1_source) = 1"
proof -
  have f: "indentation_fits S1_source" by code_simp
  have "count_type TK_INDENT (tokenize S1_source) = 1" by code_simp
  with tokenize_indent_dedent_balanced [OF f] show ?thesis by simp
qed


lemma int32_idem: "int32 (int32 a) = int32 a"
  using int32_add [of a 0] by simp

text \<open>The level that the loop counts on a run of tabs, with the wrap-around.\<close>

lemma tabs_level:
  assumes "lx_source s = pre @ replicate n TAB @ post" "lx_current s = length pre"
    "post = [] \<or> (hd post \<noteq> CHR '' '' \<and> hd post \<noteq> TAB)" "int32 i = i"
  shows "snd (indent_count_loop s i) = int32 (i + 4 * int n) \<and>
         lx_current (fst (indent_count_loop s i)) = length pre + n"
  using assms
proof (induction n arbitrary: s i pre)
  case 0
  then have "\<not> (peek s 0 = CHR '' '' \<or> peek s 0 = TAB)"
    by (cases post) (auto simp: peek_def Let_def NUL_def TAB_def nth_append)
  then show ?case
    using 0 by (simp add: indent_count_loop.simps [of s i])
next
  case (Suc n)
  have lt: "lx_current s < length (lx_source s)" using Suc.prems by simp
  have pk: "peek s 0 = TAB" using Suc.prems by (simp add: peek_def Let_def nth_append)
  let ?s' = "snd (advance s)"
  have s': "lx_source ?s' = (pre @ [TAB]) @ replicate n TAB @ post"
    "lx_current ?s' = length (pre @ [TAB])"
    using lt Suc.prems by (simp_all add: advance_def isAtEnd_def Let_def)
  have ne: "TAB \<noteq> CHR '' ''" by (simp add: TAB_def)
  have "indent_count_loop s i = indent_count_loop ?s' (int32 (i + 4))"
    using pk ne by (simp add: indent_count_loop.simps [of s i])
  moreover have "snd (indent_count_loop ?s' (int32 (i + 4))) =
        int32 (int32 (i + 4) + 4 * int n) \<and>
      lx_current (fst (indent_count_loop ?s' (int32 (i + 4)))) = length (pre @ [TAB]) + n"
    using s' Suc.prems(3) int32_idem by (rule Suc.IH)
  moreover have "int32 (int32 (i + 4) + 4 * int n) = int32 (i + 4 * int (Suc n))"
    unfolding int32_add by (simp add: algebra_simps)
  ultimately show ?case by simp
qed

text \<open>
  Claim C7 as it is stated, for every source string, fails.  On a line feed followed by
  \<open>2^29\<close> tabs and a letter, the level counted for the second line is \<open>4 * 2^29 = 2^31\<close>,
  which the \<^verbatim>\<open>int\<close> does not hold: it is \<open>-2^31\<close> after the wrap-around, less than the 0 at
  the bottom of the stack, so the loop of \<^verbatim>\<open>handleIndentation\<close> pops this 0 and emits a
  \<^verbatim>\<open>DEDENT\<close> that no \<^verbatim>\<open>INDENT\<close> matches.
\<close>

theorem deep_indent_unbalanced:
  "count_type TK_INDENT (tokenize deep_indent_source) = 0 \<and>
   count_type TK_DEDENT (tokenize deep_indent_source) = 1"
proof -
  let ?N = "2 ^ 29 :: nat"
  let ?src = deep_indent_source
  have len: "length ?src = ?N + 2" by (simp add: deep_indent_source_def)
  let ?s0 = "Lexer_init ?src"
  have ne0: "\<not> isAtEnd ?s0" by (simp add: isAtEnd_def Lexer_init_def len)
  have lf: "fst (advance ?s0) = LF"
    by (simp add: advance_def isAtEnd_def Lexer_init_def len Let_def deep_indent_source_def)
  let ?sA = "addToken TK_NEWLINE [] (snd (advance ?s0))"
  have sA: "lx_source ?sA = [LF] @ replicate ?N TAB @ ''b''" "lx_current ?sA = length [LF]"
    "lx_indent_stack ?sA = [0]"
    "count_type TK_INDENT (lx_tokens ?sA) = 0" "count_type TK_DEDENT (lx_tokens ?sA) = 0"
    by (simp_all add: advance_def isAtEnd_def Lexer_init_def len Let_def deep_indent_source_def
        addToken_def count_type_def TokenType_defs)
  obtain s1 lvl where ic: "indent_count_loop ?sA 0 = (s1, lvl)"
    by (cases "indent_count_loop ?sA 0")
  have "snd (indent_count_loop ?sA 0) = int32 (0 + 4 * int ?N) \<and>
        lx_current (fst (indent_count_loop ?sA 0)) = length [LF] + ?N"
    by (rule tabs_level [OF sA(1) sA(2)]) (simp_all add: int32_def TAB_def)
  with ic have lvl: "lvl = - (2 ^ 31)" and cur1: "lx_current s1 = ?N + 1"
    by (simp_all add: int32_def)
  have fr: "frame ?sA s1" using ic by (rule indent_count_loopD)
  then have s1: "lx_source s1 = ?src" "lx_indent_stack s1 = [0]"
    "count_type TK_INDENT (lx_tokens s1) = 0" "count_type TK_DEDENT (lx_tokens s1) = 0"
    using sA by (simp_all add: frame_def deep_indent_source_def)
  have pk1: "peek s1 0 = CHR ''b''"
    using s1(1) cur1 by (simp add: peek_def Let_def len deep_indent_source_def nth_append)
  let ?s2 = "addToken TK_DEDENT [] (s1\<lparr>lx_indent_stack := []\<rparr>)"
  have "dedent_loop lvl s1 = dedent_loop lvl ?s2"
    using s1(2) lvl by (subst dedent_loop.simps) simp
  also have "\<dots> = ?s2"
    by (subst dedent_loop.simps) (simp add: addToken_def)
  finally have dl: "dedent_loop lvl s1 = ?s2" .
  let ?sB = "addError ''Invalid indentation level'' ?s2"
  have hB: "handleIndentation ?sA = ?sB"
    using ic pk1 s1(2) lvl dl
    by (simp add: handleIndentation_def Let_def LF_def addToken_def)
  have sB: "lx_source ?sB = ?src" "lx_current ?sB = ?N + 1" "lx_indent_stack ?sB = []"
    "count_type TK_INDENT (lx_tokens ?sB) = 0" "count_type TK_DEDENT (lx_tokens ?sB) = 1"
    using s1 cur1 by (simp_all add: addError_def addToken_def count_type_def TokenType_defs)
  have st0: "scanToken ?s0 = ?sB" using scanToken_newline [OF lf] hB by simp
  have neB: "\<not> isAtEnd ?sB" using sB by (simp add: isAtEnd_def len)
  let ?sC = "scanToken ?sB"
  have advB: "fst (advance ?sB) \<noteq> LF"
    using sB(1,2) neB
    by (simp add: advance_def Let_def len deep_indent_source_def nth_append LF_def)
  have frC: "frame ?sB ?sC" using advB by (rule scanToken_frame)
  have "lx_current ?sB < lx_current ?sC" using neB by (rule scanToken_strict)
  with frC sB have endC: "isAtEnd ?sC" by (simp add: isAtEnd_def frame_def len)
  have loop: "tokenize_loop ?s0 = ?sC"
    using ne0 neB endC st0
    by (simp add: tokenize_loop.simps [of ?s0] tokenize_loop.simps [of ?sB]
        tokenize_loop.simps [of ?sC])
  have sC: "lx_indent_stack ?sC = []"
    "count_type TK_INDENT (lx_tokens ?sC) = 0" "count_type TK_DEDENT (lx_tokens ?sC) = 1"
    using frC sB by (simp_all add: frame_def)
  define s2' where "s2' = (if lx_tokens ?sC \<noteq> [] \<and> tok_type (last (lx_tokens ?sC)) \<noteq> TK_NEWLINE
                then addToken TK_NEWLINE [] ?sC else ?sC)"
  have "frame ?sC s2'" unfolding s2'_def
    by (auto intro!: frame_addToken simp: TokenType_defs)
  with sC have s2': "lx_indent_stack s2' = []"
    "count_type TK_INDENT (lx_tokens s2') = 0" "count_type TK_DEDENT (lx_tokens s2') = 1"
    by (simp_all add: frame_def)
  have fd: "final_dedents s2' = s2'" using s2'(1) by (simp add: final_dedents.simps [of s2'])
  have "tokenize ?src = lx_tokens (addToken TK_EOF_TOKEN [] s2')"
    by (simp add: tokenize_def Lexer_tokenize_def Let_def loop s2'_def [symmetric] fd)
  with s2' show ?thesis by (simp add: addToken_def count_type_def TokenType_defs)
qed


subsection \<open>Scenario S1\<close>

text \<open>
  Claim C3.  Lexing \<^verbatim>\<open>"if x:\n    y\n    z\n"\<close> is claimed to give exactly
  \<^verbatim>\<open>IF IDENTIFIER(x) COLON NEWLINE INDENT IDENTIFIER(y) NEWLINE IDENTIFIER(z) NEWLINE DEDENT EOF\<close>.
  The lexer gives twelve tokens, not eleven: after the last \<^verbatim>\<open>'\n'\<close>, \<^verbatim>\<open>handleIndentation\<close>
  sees indentation 0 at the end of the text and emits the \<^verbatim>\<open>DEDENT\<close>; \<^verbatim>\<open>tokenize\<close> then
  finds that the last token is not a \<^verbatim>\<open>NEWLINE\<close> and adds one more \<^verbatim>\<open>NEWLINE\<close> before
  \<^verbatim>\<open>EOF\<close>, although the text ends with a newline.
\<close>

theorem S1_tokens:
  "map (\<lambda>t. (tok_type t, tok_value t)) (tokenize S1_source) =
     [(TK_IF, ''if''), (TK_IDENTIFIER, ''x''), (TK_COLON, []), (TK_NEWLINE, []),
      (TK_INDENT, []), (TK_IDENTIFIER, ''y''), (TK_NEWLINE, []), (TK_IDENTIFIER, ''z''),
      (TK_NEWLINE, []), (TK_DEDENT, []), (TK_NEWLINE, []), (TK_EOF_TOKEN, [])]"
  by code_simp

section \<open>Theorems on the semantic analyzer\<close>

subsection \<open>Comparison operators\<close>

lemma comparison_not_arith:
  assumes "is_comparison op"
  shows "op \<noteq> TK_PLUS" "op \<noteq> TK_MINUS" "op \<noteq> TK_MULTIPLY" "op \<noteq> TK_DIVIDE" "op \<noteq> TK_MODULO"
    "op \<noteq> TK_ASSIGN" "op \<noteq> TK_PLUS_ASSIGN" "op \<noteq> TK_MINUS_ASSIGN" "op \<noteq> TK_MULTIPLY_ASSIGN"
    "op \<noteq> TK_DIVIDE_ASSIGN" "op \<noteq> TK_MODULO_ASSIGN" "op \<noteq> TK_TYPE_INFER_ASSIGN"
  using assms unfolding is_comparison_def TokenType_defs by auto

text \<open>
  The part of claim C1 that holds: a comparison of two numeric operands, or of two strings,
  has the result type \<^verbatim>\<open>bool\<close>.
\<close>

lemma comparison_numeric_or_string_is_bool:
  assumes "is_comparison op"
    and "(isNumeric left \<and> isNumeric right) \<or>
         (base_type left = GD_STRING \<and> base_type right = GD_STRING)"
  shows "getBinaryResultType left op right = TypeInfo_of GD_BOOL"
proof -
  have nv: "base_type left \<noteq> GD_VARIANT" "base_type right \<noteq> GD_VARIANT"
    using assms(2) by (auto simp: isNumeric_def)
  have "getBinaryResultType left op right =
     (if (isNumeric left \<and> isNumeric right) \<or>
            (base_type left = GD_STRING \<and> base_type right = GD_STRING) \<or>
            base_type left = GD_VARIANT \<or> base_type right = GD_VARIANT
         then TypeInfo_of GD_BOOL
         else TypeInfo_of GD_UNKNOWN)"
    unfolding getBinaryResultType_def
    using comparison_not_arith [OF assms(1)] assms(1) nv
    by (simp add: is_comparison_def)
  with assms(2) show ?thesis by auto
qed

text \<open>
  Claim C1.  For the comparison operators, whenever at least one operand is \<^verbatim>\<open>variant\<close> the
  result type is claimed to be \<^verbatim>\<open>bool\<close>.  In the code the first statement of
  \<^verbatim>\<open>getBinaryResultType\<close> returns \<^verbatim>\<open>VARIANT\<close> for every operator as soon as one operand is
  \<^verbatim>\<open>VARIANT\<close>, so the test \<^verbatim>\<open>left.base_type == VARIANT || right.base_type == VARIANT\<close> in the
  comparison case, which returns \<^verbatim>\<open>BOOL\<close>, is never reached: the result is \<^verbatim>\<open>VARIANT\<close>.
\<close>

theorem comparison_with_variant_is_variant:
  assumes "is_comparison op"
    and "base_type left = GD_VARIANT \<or> base_type right = GD_VARIANT"
  shows "getBinaryResultType left op right = TypeInfo_of GD_VARIANT \<and>
         base_type (getBinaryResultType left op right) \<noteq> GD_BOOL"
  using assms(2) by (simp add: getBinaryResultType_def TypeInfo_of_def)

theorem comparison_with_variant_is_variant_witness:
  "is_comparison TK_EQUAL \<and>
   getBinaryResultType (TypeInfo_of GD_VARIANT) TK_EQUAL (TypeInfo_of GD_INT) =
     TypeInfo_of GD_VARIANT \<and>
   base_type (getBinaryResultType (TypeInfo_of GD_VARIANT) TK_EQUAL (TypeInfo_of GD_INT))
     \<noteq> GD_BOOL"
proof -
  have c: "is_comparison TK_EQUAL" by (simp add: is_comparison_def)
  have v: "base_type (TypeInfo_of GD_VARIANT) = GD_VARIANT \<or>
           base_type (TypeInfo_of GD_INT) = GD_VARIANT"
    by (simp add: TypeInfo_of_def)
  from comparison_with_variant_is_variant [OF c v] c show ?thesis by blast
qed


subsection \<open>Expressions leave the scopes as they are\<close>

lemma sa_same_refl [simp]: "sa_same sa sa"
  by (simp add: sa_same_def)

lemma sa_same_trans [trans]: "sa_same a b \<Longrightarrow> sa_same b c \<Longrightarrow> sa_same a c"
  by (simp add: sa_same_def)

lemma sa_same_addError [simp]: "sa_same sa (sa_addError m l sa)"
  by (simp add: sa_same_def sa_addError_def)

lemma sa_same_addWarning [simp]: "sa_same sa (sa_addWarning m l sa)"
  by (simp add: sa_same_def sa_addWarning_def)

lemma sa_same_addError' [simp]: "sa_same sa sa' \<Longrightarrow> sa_same sa (sa_addError m l sa')"
  by (simp add: sa_same_def sa_addError_def)

lemma sa_same_addWarning' [simp]: "sa_same sa sa' \<Longrightarrow> sa_same sa (sa_addWarning m l sa')"
  by (simp add: sa_same_def sa_addWarning_def)

lemma sa_same_analyzeIdentifierExpr [simp]: "sa_same sa (analyzeIdentifierExpr n l sa)"
  by (simp add: analyzeIdentifierExpr_def split: option.splits)

lemma sa_same_check_arguments [simp]: "sa_same sa (check_arguments i pts args l sa)"
proof (induction i pts args l sa rule: check_arguments.induct)
  case (1 i pt pts arg args line sa)
  define sa1 where "sa1 = (if \<not> isCompatibleWith pt (getExpressionType sa arg)
                 then sa_addError (''Argument '' @ to_string (int i + 1) @
                        '' type mismatch: expected '' @ TypeInfo_toString pt @ '', got '' @
                        TypeInfo_toString (getExpressionType sa arg)) line sa
                 else sa)"
  have "sa_same sa sa1" by (simp add: sa1_def)
  also have "sa_same sa1 (check_arguments (i + 1) pts args line sa1)"
    using 1 [OF refl sa1_def] .
  finally show ?case by (simp add: Let_def sa1_def)
qed simp_all

lemma sa_same_check_call [simp]: "sa_same sa (check_call f args l sa)"
  by (simp add: check_call_def)

lemma sa_same_check_ternary [simp]: "sa_same sa (check_ternary a b c l sa)"
  by (simp add: check_ternary_def Let_def)

lemma sa_same_check_array_access [simp]: "sa_same sa (check_array_access a b l sa)"
  by (simp add: check_array_access_def Let_def)

lemma define_lambda_params_fields [simp]:
  "sa_parents (define_lambda_params ps sa) = sa_parents sa"
  "sa_classes (define_lambda_params ps sa) = sa_classes sa"
  "sa_builtin_types (define_lambda_params ps sa) = sa_builtin_types sa"
  "sa_current_class (define_lambda_params ps sa) = sa_current_class sa"
  "sa_current_function (define_lambda_params ps sa) = sa_current_function sa"
  "sa_in_loop (define_lambda_params ps sa) = sa_in_loop sa"
  "sa_expected_return_type (define_lambda_params ps sa) = sa_expected_return_type sa"
  by (induction ps arbitrary: sa; simp add: defineSymbol_def)+

lemma exit_lambda:
  assumes "sa_same (define_lambda_params ps (enterScope sa)) sa'"
  shows "sa_same sa (exitScope sa')"
  using assms by (simp add: sa_same_def exitScope_def enterScope_def)

lemma analyzeExpression_same:
  "sa_same sa (analyzeExpression e sa)"
  "sa_same sa (analyzeExpressions es sa)"
  "sa_same sa (analyzePairs ps sa)"
proof (induction e sa and es sa and ps sa rule: analyzeExpression_analyzeExpressions_analyzePairs.induct)
  case (4 left op right l c sa)
  define sa1 where "sa1 = analyzeExpression left sa"
  define sa2 where "sa2 = analyzeExpression right sa1"
  have "sa_same sa sa1" unfolding sa1_def by (rule 4(1))
  also have "sa_same sa1 sa2" unfolding sa2_def by (rule 4(2) [OF sa1_def])
  finally have "sa_same sa sa2" .
  then show ?case by (simp add: Let_def sa1_def sa2_def)
next
  case (5 op operand l c sa)
  then show ?case by (simp add: Let_def)
next
  case (6 callee args l c sa)
  define sa1 where "sa1 = analyzeExpressions args sa"
  have a: "sa_same sa sa1" unfolding sa1_def using 6(1) .
  have b: "sa_same sa1 (case callee of
           IdentifierExpr n l' c' \<Rightarrow>
             (case findFunction sa1 n of
                Some func \<Rightarrow> check_call func args l sa1
              | None \<Rightarrow> analyzeExpression (Some callee) sa1)
         | _ \<Rightarrow> analyzeExpression (Some callee) sa1)"
    using 6(2-) [OF sa1_def]
    by (cases callee) (auto simp del: analyzeExpression.simps split: option.splits)
  from a b have "sa_same sa (case callee of
           IdentifierExpr n l' c' \<Rightarrow>
             (case findFunction sa1 n of
                Some func \<Rightarrow> check_call func args l sa1
              | None \<Rightarrow> analyzeExpression (Some callee) sa1)
         | _ \<Rightarrow> analyzeExpression (Some callee) sa1)" by (rule sa_same_trans)
  then show ?case unfolding sa1_def by (simp add: Let_def)
next
  case (8 array index l c sa)
  have "sa_same sa (analyzeExpression array sa)" by (rule 8(1))
  also have "sa_same \<dots> (analyzeExpression index (analyzeExpression array sa))" by (rule 8(2))
  also have "sa_same \<dots> (check_array_access array index l (analyzeExpression index (analyzeExpression array sa)))"
    by simp
  finally show ?case by simp
next
  case (11 params body l c sa)
  then show ?case by (simp add: exit_lambda)
next
  case (12 cond true_expr false_expr l c sa)
  have "sa_same sa (analyzeExpression cond sa)" by (rule 12(1))
  also have "sa_same \<dots> (analyzeExpression true_expr (analyzeExpression cond sa))" by (rule 12(2))
  also have "sa_same \<dots> (analyzeExpression false_expr (analyzeExpression true_expr (analyzeExpression cond sa)))"
    by (rule 12(3))
  also have "sa_same \<dots> (check_ternary cond true_expr false_expr l (analyzeExpression false_expr (analyzeExpression true_expr (analyzeExpression cond sa))))"
    by simp
  finally show ?case by simp
next
  case (14 e es sa)
  have "sa_same sa (analyzeExpression e sa)" by (rule 14(1))
  also have "sa_same \<dots> (analyzeExpressions es (analyzeExpression e sa))" by (rule 14(2))
  finally show ?case by simp
next
  case (16 p ps sa)
  have "sa_same sa (analyzeExpression (fst p) sa)" by (rule 16(1))
  also have "sa_same \<dots> (analyzeExpression (snd p) (analyzeExpression (fst p) sa))" by (rule 16(2))
  also have "sa_same \<dots> (analyzePairs ps (analyzeExpression (snd p) (analyzeExpression (fst p) sa)))"
    by (rule 16(3))
  finally show ?case by simp
qed simp_all


lemma sa_same_find:
  assumes "sa_same sa sa'"
  shows "findSymbol sa' n = findSymbol sa n" "findFunction sa' n = findFunction sa n"
  using assms by (simp_all add: sa_same_def findSymbol_def findFunction_def)

lemma getExpressionType_same:
  "sa_same sa sa' \<Longrightarrow> getExpressionType sa' e = getExpressionType sa e"
  by (induction sa e rule: getExpressionType.induct)
     (simp_all add: sa_same_find Let_def cong: option.case_cong Expression.case_cong)

lemma getBuiltinType_same:
  "sa_same sa sa' \<Longrightarrow> getBuiltinType sa' n = getBuiltinType sa n"
proof (induction sa n rule: getBuiltinType.induct)
  case (1 sa name)
  from 1(2) have f: "sa_builtin_types sa' = sa_builtin_types sa" "sa_classes sa' = sa_classes sa"
    by (simp_all add: sa_same_def)
  show ?case
    using 1 f
    by (subst getBuiltinType.simps, subst (2) getBuiltinType.simps)
       (auto simp: lookup_type_name_def Let_def split: option.splits)
qed

subsection \<open>Redefinition of a variable\<close>

text \<open>
  Claim C9.  When a \<^verbatim>\<open>var\<close> declaration uses a name that is already bound in the current
  scope, \<^verbatim>\<open>analyzeVarDecl\<close> reports the error "Variable '...' already defined" (it is the last
  error of the analyzer afterwards) and still calls \<^verbatim>\<open>defineSymbol\<close>: the binding of the name
  in the current scope is the symbol of the new declaration, and a lookup of the name finds
  this symbol, with the type and the initialization state of the new declaration.
\<close>

theorem analyzeVarDecl_redefinition:
  assumes "sc_symbols (sa_current_scope sa) name = Some old"
  shows "\<exists>earlier symbol.
     sa_errors (analyzeVarDecl name type_name initializer is_static line sa) =
       earlier @ [already_defined_message name line] \<and>
     sc_symbols (sa_current_scope (analyzeVarDecl name type_name initializer is_static line sa))
       name = Some symbol \<and>
     findSymbol (analyzeVarDecl name type_name initializer is_static line sa) name = Some symbol \<and>
     sym_type symbol = var_decl_type sa type_name initializer \<and>
     sym_is_initialized symbol = (initializer \<noteq> None) \<and>
     sym_is_static symbol = is_static \<and> sym_declaration_line symbol = line"
proof -
  define declared_type where "declared_type =
            (if type_name \<noteq> [] then getBuiltinType sa type_name else TypeInfo_of GD_VARIANT)"
  define sa1 where "sa1 = (if type_name \<noteq> [] \<and> base_type declared_type = GD_UNKNOWN
                 then sa_addError (''Unknown type '' @ quoted type_name) line sa else sa)"
  define sa2 where "sa2 = (if initializer \<noteq> None then analyzeExpression initializer sa1 else sa1)"
  define inferred_type where "inferred_type =
            (if initializer \<noteq> None then getExpressionType sa2 initializer else declared_type)"
  define sa3 where "sa3 = (if initializer \<noteq> None \<and> \<not> isCompatibleWith declared_type inferred_type \<and>
                    base_type declared_type \<noteq> GD_VARIANT
                 then sa_addError (''Type mismatch: cannot assign '' @
                        TypeInfo_toString inferred_type @ '' to '' @
                        TypeInfo_toString declared_type) line sa2
                 else sa2)"
  define symbol where "symbol = (Symbol_of name
                      (if base_type declared_type \<noteq> GD_VARIANT then declared_type
                       else inferred_type)
                      False is_static line)
                   \<lparr>sym_is_initialized := (initializer \<noteq> None)\<rparr>"
  have s1: "sa_same sa sa1" by (simp add: sa1_def)
  have "sa_same sa1 sa2" by (simp add: sa2_def analyzeExpression_same)
  with s1 have s2: "sa_same sa sa2" by (rule sa_same_trans)
  have "sa_same sa2 sa3" by (simp add: sa3_def)
  with s2 have s3: "sa_same sa sa3" by (rule sa_same_trans)
  then have bound: "sc_symbols (sa_current_scope sa3) name \<noteq> None"
    using assms by (simp add: sa_same_def)
  have res: "analyzeVarDecl name type_name initializer is_static line sa =
      defineSymbol symbol
        (sa_addError (''Variable '' @ quoted name @ '' already defined'') line sa3)"
    using bound
    unfolding analyzeVarDecl_def declared_type_def [symmetric] Let_def
      sa1_def [symmetric] sa2_def [symmetric] inferred_type_def [symmetric]
      sa3_def [symmetric] symbol_def [symmetric]
    by simp
  have ty: "sym_type symbol = var_decl_type sa type_name initializer"
    using getExpressionType_same [OF s2, of initializer]
    by (simp add: symbol_def Symbol_of_def var_decl_type_def inferred_type_def declared_type_def Let_def)
  have nm: "sym_name symbol = name" by (simp add: symbol_def Symbol_of_def)
  show ?thesis
    apply (rule exI [of _ "sa_errors sa3"], rule exI [of _ symbol])
    using ty nm
    by (simp add: res defineSymbol_def sa_addError_def findSymbol_def already_defined_message_def
        symbol_def Symbol_of_def)
qed


theorem analyzeVarDecl_redefinition_witness:
  "sc_symbols (sa_current_scope redefinition_state) ''x'' =
     Some (Symbol_of ''x'' (TypeInfo_of GD_INT) False False 1) \<and>
   (\<exists>earlier symbol.
     sa_errors (analyzeVarDecl ''x'' [] redefinition_initializer False 2 redefinition_state) =
       earlier @ [already_defined_message ''x'' 2] \<and>
     sc_symbols (sa_current_scope
       (analyzeVarDecl ''x'' [] redefinition_initializer False 2 redefinition_state)) ''x'' =
       Some symbol \<and>
     findSymbol (analyzeVarDecl ''x'' [] redefinition_initializer False 2 redefinition_state) ''x'' =
       Some symbol \<and>
     sym_type symbol = var_decl_type redefinition_state [] redefinition_initializer \<and>
     sym_is_initialized symbol = (redefinition_initializer \<noteq> None) \<and>
     sym_is_static symbol = False \<and> sym_declaration_line symbol = 2)"
proof -
  have h: "sc_symbols (sa_current_scope redefinition_state) ''x'' =
     Some (Symbol_of ''x'' (TypeInfo_of GD_INT) False False 1)"
    by (simp add: redefinition_state_def defineSymbol_def Symbol_of_def)
  from h analyzeVarDecl_redefinition [OF h, of "[]" redefinition_initializer False 2]
  show ?thesis by blast
qed

text \<open>The witness evaluated: the type of \<open>x\<close> is now \<^verbatim>\<open>String\<close> and one error is reported.\<close>

lemma redefinition_evaluated:
  "map_option sym_type
     (findSymbol (analyzeVarDecl ''x'' [] redefinition_initializer False 2 redefinition_state) ''x'')
     = Some (TypeInfo_of GD_STRING)"
  "sa_errors (analyzeVarDecl ''x'' [] redefinition_initializer False 2 redefinition_state) =
     [''Semantic Error at line 2: Variable '' @ quoted ''x'' @ '' already defined'']"
  by code_simp+

subsection \<open>Methods of a class\<close>

lemma class_pass1_member_methods:
  "class_pass1_member m (sa, ci) = (sa', ci') \<Longrightarrow>
     dom (ci_methods ci') = dom (ci_methods ci) \<union> set (method_names [m])"
  by (cases m) (auto simp: Let_def split: prod.splits)

lemma class_pass1_methods:
  "class_pass1 members (sa, ci) = (sa', ci') \<Longrightarrow>
     dom (ci_methods ci') = dom (ci_methods ci) \<union> set (method_names members)"
proof (induction members arbitrary: sa ci)
  case Nil
  then show ?case by simp
next
  case (Cons m members)
  obtain sa1 ci1 where m: "class_pass1_member m (sa, ci) = (sa1, ci1)"
    by (cases "class_pass1_member m (sa, ci)")
  from Cons.prems m have "class_pass1 members (sa1, ci1) = (sa', ci')" by simp
  then have "dom (ci_methods ci') = dom (ci_methods ci1) \<union> set (method_names members)"
    by (rule Cons.IH)
  moreover have "dom (ci_methods ci1) = dom (ci_methods ci) \<union> set (method_names [m])"
    using m by (rule class_pass1_member_methods)
  moreover have "set (method_names (m # members)) = set (method_names [m]) \<union> set (method_names members)"
    by (cases m) auto
  ultimately show ?case by auto
qed

lemma exitScope_classes [simp]: "sa_classes (exitScope sa) = sa_classes sa"
  by (simp add: exitScope_def split: list.splits)

lemma class_methods_registered:
  assumes "analyzeStatement (Some (ClassDecl name base members an l c)) sa = Inr sa'"
  shows "\<exists>ci. sa_classes sa' name = Some ci \<and> dom (ci_methods ci) = set (method_names members)"
proof -
  define sa1 where "sa1 = (if sa_classes sa name \<noteq> None
                 then sa_addError (''Class '' @ quoted name @ '' already defined'') l sa
                 else sa)"
  define sa2 where "sa2 = enterScope (sa1\<lparr>sa_current_class := name\<rparr>)"
  obtain sa3 ci where p1: "class_pass1 members (sa2, ClassInfo_of name base l) = (sa3, ci)"
    by (cases "class_pass1 members (sa2, ClassInfo_of name base l)")
  have d: "dom (ci_methods ci) = set (method_names members)"
    using class_pass1_methods [OF p1] by (simp add: ClassInfo_of_def)
  from assms obtain sa4 where "class_pass2 members sa3 = Inr sa4"
    and "sa' = exitScope (sa4\<lparr>sa_classes := (sa_classes sa4)(name \<mapsto> ci),
                                  sa_current_class := sa_current_class sa1\<rparr>)"
    using p1 unfolding analyzeStatement.simps Let_def sa1_def [symmetric] sa2_def [symmetric]
    by (auto split: sum.splits)
  then have "sa_classes sa' name = Some ci" by simp
  with d show ?thesis by blast
qed

subsection \<open>What the analysis keeps of the scopes\<close>

lemma funs_kept_refl [simp]: "funs_kept sa sa"
  by (simp add: funs_kept_def)





lemma funs_kept_addError' [simp]: "funs_kept sa sa' \<Longrightarrow> funs_kept sa (sa_addError m l sa')"
  by (simp add: funs_kept_def sa_addError_def)




















lemma exit_enter [simp]: "exitScope (enterScope sa) = sa"
  by (simp add: exitScope_def enterScope_def)

lemma parents_enterScope [simp]: "sa_parents (enterScope sa) = sa_current_scope sa # sa_parents sa"
  by (simp add: enterScope_def)

lemma exitScope_Cons:
  "sa_parents sa = p # ps \<Longrightarrow> sa_parents (exitScope sa) = ps \<and> sa_current_scope (exitScope sa) = p"
  by (simp add: exitScope_def)

lemma sa_same_parents: "sa_same sa sa' \<Longrightarrow> sa_parents sa' = sa_parents sa"
  by (simp add: sa_same_def)

lemma funs_kept_parents: "funs_kept sa sa' \<Longrightarrow> sa_parents sa' = sa_parents sa"
  by (simp add: funs_kept_def)

lemma parents_check_condition [simp]: "sa_parents (check_condition c l sa) = sa_parents sa"
  by (simp add: check_condition_def Let_def sa_addWarning_def)

lemma parents_analyzeExpression [simp]: "sa_parents (analyzeExpression e sa) = sa_parents sa"
  using analyzeExpression_same(1) [of sa e] by (simp add: sa_same_def)

lemma parents_addError [simp]: "sa_parents (sa_addError m l sa) = sa_parents sa"
  by (simp add: sa_addError_def)

lemma parents_addWarning [simp]: "sa_parents (sa_addWarning m l sa) = sa_parents sa"
  by (simp add: sa_addWarning_def)

lemma parents_defineSymbol [simp]: "sa_parents (defineSymbol y sa) = sa_parents sa"
  by (simp add: defineSymbol_def)

lemma parents_enter_for [simp]:
  "sa_parents (enter_for v it l sa) = sa_current_scope sa # sa_parents sa"
proof -
  have "sa_same sa (analyzeExpression it sa)" by (rule analyzeExpression_same)
  then show ?thesis by (simp add: enter_for_def Let_def sa_same_def sa_addError_def defineSymbol_def enterScope_def)
qed

lemma parents_analyzeReturnStmt [simp]: "sa_parents (analyzeReturnStmt v l sa) = sa_parents sa"
  by (simp add: analyzeReturnStmt_def Let_def)



subsection \<open>Forward calls between the methods of a class\<close>

text \<open>
  The class of scenario S4, with any two different, non-empty method names, is analyzed with
  no error, and its entry in the class table has exactly the two methods.
\<close>

lemma forward_class_accepted:
  assumes "a \<noteq> b" "a \<noteq> []" "b \<noteq> []"
  shows "\<exists>sa' ci. analyze (Program [forward_class cls base a b] 0 0) = Inr sa' \<and>
           sa_errors sa' = [] \<and> sa_classes sa' cls = Some ci \<and> dom (ci_methods ci) = {a, b}"
proof -
  have "\<exists>sa'. analyze (Program [forward_class cls base a b] 0 0) = Inr sa' \<and> sa_errors sa' = []"
    using assms
    by (simp add: analyze_def analyzeProgram_def forward_class_def SemanticAnalyzer_init_def
      Let_def register_signature_def get_return_type_def declared_signature_def
      FunctionSignature_of_def defineFunction_def enterScope_def exitScope_def Scope_empty_def
      ClassInfo_of_def findFunction_def analyzeReturnStmt_def check_call_def
      isCompatibleWith_def TypeInfo_eq_def TypeInfo_of_def TK_INTEGER_def)
  then obtain sa' where a: "analyze (Program [forward_class cls base a b] 0 0) = Inr sa'"
    and e: "sa_errors sa' = []" by blast
  from a have "analyzeStatement (Some (forward_class cls base a b)) SemanticAnalyzer_init = Inr sa'"
    by (simp add: analyze_def analyzeProgram_def split: sum.splits)
  then obtain ci where "sa_classes sa' cls = Some ci"
    and "dom (ci_methods ci) = set (method_names
       [FuncDecl a [] [] (Some (BlockStmt
           [ReturnStmt (Some (CallExpr (IdentifierExpr b 0 0) [] 0 0)) 0 0] 0 0)) False [] 0 0,
        FuncDecl b [] [] (Some (BlockStmt
           [ReturnStmt (Some (LiteralExpr ''1'' TK_INTEGER 0 0)) 0 0] 0 0)) False [] 0 0])"
    unfolding forward_class_def using class_methods_registered by blast
  with a e show ?thesis by auto
qed








lemma compatible_variant [simp]: "isCompatibleWith (TypeInfo_of GD_VARIANT) t"
  "isCompatibleWith t (TypeInfo_of GD_VARIANT)"
  by (simp_all add: isCompatibleWith_def TypeInfo_of_def)










section \<open>The object file\<close>

lemma count_instructions_acc:
  "count_instructions blocks n = n + word_of_nat (length (concat (map bb_instructions blocks)))"
  by (induction blocks arbitrary: n) (simp_all add: algebra_simps)

lemma write_instructions_acc:
  "write_instructions enc instrs file =
     file @ concat (map (\<lambda>instr. enc (word_of_nat (opcode_id (ins_opcode instr)))) instrs)"
  by (induction instrs arbitrary: "file") simp_all

lemma write_blocks_acc:
  "write_blocks enc blocks file =
     file @ concat (map (\<lambda>instr. enc (word_of_nat (opcode_id (ins_opcode instr))))
                      (concat (map bb_instructions blocks)))"
  by (induction blocks arbitrary: "file") (simp_all add: write_instructions_acc)

lemma short_name_len:
  "length name < 2 ^ 32 \<Longrightarrow> unat (word_of_nat (length name) :: 32 word) = length name"
  by (simp add: unat_of_nat take_bit_nat_eq_self)

lemma write_function_short:
  "length (fn_name func) < 2 ^ 32 \<Longrightarrow>
   write_function enc func file = file @ spec_function_record enc func"
  using short_name_len [of "fn_name func"]
  by (simp add: write_function_def spec_function_record_def all_instructions_def Let_def
      count_instructions_acc write_blocks_acc bytes_of_def)

lemma write_functions_short:
  "\<forall>func \<in> set funcs. length (fn_name func) < 2 ^ 32 \<Longrightarrow>
   write_functions enc funcs file = file @ concat (map (spec_function_record enc) funcs)"
  by (induction funcs arbitrary: "file") (simp_all add: write_function_short)

text \<open>
  Claim C8.  For every list of generated functions, the object file written by
  \<^verbatim>\<open>writeObjectFile\<close> is exactly the magic \<^verbatim>\<open>GDOBJ\<close>, the function count as a 32-bit integer,
  and then for each function in order its name length as \<^verbatim>\<open>u32\<close>, its name bytes, its total
  instruction count (summed over all blocks) as \<^verbatim>\<open>u32\<close>, and one \<^verbatim>\<open>u32\<close> opcode id per
  instruction.  This holds for every byte order \<open>enc\<close> of the machine.  The names are shorter
  than \<open>2^32\<close> bytes: a generated name is an identifier of the source, two of them joined by
  an underscore, or \<^verbatim>\<open>_lambda_N\<close>, and the lexer counts the characters of an identifier in the
  \<^verbatim>\<open>int\<close> column of its line.
\<close>

theorem writeObjectFile_layout:
  assumes "\<forall>func \<in> set functions. length (fn_name func) < 2 ^ 32"
  shows "writeObjectFile enc functions = spec_object_blob enc functions"
  using assms by (simp add: writeObjectFile_def spec_object_blob_def Let_def write_functions_short)

theorem writeObjectFile_layout_witness:
  "writeObjectFile u32_le sample_functions = spec_object_blob u32_le sample_functions \<and>
   writeObjectFile u32_le sample_functions =
     [71, 68, 79, 66, 74, 1, 0, 0, 0, 1, 0, 0, 0, 102, 2, 0, 0, 0, 0, 0, 0, 0, 26, 0, 0, 0]"
proof -
  have a: "\<forall>func \<in> set sample_functions. length (fn_name func) < 2 ^ 32"
    by (simp add: sample_functions_def Function_of_def)
  have b: "writeObjectFile u32_le sample_functions =
     [71, 68, 79, 66, 74, 1, 0, 0, 0, 1, 0, 0, 0, 102, 2, 0, 0, 0, 0, 0, 0, 0, 26, 0, 0, 0]"
    by code_simp
  from writeObjectFile_layout [OF a, of u32_le] b show ?thesis by simp
qed

text \<open>
  The bound on the names is needed: of a name of \<open>2^32\<close> bytes, \<^verbatim>\<open>writeObjectFile\<close> writes the
  length 0 and no byte.
\<close>

lemma writeObjectFile_long_name:
  "writeObjectFile u32_le [long_named_function] \<noteq> spec_object_blob u32_le [long_named_function]"
proof -
  have len: "length (fn_name long_named_function) = 2 ^ 32"
    by (simp add: long_named_function_def Function_of_def)
  have z: "(word_of_nat (length (fn_name long_named_function)) :: 32 word) = 0"
    unfolding len by simp
  have "length (writeObjectFile u32_le [long_named_function]) = 17"
    by (simp add: writeObjectFile_def write_function_def Let_def z bytes_of_def
        long_named_function_def Function_of_def u32_le_def)
  moreover have "length (spec_object_blob u32_le [long_named_function]) = 17 + 2 ^ 32"
    by (simp add: spec_object_blob_def spec_function_record_def all_instructions_def z bytes_of_def
        long_named_function_def Function_of_def u32_le_def)
  ultimately show ?thesis by (metis add_cancel_right_right zero_neq_numeral power_not_zero)
qed


end
